theory Spec2Isabelle
  imports Complex_Main "HOL-Library.List_Lexorder" "HOL-Library.Product_Lexorder"
begin

section \<open>Values held by the data frame\<close>

text \<open>
  The program (\<^verbatim>\<open>src/app.py\<close>) works on a pandas \<^verbatim>\<open>DataFrame\<close>. A frame is modelled as
  the list of its rows, in row order; a column is the list of one field over the rows.

  \<^item> A Python \<^verbatim>\<open>str\<close> is a sequence of Unicode code points: \<open>ustring\<close> is a list of
    code points, and \<open>U\<close> turns an ASCII literal into one.
  \<^item> A missing cell (\<^verbatim>\<open>NaN\<close>, \<^verbatim>\<open>None\<close>) is \<open>None\<close>.
  \<^item> \<^verbatim>\<open>QUANT.\<close>, \<^verbatim>\<open>TOTAL (R$)\<close> and \<^verbatim>\<open>BONUS\<close> are \<^verbatim>\<open>float64\<close> in the source. The model
    computes with exact rationals, so the error of binary floating point is outside the
    model; \<^verbatim>\<open>NaN\<close> is \<open>None\<close>.
  \<^item> A \<^verbatim>\<open>datetime64[ns]\<close> value is the number of nanoseconds since the epoch, a
    \<^verbatim>\<open>datetime.date\<close> the number of days since the epoch.
\<close>

type_synonym ustring = "nat list"

definition U :: "string \<Rightarrow> ustring" where
  "U s = map of_char s"

text \<open>
  A cell of the \<^verbatim>\<open>DATA\<close> column before and after \<^verbatim>\<open>pd.to_datetime\<close>: a timestamp, the
  missing value \<^verbatim>\<open>NaT\<close>, or text that has not been parsed yet.
\<close>

datatype datetime_cell = Timestamp int | NaT | RawText ustring

record viagem =
  MOTORISTA :: "ustring option"
  CENTRO_DE_CUSTO :: "ustring option"
  DATA :: datetime_cell
  QUANT :: "rat option"
  TOTAL :: "rat option"

type_synonym frame = "viagem list"

datatype erro = ValueError

section \<open>String operations of the normaliser\<close>

text \<open>
  \<^verbatim>\<open>astype(str)\<close> of pandas before version 3 (the program calls \<^verbatim>\<open>DataFrame.applymap\<close>,
  which version 3 no longer has) turns every cell into its \<^verbatim>\<open>str()\<close>: a string stays,
  a missing cell becomes the text \<^verbatim>\<open>nan\<close>.
\<close>

definition astype_str :: "ustring option \<Rightarrow> ustring" where
  "astype_str c = (case c of None \<Rightarrow> U ''nan'' | Some s \<Rightarrow> s)"

text \<open>
  \<^verbatim>\<open>str.upper\<close> maps every code point to its full upper-case mapping in the Unicode
  database of the interpreter, without regard to context; the result can be longer than
  one code point. The tables below are those of CPython 3.11 (Unicode 14.0.0):
  \<open>upper_latin1\<close> for the code points below 256, and for the 1466 code points from 256 on
  that change, blocks of sixteen entries each, selected by \<open>upper_high\<close>. Every other
  code point is left as it is.
\<close>

definition upper_latin1 :: "nat \<Rightarrow> nat list" where
  "upper_latin1 c =
     (if 97 \<le> c \<and> c \<le> 122 then [c - 32]
      else if c = 181 then [924]
      else if c = 223 then [83, 83]
      else if 224 \<le> c \<and> c \<le> 254 \<and> c \<noteq> 247 then [c - 32]
      else if c = 255 then [376]
      else [c])"

definition upper_block_01 :: "nat \<Rightarrow> nat list option" where
  "upper_block_01 c =
     (if c = 257 then Some [256] else if c = 259 then Some [258] else if c = 261 then Some [260]
      else if c = 263 then Some [262] else if c = 265 then Some [264]
      else if c = 267 then Some [266] else if c = 269 then Some [268]
      else if c = 271 then Some [270] else if c = 273 then Some [272]
      else if c = 275 then Some [274] else if c = 277 then Some [276]
      else if c = 279 then Some [278] else if c = 281 then Some [280]
      else if c = 283 then Some [282] else if c = 285 then Some [284]
      else if c = 287 then Some [286] else None)"

definition upper_block_02 :: "nat \<Rightarrow> nat list option" where
  "upper_block_02 c =
     (if c = 289 then Some [288] else if c = 291 then Some [290] else if c = 293 then Some [292]
      else if c = 295 then Some [294] else if c = 297 then Some [296]
      else if c = 299 then Some [298] else if c = 301 then Some [300]
      else if c = 303 then Some [302] else if c = 305 then Some [73]
      else if c = 307 then Some [306] else if c = 309 then Some [308]
      else if c = 311 then Some [310] else if c = 314 then Some [313]
      else if c = 316 then Some [315] else if c = 318 then Some [317]
      else if c = 320 then Some [319] else None)"

definition upper_block_03 :: "nat \<Rightarrow> nat list option" where
  "upper_block_03 c =
     (if c = 322 then Some [321] else if c = 324 then Some [323] else if c = 326 then Some [325]
      else if c = 328 then Some [327] else if c = 329 then Some [700, 78]
      else if c = 331 then Some [330] else if c = 333 then Some [332]
      else if c = 335 then Some [334] else if c = 337 then Some [336]
      else if c = 339 then Some [338] else if c = 341 then Some [340]
      else if c = 343 then Some [342] else if c = 345 then Some [344]
      else if c = 347 then Some [346] else if c = 349 then Some [348]
      else if c = 351 then Some [350] else None)"

definition upper_block_04 :: "nat \<Rightarrow> nat list option" where
  "upper_block_04 c =
     (if c = 353 then Some [352] else if c = 355 then Some [354] else if c = 357 then Some [356]
      else if c = 359 then Some [358] else if c = 361 then Some [360]
      else if c = 363 then Some [362] else if c = 365 then Some [364]
      else if c = 367 then Some [366] else if c = 369 then Some [368]
      else if c = 371 then Some [370] else if c = 373 then Some [372]
      else if c = 375 then Some [374] else if c = 378 then Some [377]
      else if c = 380 then Some [379] else if c = 382 then Some [381]
      else if c = 383 then Some [83] else None)"

definition upper_block_05 :: "nat \<Rightarrow> nat list option" where
  "upper_block_05 c =
     (if c = 384 then Some [579] else if c = 387 then Some [386] else if c = 389 then Some [388]
      else if c = 392 then Some [391] else if c = 396 then Some [395]
      else if c = 402 then Some [401] else if c = 405 then Some [502]
      else if c = 409 then Some [408] else if c = 410 then Some [573]
      else if c = 414 then Some [544] else if c = 417 then Some [416]
      else if c = 419 then Some [418] else if c = 421 then Some [420]
      else if c = 424 then Some [423] else if c = 429 then Some [428]
      else if c = 432 then Some [431] else None)"

definition upper_block_06 :: "nat \<Rightarrow> nat list option" where
  "upper_block_06 c =
     (if c = 436 then Some [435] else if c = 438 then Some [437] else if c = 441 then Some [440]
      else if c = 445 then Some [444] else if c = 447 then Some [503]
      else if c = 453 then Some [452] else if c = 454 then Some [452]
      else if c = 456 then Some [455] else if c = 457 then Some [455]
      else if c = 459 then Some [458] else if c = 460 then Some [458]
      else if c = 462 then Some [461] else if c = 464 then Some [463]
      else if c = 466 then Some [465] else if c = 468 then Some [467]
      else if c = 470 then Some [469] else None)"

definition upper_block_07 :: "nat \<Rightarrow> nat list option" where
  "upper_block_07 c =
     (if c = 472 then Some [471] else if c = 474 then Some [473] else if c = 476 then Some [475]
      else if c = 477 then Some [398] else if c = 479 then Some [478]
      else if c = 481 then Some [480] else if c = 483 then Some [482]
      else if c = 485 then Some [484] else if c = 487 then Some [486]
      else if c = 489 then Some [488] else if c = 491 then Some [490]
      else if c = 493 then Some [492] else if c = 495 then Some [494]
      else if c = 496 then Some [74, 780] else if c = 498 then Some [497]
      else if c = 499 then Some [497] else None)"

definition upper_block_08 :: "nat \<Rightarrow> nat list option" where
  "upper_block_08 c =
     (if c = 501 then Some [500] else if c = 505 then Some [504] else if c = 507 then Some [506]
      else if c = 509 then Some [508] else if c = 511 then Some [510]
      else if c = 513 then Some [512] else if c = 515 then Some [514]
      else if c = 517 then Some [516] else if c = 519 then Some [518]
      else if c = 521 then Some [520] else if c = 523 then Some [522]
      else if c = 525 then Some [524] else if c = 527 then Some [526]
      else if c = 529 then Some [528] else if c = 531 then Some [530]
      else if c = 533 then Some [532] else None)"

definition upper_block_09 :: "nat \<Rightarrow> nat list option" where
  "upper_block_09 c =
     (if c = 535 then Some [534] else if c = 537 then Some [536] else if c = 539 then Some [538]
      else if c = 541 then Some [540] else if c = 543 then Some [542]
      else if c = 547 then Some [546] else if c = 549 then Some [548]
      else if c = 551 then Some [550] else if c = 553 then Some [552]
      else if c = 555 then Some [554] else if c = 557 then Some [556]
      else if c = 559 then Some [558] else if c = 561 then Some [560]
      else if c = 563 then Some [562] else if c = 572 then Some [571]
      else if c = 575 then Some [11390] else None)"

definition upper_block_10 :: "nat \<Rightarrow> nat list option" where
  "upper_block_10 c =
     (if c = 576 then Some [11391] else if c = 578 then Some [577]
      else if c = 583 then Some [582] else if c = 585 then Some [584]
      else if c = 587 then Some [586] else if c = 589 then Some [588]
      else if c = 591 then Some [590] else if c = 592 then Some [11375]
      else if c = 593 then Some [11373] else if c = 594 then Some [11376]
      else if c = 595 then Some [385] else if c = 596 then Some [390]
      else if c = 598 then Some [393] else if c = 599 then Some [394]
      else if c = 601 then Some [399] else if c = 603 then Some [400] else None)"

definition upper_block_11 :: "nat \<Rightarrow> nat list option" where
  "upper_block_11 c =
     (if c = 604 then Some [42923] else if c = 608 then Some [403]
      else if c = 609 then Some [42924] else if c = 611 then Some [404]
      else if c = 613 then Some [42893] else if c = 614 then Some [42922]
      else if c = 616 then Some [407] else if c = 617 then Some [406]
      else if c = 618 then Some [42926] else if c = 619 then Some [11362]
      else if c = 620 then Some [42925] else if c = 623 then Some [412]
      else if c = 625 then Some [11374] else if c = 626 then Some [413]
      else if c = 629 then Some [415] else if c = 637 then Some [11364] else None)"

definition upper_block_12 :: "nat \<Rightarrow> nat list option" where
  "upper_block_12 c =
     (if c = 640 then Some [422] else if c = 642 then Some [42949]
      else if c = 643 then Some [425] else if c = 647 then Some [42929]
      else if c = 648 then Some [430] else if c = 649 then Some [580]
      else if c = 650 then Some [433] else if c = 651 then Some [434]
      else if c = 652 then Some [581] else if c = 658 then Some [439]
      else if c = 669 then Some [42930] else if c = 670 then Some [42928]
      else if c = 837 then Some [921] else if c = 881 then Some [880]
      else if c = 883 then Some [882] else if c = 887 then Some [886] else None)"

definition upper_block_13 :: "nat \<Rightarrow> nat list option" where
  "upper_block_13 c =
     (if c = 891 then Some [1021] else if c = 892 then Some [1022]
      else if c = 893 then Some [1023] else if c = 912 then Some [921, 776, 769]
      else if c = 940 then Some [902] else if c = 941 then Some [904]
      else if c = 942 then Some [905] else if c = 943 then Some [906]
      else if c = 944 then Some [933, 776, 769] else if c = 945 then Some [913]
      else if c = 946 then Some [914] else if c = 947 then Some [915]
      else if c = 948 then Some [916] else if c = 949 then Some [917]
      else if c = 950 then Some [918] else if c = 951 then Some [919] else None)"

definition upper_block_14 :: "nat \<Rightarrow> nat list option" where
  "upper_block_14 c =
     (if c = 952 then Some [920] else if c = 953 then Some [921] else if c = 954 then Some [922]
      else if c = 955 then Some [923] else if c = 956 then Some [924]
      else if c = 957 then Some [925] else if c = 958 then Some [926]
      else if c = 959 then Some [927] else if c = 960 then Some [928]
      else if c = 961 then Some [929] else if c = 962 then Some [931]
      else if c = 963 then Some [931] else if c = 964 then Some [932]
      else if c = 965 then Some [933] else if c = 966 then Some [934]
      else if c = 967 then Some [935] else None)"

definition upper_block_15 :: "nat \<Rightarrow> nat list option" where
  "upper_block_15 c =
     (if c = 968 then Some [936] else if c = 969 then Some [937] else if c = 970 then Some [938]
      else if c = 971 then Some [939] else if c = 972 then Some [908]
      else if c = 973 then Some [910] else if c = 974 then Some [911]
      else if c = 976 then Some [914] else if c = 977 then Some [920]
      else if c = 981 then Some [934] else if c = 982 then Some [928]
      else if c = 983 then Some [975] else if c = 985 then Some [984]
      else if c = 987 then Some [986] else if c = 989 then Some [988]
      else if c = 991 then Some [990] else None)"

definition upper_block_16 :: "nat \<Rightarrow> nat list option" where
  "upper_block_16 c =
     (if c = 993 then Some [992] else if c = 995 then Some [994] else if c = 997 then Some [996]
      else if c = 999 then Some [998] else if c = 1001 then Some [1000]
      else if c = 1003 then Some [1002] else if c = 1005 then Some [1004]
      else if c = 1007 then Some [1006] else if c = 1008 then Some [922]
      else if c = 1009 then Some [929] else if c = 1010 then Some [1017]
      else if c = 1011 then Some [895] else if c = 1013 then Some [917]
      else if c = 1016 then Some [1015] else if c = 1019 then Some [1018]
      else if c = 1072 then Some [1040] else None)"

definition upper_block_17 :: "nat \<Rightarrow> nat list option" where
  "upper_block_17 c =
     (if c = 1073 then Some [1041] else if c = 1074 then Some [1042]
      else if c = 1075 then Some [1043] else if c = 1076 then Some [1044]
      else if c = 1077 then Some [1045] else if c = 1078 then Some [1046]
      else if c = 1079 then Some [1047] else if c = 1080 then Some [1048]
      else if c = 1081 then Some [1049] else if c = 1082 then Some [1050]
      else if c = 1083 then Some [1051] else if c = 1084 then Some [1052]
      else if c = 1085 then Some [1053] else if c = 1086 then Some [1054]
      else if c = 1087 then Some [1055] else if c = 1088 then Some [1056] else None)"

definition upper_block_18 :: "nat \<Rightarrow> nat list option" where
  "upper_block_18 c =
     (if c = 1089 then Some [1057] else if c = 1090 then Some [1058]
      else if c = 1091 then Some [1059] else if c = 1092 then Some [1060]
      else if c = 1093 then Some [1061] else if c = 1094 then Some [1062]
      else if c = 1095 then Some [1063] else if c = 1096 then Some [1064]
      else if c = 1097 then Some [1065] else if c = 1098 then Some [1066]
      else if c = 1099 then Some [1067] else if c = 1100 then Some [1068]
      else if c = 1101 then Some [1069] else if c = 1102 then Some [1070]
      else if c = 1103 then Some [1071] else if c = 1104 then Some [1024] else None)"

definition upper_block_19 :: "nat \<Rightarrow> nat list option" where
  "upper_block_19 c =
     (if c = 1105 then Some [1025] else if c = 1106 then Some [1026]
      else if c = 1107 then Some [1027] else if c = 1108 then Some [1028]
      else if c = 1109 then Some [1029] else if c = 1110 then Some [1030]
      else if c = 1111 then Some [1031] else if c = 1112 then Some [1032]
      else if c = 1113 then Some [1033] else if c = 1114 then Some [1034]
      else if c = 1115 then Some [1035] else if c = 1116 then Some [1036]
      else if c = 1117 then Some [1037] else if c = 1118 then Some [1038]
      else if c = 1119 then Some [1039] else if c = 1121 then Some [1120] else None)"

definition upper_block_20 :: "nat \<Rightarrow> nat list option" where
  "upper_block_20 c =
     (if c = 1123 then Some [1122] else if c = 1125 then Some [1124]
      else if c = 1127 then Some [1126] else if c = 1129 then Some [1128]
      else if c = 1131 then Some [1130] else if c = 1133 then Some [1132]
      else if c = 1135 then Some [1134] else if c = 1137 then Some [1136]
      else if c = 1139 then Some [1138] else if c = 1141 then Some [1140]
      else if c = 1143 then Some [1142] else if c = 1145 then Some [1144]
      else if c = 1147 then Some [1146] else if c = 1149 then Some [1148]
      else if c = 1151 then Some [1150] else if c = 1153 then Some [1152] else None)"

definition upper_block_21 :: "nat \<Rightarrow> nat list option" where
  "upper_block_21 c =
     (if c = 1163 then Some [1162] else if c = 1165 then Some [1164]
      else if c = 1167 then Some [1166] else if c = 1169 then Some [1168]
      else if c = 1171 then Some [1170] else if c = 1173 then Some [1172]
      else if c = 1175 then Some [1174] else if c = 1177 then Some [1176]
      else if c = 1179 then Some [1178] else if c = 1181 then Some [1180]
      else if c = 1183 then Some [1182] else if c = 1185 then Some [1184]
      else if c = 1187 then Some [1186] else if c = 1189 then Some [1188]
      else if c = 1191 then Some [1190] else if c = 1193 then Some [1192] else None)"

definition upper_block_22 :: "nat \<Rightarrow> nat list option" where
  "upper_block_22 c =
     (if c = 1195 then Some [1194] else if c = 1197 then Some [1196]
      else if c = 1199 then Some [1198] else if c = 1201 then Some [1200]
      else if c = 1203 then Some [1202] else if c = 1205 then Some [1204]
      else if c = 1207 then Some [1206] else if c = 1209 then Some [1208]
      else if c = 1211 then Some [1210] else if c = 1213 then Some [1212]
      else if c = 1215 then Some [1214] else if c = 1218 then Some [1217]
      else if c = 1220 then Some [1219] else if c = 1222 then Some [1221]
      else if c = 1224 then Some [1223] else if c = 1226 then Some [1225] else None)"

definition upper_block_23 :: "nat \<Rightarrow> nat list option" where
  "upper_block_23 c =
     (if c = 1228 then Some [1227] else if c = 1230 then Some [1229]
      else if c = 1231 then Some [1216] else if c = 1233 then Some [1232]
      else if c = 1235 then Some [1234] else if c = 1237 then Some [1236]
      else if c = 1239 then Some [1238] else if c = 1241 then Some [1240]
      else if c = 1243 then Some [1242] else if c = 1245 then Some [1244]
      else if c = 1247 then Some [1246] else if c = 1249 then Some [1248]
      else if c = 1251 then Some [1250] else if c = 1253 then Some [1252]
      else if c = 1255 then Some [1254] else if c = 1257 then Some [1256] else None)"

definition upper_block_24 :: "nat \<Rightarrow> nat list option" where
  "upper_block_24 c =
     (if c = 1259 then Some [1258] else if c = 1261 then Some [1260]
      else if c = 1263 then Some [1262] else if c = 1265 then Some [1264]
      else if c = 1267 then Some [1266] else if c = 1269 then Some [1268]
      else if c = 1271 then Some [1270] else if c = 1273 then Some [1272]
      else if c = 1275 then Some [1274] else if c = 1277 then Some [1276]
      else if c = 1279 then Some [1278] else if c = 1281 then Some [1280]
      else if c = 1283 then Some [1282] else if c = 1285 then Some [1284]
      else if c = 1287 then Some [1286] else if c = 1289 then Some [1288] else None)"

definition upper_block_25 :: "nat \<Rightarrow> nat list option" where
  "upper_block_25 c =
     (if c = 1291 then Some [1290] else if c = 1293 then Some [1292]
      else if c = 1295 then Some [1294] else if c = 1297 then Some [1296]
      else if c = 1299 then Some [1298] else if c = 1301 then Some [1300]
      else if c = 1303 then Some [1302] else if c = 1305 then Some [1304]
      else if c = 1307 then Some [1306] else if c = 1309 then Some [1308]
      else if c = 1311 then Some [1310] else if c = 1313 then Some [1312]
      else if c = 1315 then Some [1314] else if c = 1317 then Some [1316]
      else if c = 1319 then Some [1318] else if c = 1321 then Some [1320] else None)"

definition upper_block_26 :: "nat \<Rightarrow> nat list option" where
  "upper_block_26 c =
     (if c = 1323 then Some [1322] else if c = 1325 then Some [1324]
      else if c = 1327 then Some [1326] else if c = 1377 then Some [1329]
      else if c = 1378 then Some [1330] else if c = 1379 then Some [1331]
      else if c = 1380 then Some [1332] else if c = 1381 then Some [1333]
      else if c = 1382 then Some [1334] else if c = 1383 then Some [1335]
      else if c = 1384 then Some [1336] else if c = 1385 then Some [1337]
      else if c = 1386 then Some [1338] else if c = 1387 then Some [1339]
      else if c = 1388 then Some [1340] else if c = 1389 then Some [1341] else None)"

definition upper_block_27 :: "nat \<Rightarrow> nat list option" where
  "upper_block_27 c =
     (if c = 1390 then Some [1342] else if c = 1391 then Some [1343]
      else if c = 1392 then Some [1344] else if c = 1393 then Some [1345]
      else if c = 1394 then Some [1346] else if c = 1395 then Some [1347]
      else if c = 1396 then Some [1348] else if c = 1397 then Some [1349]
      else if c = 1398 then Some [1350] else if c = 1399 then Some [1351]
      else if c = 1400 then Some [1352] else if c = 1401 then Some [1353]
      else if c = 1402 then Some [1354] else if c = 1403 then Some [1355]
      else if c = 1404 then Some [1356] else if c = 1405 then Some [1357] else None)"

definition upper_block_28 :: "nat \<Rightarrow> nat list option" where
  "upper_block_28 c =
     (if c = 1406 then Some [1358] else if c = 1407 then Some [1359]
      else if c = 1408 then Some [1360] else if c = 1409 then Some [1361]
      else if c = 1410 then Some [1362] else if c = 1411 then Some [1363]
      else if c = 1412 then Some [1364] else if c = 1413 then Some [1365]
      else if c = 1414 then Some [1366] else if c = 1415 then Some [1333, 1362]
      else if c = 4304 then Some [7312] else if c = 4305 then Some [7313]
      else if c = 4306 then Some [7314] else if c = 4307 then Some [7315]
      else if c = 4308 then Some [7316] else if c = 4309 then Some [7317] else None)"

definition upper_block_29 :: "nat \<Rightarrow> nat list option" where
  "upper_block_29 c =
     (if c = 4310 then Some [7318] else if c = 4311 then Some [7319]
      else if c = 4312 then Some [7320] else if c = 4313 then Some [7321]
      else if c = 4314 then Some [7322] else if c = 4315 then Some [7323]
      else if c = 4316 then Some [7324] else if c = 4317 then Some [7325]
      else if c = 4318 then Some [7326] else if c = 4319 then Some [7327]
      else if c = 4320 then Some [7328] else if c = 4321 then Some [7329]
      else if c = 4322 then Some [7330] else if c = 4323 then Some [7331]
      else if c = 4324 then Some [7332] else if c = 4325 then Some [7333] else None)"

definition upper_block_30 :: "nat \<Rightarrow> nat list option" where
  "upper_block_30 c =
     (if c = 4326 then Some [7334] else if c = 4327 then Some [7335]
      else if c = 4328 then Some [7336] else if c = 4329 then Some [7337]
      else if c = 4330 then Some [7338] else if c = 4331 then Some [7339]
      else if c = 4332 then Some [7340] else if c = 4333 then Some [7341]
      else if c = 4334 then Some [7342] else if c = 4335 then Some [7343]
      else if c = 4336 then Some [7344] else if c = 4337 then Some [7345]
      else if c = 4338 then Some [7346] else if c = 4339 then Some [7347]
      else if c = 4340 then Some [7348] else if c = 4341 then Some [7349] else None)"

definition upper_block_31 :: "nat \<Rightarrow> nat list option" where
  "upper_block_31 c =
     (if c = 4342 then Some [7350] else if c = 4343 then Some [7351]
      else if c = 4344 then Some [7352] else if c = 4345 then Some [7353]
      else if c = 4346 then Some [7354] else if c = 4349 then Some [7357]
      else if c = 4350 then Some [7358] else if c = 4351 then Some [7359]
      else if c = 5112 then Some [5104] else if c = 5113 then Some [5105]
      else if c = 5114 then Some [5106] else if c = 5115 then Some [5107]
      else if c = 5116 then Some [5108] else if c = 5117 then Some [5109]
      else if c = 7296 then Some [1042] else if c = 7297 then Some [1044] else None)"

definition upper_block_32 :: "nat \<Rightarrow> nat list option" where
  "upper_block_32 c =
     (if c = 7298 then Some [1054] else if c = 7299 then Some [1057]
      else if c = 7300 then Some [1058] else if c = 7301 then Some [1058]
      else if c = 7302 then Some [1066] else if c = 7303 then Some [1122]
      else if c = 7304 then Some [42570] else if c = 7545 then Some [42877]
      else if c = 7549 then Some [11363] else if c = 7566 then Some [42950]
      else if c = 7681 then Some [7680] else if c = 7683 then Some [7682]
      else if c = 7685 then Some [7684] else if c = 7687 then Some [7686]
      else if c = 7689 then Some [7688] else if c = 7691 then Some [7690] else None)"

definition upper_block_33 :: "nat \<Rightarrow> nat list option" where
  "upper_block_33 c =
     (if c = 7693 then Some [7692] else if c = 7695 then Some [7694]
      else if c = 7697 then Some [7696] else if c = 7699 then Some [7698]
      else if c = 7701 then Some [7700] else if c = 7703 then Some [7702]
      else if c = 7705 then Some [7704] else if c = 7707 then Some [7706]
      else if c = 7709 then Some [7708] else if c = 7711 then Some [7710]
      else if c = 7713 then Some [7712] else if c = 7715 then Some [7714]
      else if c = 7717 then Some [7716] else if c = 7719 then Some [7718]
      else if c = 7721 then Some [7720] else if c = 7723 then Some [7722] else None)"

definition upper_block_34 :: "nat \<Rightarrow> nat list option" where
  "upper_block_34 c =
     (if c = 7725 then Some [7724] else if c = 7727 then Some [7726]
      else if c = 7729 then Some [7728] else if c = 7731 then Some [7730]
      else if c = 7733 then Some [7732] else if c = 7735 then Some [7734]
      else if c = 7737 then Some [7736] else if c = 7739 then Some [7738]
      else if c = 7741 then Some [7740] else if c = 7743 then Some [7742]
      else if c = 7745 then Some [7744] else if c = 7747 then Some [7746]
      else if c = 7749 then Some [7748] else if c = 7751 then Some [7750]
      else if c = 7753 then Some [7752] else if c = 7755 then Some [7754] else None)"

definition upper_block_35 :: "nat \<Rightarrow> nat list option" where
  "upper_block_35 c =
     (if c = 7757 then Some [7756] else if c = 7759 then Some [7758]
      else if c = 7761 then Some [7760] else if c = 7763 then Some [7762]
      else if c = 7765 then Some [7764] else if c = 7767 then Some [7766]
      else if c = 7769 then Some [7768] else if c = 7771 then Some [7770]
      else if c = 7773 then Some [7772] else if c = 7775 then Some [7774]
      else if c = 7777 then Some [7776] else if c = 7779 then Some [7778]
      else if c = 7781 then Some [7780] else if c = 7783 then Some [7782]
      else if c = 7785 then Some [7784] else if c = 7787 then Some [7786] else None)"

definition upper_block_36 :: "nat \<Rightarrow> nat list option" where
  "upper_block_36 c =
     (if c = 7789 then Some [7788] else if c = 7791 then Some [7790]
      else if c = 7793 then Some [7792] else if c = 7795 then Some [7794]
      else if c = 7797 then Some [7796] else if c = 7799 then Some [7798]
      else if c = 7801 then Some [7800] else if c = 7803 then Some [7802]
      else if c = 7805 then Some [7804] else if c = 7807 then Some [7806]
      else if c = 7809 then Some [7808] else if c = 7811 then Some [7810]
      else if c = 7813 then Some [7812] else if c = 7815 then Some [7814]
      else if c = 7817 then Some [7816] else if c = 7819 then Some [7818] else None)"

definition upper_block_37 :: "nat \<Rightarrow> nat list option" where
  "upper_block_37 c =
     (if c = 7821 then Some [7820] else if c = 7823 then Some [7822]
      else if c = 7825 then Some [7824] else if c = 7827 then Some [7826]
      else if c = 7829 then Some [7828] else if c = 7830 then Some [72, 817]
      else if c = 7831 then Some [84, 776] else if c = 7832 then Some [87, 778]
      else if c = 7833 then Some [89, 778] else if c = 7834 then Some [65, 702]
      else if c = 7835 then Some [7776] else if c = 7841 then Some [7840]
      else if c = 7843 then Some [7842] else if c = 7845 then Some [7844]
      else if c = 7847 then Some [7846] else if c = 7849 then Some [7848] else None)"

definition upper_block_38 :: "nat \<Rightarrow> nat list option" where
  "upper_block_38 c =
     (if c = 7851 then Some [7850] else if c = 7853 then Some [7852]
      else if c = 7855 then Some [7854] else if c = 7857 then Some [7856]
      else if c = 7859 then Some [7858] else if c = 7861 then Some [7860]
      else if c = 7863 then Some [7862] else if c = 7865 then Some [7864]
      else if c = 7867 then Some [7866] else if c = 7869 then Some [7868]
      else if c = 7871 then Some [7870] else if c = 7873 then Some [7872]
      else if c = 7875 then Some [7874] else if c = 7877 then Some [7876]
      else if c = 7879 then Some [7878] else if c = 7881 then Some [7880] else None)"

definition upper_block_39 :: "nat \<Rightarrow> nat list option" where
  "upper_block_39 c =
     (if c = 7883 then Some [7882] else if c = 7885 then Some [7884]
      else if c = 7887 then Some [7886] else if c = 7889 then Some [7888]
      else if c = 7891 then Some [7890] else if c = 7893 then Some [7892]
      else if c = 7895 then Some [7894] else if c = 7897 then Some [7896]
      else if c = 7899 then Some [7898] else if c = 7901 then Some [7900]
      else if c = 7903 then Some [7902] else if c = 7905 then Some [7904]
      else if c = 7907 then Some [7906] else if c = 7909 then Some [7908]
      else if c = 7911 then Some [7910] else if c = 7913 then Some [7912] else None)"

definition upper_block_40 :: "nat \<Rightarrow> nat list option" where
  "upper_block_40 c =
     (if c = 7915 then Some [7914] else if c = 7917 then Some [7916]
      else if c = 7919 then Some [7918] else if c = 7921 then Some [7920]
      else if c = 7923 then Some [7922] else if c = 7925 then Some [7924]
      else if c = 7927 then Some [7926] else if c = 7929 then Some [7928]
      else if c = 7931 then Some [7930] else if c = 7933 then Some [7932]
      else if c = 7935 then Some [7934] else if c = 7936 then Some [7944]
      else if c = 7937 then Some [7945] else if c = 7938 then Some [7946]
      else if c = 7939 then Some [7947] else if c = 7940 then Some [7948] else None)"

definition upper_block_41 :: "nat \<Rightarrow> nat list option" where
  "upper_block_41 c =
     (if c = 7941 then Some [7949] else if c = 7942 then Some [7950]
      else if c = 7943 then Some [7951] else if c = 7952 then Some [7960]
      else if c = 7953 then Some [7961] else if c = 7954 then Some [7962]
      else if c = 7955 then Some [7963] else if c = 7956 then Some [7964]
      else if c = 7957 then Some [7965] else if c = 7968 then Some [7976]
      else if c = 7969 then Some [7977] else if c = 7970 then Some [7978]
      else if c = 7971 then Some [7979] else if c = 7972 then Some [7980]
      else if c = 7973 then Some [7981] else if c = 7974 then Some [7982] else None)"

definition upper_block_42 :: "nat \<Rightarrow> nat list option" where
  "upper_block_42 c =
     (if c = 7975 then Some [7983] else if c = 7984 then Some [7992]
      else if c = 7985 then Some [7993] else if c = 7986 then Some [7994]
      else if c = 7987 then Some [7995] else if c = 7988 then Some [7996]
      else if c = 7989 then Some [7997] else if c = 7990 then Some [7998]
      else if c = 7991 then Some [7999] else if c = 8000 then Some [8008]
      else if c = 8001 then Some [8009] else if c = 8002 then Some [8010]
      else if c = 8003 then Some [8011] else if c = 8004 then Some [8012]
      else if c = 8005 then Some [8013] else if c = 8016 then Some [933, 787] else None)"

definition upper_block_43 :: "nat \<Rightarrow> nat list option" where
  "upper_block_43 c =
     (if c = 8017 then Some [8025] else if c = 8018 then Some [933, 787, 768]
      else if c = 8019 then Some [8027] else if c = 8020 then Some [933, 787, 769]
      else if c = 8021 then Some [8029] else if c = 8022 then Some [933, 787, 834]
      else if c = 8023 then Some [8031] else if c = 8032 then Some [8040]
      else if c = 8033 then Some [8041] else if c = 8034 then Some [8042]
      else if c = 8035 then Some [8043] else if c = 8036 then Some [8044]
      else if c = 8037 then Some [8045] else if c = 8038 then Some [8046]
      else if c = 8039 then Some [8047] else if c = 8048 then Some [8122] else None)"

definition upper_block_44 :: "nat \<Rightarrow> nat list option" where
  "upper_block_44 c =
     (if c = 8049 then Some [8123] else if c = 8050 then Some [8136]
      else if c = 8051 then Some [8137] else if c = 8052 then Some [8138]
      else if c = 8053 then Some [8139] else if c = 8054 then Some [8154]
      else if c = 8055 then Some [8155] else if c = 8056 then Some [8184]
      else if c = 8057 then Some [8185] else if c = 8058 then Some [8170]
      else if c = 8059 then Some [8171] else if c = 8060 then Some [8186]
      else if c = 8061 then Some [8187] else if c = 8064 then Some [7944, 921]
      else if c = 8065 then Some [7945, 921] else if c = 8066 then Some [7946, 921] else None)"

definition upper_block_45 :: "nat \<Rightarrow> nat list option" where
  "upper_block_45 c =
     (if c = 8067 then Some [7947, 921] else if c = 8068 then Some [7948, 921]
      else if c = 8069 then Some [7949, 921] else if c = 8070 then Some [7950, 921]
      else if c = 8071 then Some [7951, 921] else if c = 8072 then Some [7944, 921]
      else if c = 8073 then Some [7945, 921] else if c = 8074 then Some [7946, 921]
      else if c = 8075 then Some [7947, 921] else if c = 8076 then Some [7948, 921]
      else if c = 8077 then Some [7949, 921] else if c = 8078 then Some [7950, 921]
      else if c = 8079 then Some [7951, 921] else if c = 8080 then Some [7976, 921]
      else if c = 8081 then Some [7977, 921] else if c = 8082 then Some [7978, 921] else None)"

definition upper_block_46 :: "nat \<Rightarrow> nat list option" where
  "upper_block_46 c =
     (if c = 8083 then Some [7979, 921] else if c = 8084 then Some [7980, 921]
      else if c = 8085 then Some [7981, 921] else if c = 8086 then Some [7982, 921]
      else if c = 8087 then Some [7983, 921] else if c = 8088 then Some [7976, 921]
      else if c = 8089 then Some [7977, 921] else if c = 8090 then Some [7978, 921]
      else if c = 8091 then Some [7979, 921] else if c = 8092 then Some [7980, 921]
      else if c = 8093 then Some [7981, 921] else if c = 8094 then Some [7982, 921]
      else if c = 8095 then Some [7983, 921] else if c = 8096 then Some [8040, 921]
      else if c = 8097 then Some [8041, 921] else if c = 8098 then Some [8042, 921] else None)"

definition upper_block_47 :: "nat \<Rightarrow> nat list option" where
  "upper_block_47 c =
     (if c = 8099 then Some [8043, 921] else if c = 8100 then Some [8044, 921]
      else if c = 8101 then Some [8045, 921] else if c = 8102 then Some [8046, 921]
      else if c = 8103 then Some [8047, 921] else if c = 8104 then Some [8040, 921]
      else if c = 8105 then Some [8041, 921] else if c = 8106 then Some [8042, 921]
      else if c = 8107 then Some [8043, 921] else if c = 8108 then Some [8044, 921]
      else if c = 8109 then Some [8045, 921] else if c = 8110 then Some [8046, 921]
      else if c = 8111 then Some [8047, 921] else if c = 8112 then Some [8120]
      else if c = 8113 then Some [8121] else if c = 8114 then Some [8122, 921] else None)"

definition upper_block_48 :: "nat \<Rightarrow> nat list option" where
  "upper_block_48 c =
     (if c = 8115 then Some [913, 921] else if c = 8116 then Some [902, 921]
      else if c = 8118 then Some [913, 834] else if c = 8119 then Some [913, 834, 921]
      else if c = 8124 then Some [913, 921] else if c = 8126 then Some [921]
      else if c = 8130 then Some [8138, 921] else if c = 8131 then Some [919, 921]
      else if c = 8132 then Some [905, 921] else if c = 8134 then Some [919, 834]
      else if c = 8135 then Some [919, 834, 921] else if c = 8140 then Some [919, 921]
      else if c = 8144 then Some [8152] else if c = 8145 then Some [8153]
      else if c = 8146 then Some [921, 776, 768] else if c = 8147 then Some [921, 776, 769]
      else None)"

definition upper_block_49 :: "nat \<Rightarrow> nat list option" where
  "upper_block_49 c =
     (if c = 8150 then Some [921, 834] else if c = 8151 then Some [921, 776, 834]
      else if c = 8160 then Some [8168] else if c = 8161 then Some [8169]
      else if c = 8162 then Some [933, 776, 768] else if c = 8163 then Some [933, 776, 769]
      else if c = 8164 then Some [929, 787] else if c = 8165 then Some [8172]
      else if c = 8166 then Some [933, 834] else if c = 8167 then Some [933, 776, 834]
      else if c = 8178 then Some [8186, 921] else if c = 8179 then Some [937, 921]
      else if c = 8180 then Some [911, 921] else if c = 8182 then Some [937, 834]
      else if c = 8183 then Some [937, 834, 921] else if c = 8188 then Some [937, 921] else None)"

definition upper_block_50 :: "nat \<Rightarrow> nat list option" where
  "upper_block_50 c =
     (if c = 8526 then Some [8498] else if c = 8560 then Some [8544]
      else if c = 8561 then Some [8545] else if c = 8562 then Some [8546]
      else if c = 8563 then Some [8547] else if c = 8564 then Some [8548]
      else if c = 8565 then Some [8549] else if c = 8566 then Some [8550]
      else if c = 8567 then Some [8551] else if c = 8568 then Some [8552]
      else if c = 8569 then Some [8553] else if c = 8570 then Some [8554]
      else if c = 8571 then Some [8555] else if c = 8572 then Some [8556]
      else if c = 8573 then Some [8557] else if c = 8574 then Some [8558] else None)"

definition upper_block_51 :: "nat \<Rightarrow> nat list option" where
  "upper_block_51 c =
     (if c = 8575 then Some [8559] else if c = 8580 then Some [8579]
      else if c = 9424 then Some [9398] else if c = 9425 then Some [9399]
      else if c = 9426 then Some [9400] else if c = 9427 then Some [9401]
      else if c = 9428 then Some [9402] else if c = 9429 then Some [9403]
      else if c = 9430 then Some [9404] else if c = 9431 then Some [9405]
      else if c = 9432 then Some [9406] else if c = 9433 then Some [9407]
      else if c = 9434 then Some [9408] else if c = 9435 then Some [9409]
      else if c = 9436 then Some [9410] else if c = 9437 then Some [9411] else None)"

definition upper_block_52 :: "nat \<Rightarrow> nat list option" where
  "upper_block_52 c =
     (if c = 9438 then Some [9412] else if c = 9439 then Some [9413]
      else if c = 9440 then Some [9414] else if c = 9441 then Some [9415]
      else if c = 9442 then Some [9416] else if c = 9443 then Some [9417]
      else if c = 9444 then Some [9418] else if c = 9445 then Some [9419]
      else if c = 9446 then Some [9420] else if c = 9447 then Some [9421]
      else if c = 9448 then Some [9422] else if c = 9449 then Some [9423]
      else if c = 11312 then Some [11264] else if c = 11313 then Some [11265]
      else if c = 11314 then Some [11266] else if c = 11315 then Some [11267] else None)"

definition upper_block_53 :: "nat \<Rightarrow> nat list option" where
  "upper_block_53 c =
     (if c = 11316 then Some [11268] else if c = 11317 then Some [11269]
      else if c = 11318 then Some [11270] else if c = 11319 then Some [11271]
      else if c = 11320 then Some [11272] else if c = 11321 then Some [11273]
      else if c = 11322 then Some [11274] else if c = 11323 then Some [11275]
      else if c = 11324 then Some [11276] else if c = 11325 then Some [11277]
      else if c = 11326 then Some [11278] else if c = 11327 then Some [11279]
      else if c = 11328 then Some [11280] else if c = 11329 then Some [11281]
      else if c = 11330 then Some [11282] else if c = 11331 then Some [11283] else None)"

definition upper_block_54 :: "nat \<Rightarrow> nat list option" where
  "upper_block_54 c =
     (if c = 11332 then Some [11284] else if c = 11333 then Some [11285]
      else if c = 11334 then Some [11286] else if c = 11335 then Some [11287]
      else if c = 11336 then Some [11288] else if c = 11337 then Some [11289]
      else if c = 11338 then Some [11290] else if c = 11339 then Some [11291]
      else if c = 11340 then Some [11292] else if c = 11341 then Some [11293]
      else if c = 11342 then Some [11294] else if c = 11343 then Some [11295]
      else if c = 11344 then Some [11296] else if c = 11345 then Some [11297]
      else if c = 11346 then Some [11298] else if c = 11347 then Some [11299] else None)"

definition upper_block_55 :: "nat \<Rightarrow> nat list option" where
  "upper_block_55 c =
     (if c = 11348 then Some [11300] else if c = 11349 then Some [11301]
      else if c = 11350 then Some [11302] else if c = 11351 then Some [11303]
      else if c = 11352 then Some [11304] else if c = 11353 then Some [11305]
      else if c = 11354 then Some [11306] else if c = 11355 then Some [11307]
      else if c = 11356 then Some [11308] else if c = 11357 then Some [11309]
      else if c = 11358 then Some [11310] else if c = 11359 then Some [11311]
      else if c = 11361 then Some [11360] else if c = 11365 then Some [570]
      else if c = 11366 then Some [574] else if c = 11368 then Some [11367] else None)"

definition upper_block_56 :: "nat \<Rightarrow> nat list option" where
  "upper_block_56 c =
     (if c = 11370 then Some [11369] else if c = 11372 then Some [11371]
      else if c = 11379 then Some [11378] else if c = 11382 then Some [11381]
      else if c = 11393 then Some [11392] else if c = 11395 then Some [11394]
      else if c = 11397 then Some [11396] else if c = 11399 then Some [11398]
      else if c = 11401 then Some [11400] else if c = 11403 then Some [11402]
      else if c = 11405 then Some [11404] else if c = 11407 then Some [11406]
      else if c = 11409 then Some [11408] else if c = 11411 then Some [11410]
      else if c = 11413 then Some [11412] else if c = 11415 then Some [11414] else None)"

definition upper_block_57 :: "nat \<Rightarrow> nat list option" where
  "upper_block_57 c =
     (if c = 11417 then Some [11416] else if c = 11419 then Some [11418]
      else if c = 11421 then Some [11420] else if c = 11423 then Some [11422]
      else if c = 11425 then Some [11424] else if c = 11427 then Some [11426]
      else if c = 11429 then Some [11428] else if c = 11431 then Some [11430]
      else if c = 11433 then Some [11432] else if c = 11435 then Some [11434]
      else if c = 11437 then Some [11436] else if c = 11439 then Some [11438]
      else if c = 11441 then Some [11440] else if c = 11443 then Some [11442]
      else if c = 11445 then Some [11444] else if c = 11447 then Some [11446] else None)"

definition upper_block_58 :: "nat \<Rightarrow> nat list option" where
  "upper_block_58 c =
     (if c = 11449 then Some [11448] else if c = 11451 then Some [11450]
      else if c = 11453 then Some [11452] else if c = 11455 then Some [11454]
      else if c = 11457 then Some [11456] else if c = 11459 then Some [11458]
      else if c = 11461 then Some [11460] else if c = 11463 then Some [11462]
      else if c = 11465 then Some [11464] else if c = 11467 then Some [11466]
      else if c = 11469 then Some [11468] else if c = 11471 then Some [11470]
      else if c = 11473 then Some [11472] else if c = 11475 then Some [11474]
      else if c = 11477 then Some [11476] else if c = 11479 then Some [11478] else None)"

definition upper_block_59 :: "nat \<Rightarrow> nat list option" where
  "upper_block_59 c =
     (if c = 11481 then Some [11480] else if c = 11483 then Some [11482]
      else if c = 11485 then Some [11484] else if c = 11487 then Some [11486]
      else if c = 11489 then Some [11488] else if c = 11491 then Some [11490]
      else if c = 11500 then Some [11499] else if c = 11502 then Some [11501]
      else if c = 11507 then Some [11506] else if c = 11520 then Some [4256]
      else if c = 11521 then Some [4257] else if c = 11522 then Some [4258]
      else if c = 11523 then Some [4259] else if c = 11524 then Some [4260]
      else if c = 11525 then Some [4261] else if c = 11526 then Some [4262] else None)"

definition upper_block_60 :: "nat \<Rightarrow> nat list option" where
  "upper_block_60 c =
     (if c = 11527 then Some [4263] else if c = 11528 then Some [4264]
      else if c = 11529 then Some [4265] else if c = 11530 then Some [4266]
      else if c = 11531 then Some [4267] else if c = 11532 then Some [4268]
      else if c = 11533 then Some [4269] else if c = 11534 then Some [4270]
      else if c = 11535 then Some [4271] else if c = 11536 then Some [4272]
      else if c = 11537 then Some [4273] else if c = 11538 then Some [4274]
      else if c = 11539 then Some [4275] else if c = 11540 then Some [4276]
      else if c = 11541 then Some [4277] else if c = 11542 then Some [4278] else None)"

definition upper_block_61 :: "nat \<Rightarrow> nat list option" where
  "upper_block_61 c =
     (if c = 11543 then Some [4279] else if c = 11544 then Some [4280]
      else if c = 11545 then Some [4281] else if c = 11546 then Some [4282]
      else if c = 11547 then Some [4283] else if c = 11548 then Some [4284]
      else if c = 11549 then Some [4285] else if c = 11550 then Some [4286]
      else if c = 11551 then Some [4287] else if c = 11552 then Some [4288]
      else if c = 11553 then Some [4289] else if c = 11554 then Some [4290]
      else if c = 11555 then Some [4291] else if c = 11556 then Some [4292]
      else if c = 11557 then Some [4293] else if c = 11559 then Some [4295] else None)"

definition upper_block_62 :: "nat \<Rightarrow> nat list option" where
  "upper_block_62 c =
     (if c = 11565 then Some [4301] else if c = 42561 then Some [42560]
      else if c = 42563 then Some [42562] else if c = 42565 then Some [42564]
      else if c = 42567 then Some [42566] else if c = 42569 then Some [42568]
      else if c = 42571 then Some [42570] else if c = 42573 then Some [42572]
      else if c = 42575 then Some [42574] else if c = 42577 then Some [42576]
      else if c = 42579 then Some [42578] else if c = 42581 then Some [42580]
      else if c = 42583 then Some [42582] else if c = 42585 then Some [42584]
      else if c = 42587 then Some [42586] else if c = 42589 then Some [42588] else None)"

definition upper_block_63 :: "nat \<Rightarrow> nat list option" where
  "upper_block_63 c =
     (if c = 42591 then Some [42590] else if c = 42593 then Some [42592]
      else if c = 42595 then Some [42594] else if c = 42597 then Some [42596]
      else if c = 42599 then Some [42598] else if c = 42601 then Some [42600]
      else if c = 42603 then Some [42602] else if c = 42605 then Some [42604]
      else if c = 42625 then Some [42624] else if c = 42627 then Some [42626]
      else if c = 42629 then Some [42628] else if c = 42631 then Some [42630]
      else if c = 42633 then Some [42632] else if c = 42635 then Some [42634]
      else if c = 42637 then Some [42636] else if c = 42639 then Some [42638] else None)"

definition upper_block_64 :: "nat \<Rightarrow> nat list option" where
  "upper_block_64 c =
     (if c = 42641 then Some [42640] else if c = 42643 then Some [42642]
      else if c = 42645 then Some [42644] else if c = 42647 then Some [42646]
      else if c = 42649 then Some [42648] else if c = 42651 then Some [42650]
      else if c = 42787 then Some [42786] else if c = 42789 then Some [42788]
      else if c = 42791 then Some [42790] else if c = 42793 then Some [42792]
      else if c = 42795 then Some [42794] else if c = 42797 then Some [42796]
      else if c = 42799 then Some [42798] else if c = 42803 then Some [42802]
      else if c = 42805 then Some [42804] else if c = 42807 then Some [42806] else None)"

definition upper_block_65 :: "nat \<Rightarrow> nat list option" where
  "upper_block_65 c =
     (if c = 42809 then Some [42808] else if c = 42811 then Some [42810]
      else if c = 42813 then Some [42812] else if c = 42815 then Some [42814]
      else if c = 42817 then Some [42816] else if c = 42819 then Some [42818]
      else if c = 42821 then Some [42820] else if c = 42823 then Some [42822]
      else if c = 42825 then Some [42824] else if c = 42827 then Some [42826]
      else if c = 42829 then Some [42828] else if c = 42831 then Some [42830]
      else if c = 42833 then Some [42832] else if c = 42835 then Some [42834]
      else if c = 42837 then Some [42836] else if c = 42839 then Some [42838] else None)"

definition upper_block_66 :: "nat \<Rightarrow> nat list option" where
  "upper_block_66 c =
     (if c = 42841 then Some [42840] else if c = 42843 then Some [42842]
      else if c = 42845 then Some [42844] else if c = 42847 then Some [42846]
      else if c = 42849 then Some [42848] else if c = 42851 then Some [42850]
      else if c = 42853 then Some [42852] else if c = 42855 then Some [42854]
      else if c = 42857 then Some [42856] else if c = 42859 then Some [42858]
      else if c = 42861 then Some [42860] else if c = 42863 then Some [42862]
      else if c = 42874 then Some [42873] else if c = 42876 then Some [42875]
      else if c = 42879 then Some [42878] else if c = 42881 then Some [42880] else None)"

definition upper_block_67 :: "nat \<Rightarrow> nat list option" where
  "upper_block_67 c =
     (if c = 42883 then Some [42882] else if c = 42885 then Some [42884]
      else if c = 42887 then Some [42886] else if c = 42892 then Some [42891]
      else if c = 42897 then Some [42896] else if c = 42899 then Some [42898]
      else if c = 42900 then Some [42948] else if c = 42903 then Some [42902]
      else if c = 42905 then Some [42904] else if c = 42907 then Some [42906]
      else if c = 42909 then Some [42908] else if c = 42911 then Some [42910]
      else if c = 42913 then Some [42912] else if c = 42915 then Some [42914]
      else if c = 42917 then Some [42916] else if c = 42919 then Some [42918] else None)"

definition upper_block_68 :: "nat \<Rightarrow> nat list option" where
  "upper_block_68 c =
     (if c = 42921 then Some [42920] else if c = 42933 then Some [42932]
      else if c = 42935 then Some [42934] else if c = 42937 then Some [42936]
      else if c = 42939 then Some [42938] else if c = 42941 then Some [42940]
      else if c = 42943 then Some [42942] else if c = 42945 then Some [42944]
      else if c = 42947 then Some [42946] else if c = 42952 then Some [42951]
      else if c = 42954 then Some [42953] else if c = 42961 then Some [42960]
      else if c = 42967 then Some [42966] else if c = 42969 then Some [42968]
      else if c = 42998 then Some [42997] else if c = 43859 then Some [42931] else None)"

definition upper_block_69 :: "nat \<Rightarrow> nat list option" where
  "upper_block_69 c =
     (if c = 43888 then Some [5024] else if c = 43889 then Some [5025]
      else if c = 43890 then Some [5026] else if c = 43891 then Some [5027]
      else if c = 43892 then Some [5028] else if c = 43893 then Some [5029]
      else if c = 43894 then Some [5030] else if c = 43895 then Some [5031]
      else if c = 43896 then Some [5032] else if c = 43897 then Some [5033]
      else if c = 43898 then Some [5034] else if c = 43899 then Some [5035]
      else if c = 43900 then Some [5036] else if c = 43901 then Some [5037]
      else if c = 43902 then Some [5038] else if c = 43903 then Some [5039] else None)"

definition upper_block_70 :: "nat \<Rightarrow> nat list option" where
  "upper_block_70 c =
     (if c = 43904 then Some [5040] else if c = 43905 then Some [5041]
      else if c = 43906 then Some [5042] else if c = 43907 then Some [5043]
      else if c = 43908 then Some [5044] else if c = 43909 then Some [5045]
      else if c = 43910 then Some [5046] else if c = 43911 then Some [5047]
      else if c = 43912 then Some [5048] else if c = 43913 then Some [5049]
      else if c = 43914 then Some [5050] else if c = 43915 then Some [5051]
      else if c = 43916 then Some [5052] else if c = 43917 then Some [5053]
      else if c = 43918 then Some [5054] else if c = 43919 then Some [5055] else None)"

definition upper_block_71 :: "nat \<Rightarrow> nat list option" where
  "upper_block_71 c =
     (if c = 43920 then Some [5056] else if c = 43921 then Some [5057]
      else if c = 43922 then Some [5058] else if c = 43923 then Some [5059]
      else if c = 43924 then Some [5060] else if c = 43925 then Some [5061]
      else if c = 43926 then Some [5062] else if c = 43927 then Some [5063]
      else if c = 43928 then Some [5064] else if c = 43929 then Some [5065]
      else if c = 43930 then Some [5066] else if c = 43931 then Some [5067]
      else if c = 43932 then Some [5068] else if c = 43933 then Some [5069]
      else if c = 43934 then Some [5070] else if c = 43935 then Some [5071] else None)"

definition upper_block_72 :: "nat \<Rightarrow> nat list option" where
  "upper_block_72 c =
     (if c = 43936 then Some [5072] else if c = 43937 then Some [5073]
      else if c = 43938 then Some [5074] else if c = 43939 then Some [5075]
      else if c = 43940 then Some [5076] else if c = 43941 then Some [5077]
      else if c = 43942 then Some [5078] else if c = 43943 then Some [5079]
      else if c = 43944 then Some [5080] else if c = 43945 then Some [5081]
      else if c = 43946 then Some [5082] else if c = 43947 then Some [5083]
      else if c = 43948 then Some [5084] else if c = 43949 then Some [5085]
      else if c = 43950 then Some [5086] else if c = 43951 then Some [5087] else None)"

definition upper_block_73 :: "nat \<Rightarrow> nat list option" where
  "upper_block_73 c =
     (if c = 43952 then Some [5088] else if c = 43953 then Some [5089]
      else if c = 43954 then Some [5090] else if c = 43955 then Some [5091]
      else if c = 43956 then Some [5092] else if c = 43957 then Some [5093]
      else if c = 43958 then Some [5094] else if c = 43959 then Some [5095]
      else if c = 43960 then Some [5096] else if c = 43961 then Some [5097]
      else if c = 43962 then Some [5098] else if c = 43963 then Some [5099]
      else if c = 43964 then Some [5100] else if c = 43965 then Some [5101]
      else if c = 43966 then Some [5102] else if c = 43967 then Some [5103] else None)"

definition upper_block_74 :: "nat \<Rightarrow> nat list option" where
  "upper_block_74 c =
     (if c = 64256 then Some [70, 70] else if c = 64257 then Some [70, 73]
      else if c = 64258 then Some [70, 76] else if c = 64259 then Some [70, 70, 73]
      else if c = 64260 then Some [70, 70, 76] else if c = 64261 then Some [83, 84]
      else if c = 64262 then Some [83, 84] else if c = 64275 then Some [1348, 1350]
      else if c = 64276 then Some [1348, 1333] else if c = 64277 then Some [1348, 1339]
      else if c = 64278 then Some [1358, 1350] else if c = 64279 then Some [1348, 1341]
      else if c = 65345 then Some [65313] else if c = 65346 then Some [65314]
      else if c = 65347 then Some [65315] else if c = 65348 then Some [65316] else None)"

definition upper_block_75 :: "nat \<Rightarrow> nat list option" where
  "upper_block_75 c =
     (if c = 65349 then Some [65317] else if c = 65350 then Some [65318]
      else if c = 65351 then Some [65319] else if c = 65352 then Some [65320]
      else if c = 65353 then Some [65321] else if c = 65354 then Some [65322]
      else if c = 65355 then Some [65323] else if c = 65356 then Some [65324]
      else if c = 65357 then Some [65325] else if c = 65358 then Some [65326]
      else if c = 65359 then Some [65327] else if c = 65360 then Some [65328]
      else if c = 65361 then Some [65329] else if c = 65362 then Some [65330]
      else if c = 65363 then Some [65331] else if c = 65364 then Some [65332] else None)"

definition upper_block_76 :: "nat \<Rightarrow> nat list option" where
  "upper_block_76 c =
     (if c = 65365 then Some [65333] else if c = 65366 then Some [65334]
      else if c = 65367 then Some [65335] else if c = 65368 then Some [65336]
      else if c = 65369 then Some [65337] else if c = 65370 then Some [65338]
      else if c = 66600 then Some [66560] else if c = 66601 then Some [66561]
      else if c = 66602 then Some [66562] else if c = 66603 then Some [66563]
      else if c = 66604 then Some [66564] else if c = 66605 then Some [66565]
      else if c = 66606 then Some [66566] else if c = 66607 then Some [66567]
      else if c = 66608 then Some [66568] else if c = 66609 then Some [66569] else None)"

definition upper_block_77 :: "nat \<Rightarrow> nat list option" where
  "upper_block_77 c =
     (if c = 66610 then Some [66570] else if c = 66611 then Some [66571]
      else if c = 66612 then Some [66572] else if c = 66613 then Some [66573]
      else if c = 66614 then Some [66574] else if c = 66615 then Some [66575]
      else if c = 66616 then Some [66576] else if c = 66617 then Some [66577]
      else if c = 66618 then Some [66578] else if c = 66619 then Some [66579]
      else if c = 66620 then Some [66580] else if c = 66621 then Some [66581]
      else if c = 66622 then Some [66582] else if c = 66623 then Some [66583]
      else if c = 66624 then Some [66584] else if c = 66625 then Some [66585] else None)"

definition upper_block_78 :: "nat \<Rightarrow> nat list option" where
  "upper_block_78 c =
     (if c = 66626 then Some [66586] else if c = 66627 then Some [66587]
      else if c = 66628 then Some [66588] else if c = 66629 then Some [66589]
      else if c = 66630 then Some [66590] else if c = 66631 then Some [66591]
      else if c = 66632 then Some [66592] else if c = 66633 then Some [66593]
      else if c = 66634 then Some [66594] else if c = 66635 then Some [66595]
      else if c = 66636 then Some [66596] else if c = 66637 then Some [66597]
      else if c = 66638 then Some [66598] else if c = 66639 then Some [66599]
      else if c = 66776 then Some [66736] else if c = 66777 then Some [66737] else None)"

definition upper_block_79 :: "nat \<Rightarrow> nat list option" where
  "upper_block_79 c =
     (if c = 66778 then Some [66738] else if c = 66779 then Some [66739]
      else if c = 66780 then Some [66740] else if c = 66781 then Some [66741]
      else if c = 66782 then Some [66742] else if c = 66783 then Some [66743]
      else if c = 66784 then Some [66744] else if c = 66785 then Some [66745]
      else if c = 66786 then Some [66746] else if c = 66787 then Some [66747]
      else if c = 66788 then Some [66748] else if c = 66789 then Some [66749]
      else if c = 66790 then Some [66750] else if c = 66791 then Some [66751]
      else if c = 66792 then Some [66752] else if c = 66793 then Some [66753] else None)"

definition upper_block_80 :: "nat \<Rightarrow> nat list option" where
  "upper_block_80 c =
     (if c = 66794 then Some [66754] else if c = 66795 then Some [66755]
      else if c = 66796 then Some [66756] else if c = 66797 then Some [66757]
      else if c = 66798 then Some [66758] else if c = 66799 then Some [66759]
      else if c = 66800 then Some [66760] else if c = 66801 then Some [66761]
      else if c = 66802 then Some [66762] else if c = 66803 then Some [66763]
      else if c = 66804 then Some [66764] else if c = 66805 then Some [66765]
      else if c = 66806 then Some [66766] else if c = 66807 then Some [66767]
      else if c = 66808 then Some [66768] else if c = 66809 then Some [66769] else None)"

definition upper_block_81 :: "nat \<Rightarrow> nat list option" where
  "upper_block_81 c =
     (if c = 66810 then Some [66770] else if c = 66811 then Some [66771]
      else if c = 66967 then Some [66928] else if c = 66968 then Some [66929]
      else if c = 66969 then Some [66930] else if c = 66970 then Some [66931]
      else if c = 66971 then Some [66932] else if c = 66972 then Some [66933]
      else if c = 66973 then Some [66934] else if c = 66974 then Some [66935]
      else if c = 66975 then Some [66936] else if c = 66976 then Some [66937]
      else if c = 66977 then Some [66938] else if c = 66979 then Some [66940]
      else if c = 66980 then Some [66941] else if c = 66981 then Some [66942] else None)"

definition upper_block_82 :: "nat \<Rightarrow> nat list option" where
  "upper_block_82 c =
     (if c = 66982 then Some [66943] else if c = 66983 then Some [66944]
      else if c = 66984 then Some [66945] else if c = 66985 then Some [66946]
      else if c = 66986 then Some [66947] else if c = 66987 then Some [66948]
      else if c = 66988 then Some [66949] else if c = 66989 then Some [66950]
      else if c = 66990 then Some [66951] else if c = 66991 then Some [66952]
      else if c = 66992 then Some [66953] else if c = 66993 then Some [66954]
      else if c = 66995 then Some [66956] else if c = 66996 then Some [66957]
      else if c = 66997 then Some [66958] else if c = 66998 then Some [66959] else None)"

definition upper_block_83 :: "nat \<Rightarrow> nat list option" where
  "upper_block_83 c =
     (if c = 66999 then Some [66960] else if c = 67000 then Some [66961]
      else if c = 67001 then Some [66962] else if c = 67003 then Some [66964]
      else if c = 67004 then Some [66965] else if c = 68800 then Some [68736]
      else if c = 68801 then Some [68737] else if c = 68802 then Some [68738]
      else if c = 68803 then Some [68739] else if c = 68804 then Some [68740]
      else if c = 68805 then Some [68741] else if c = 68806 then Some [68742]
      else if c = 68807 then Some [68743] else if c = 68808 then Some [68744]
      else if c = 68809 then Some [68745] else if c = 68810 then Some [68746] else None)"

definition upper_block_84 :: "nat \<Rightarrow> nat list option" where
  "upper_block_84 c =
     (if c = 68811 then Some [68747] else if c = 68812 then Some [68748]
      else if c = 68813 then Some [68749] else if c = 68814 then Some [68750]
      else if c = 68815 then Some [68751] else if c = 68816 then Some [68752]
      else if c = 68817 then Some [68753] else if c = 68818 then Some [68754]
      else if c = 68819 then Some [68755] else if c = 68820 then Some [68756]
      else if c = 68821 then Some [68757] else if c = 68822 then Some [68758]
      else if c = 68823 then Some [68759] else if c = 68824 then Some [68760]
      else if c = 68825 then Some [68761] else if c = 68826 then Some [68762] else None)"

definition upper_block_85 :: "nat \<Rightarrow> nat list option" where
  "upper_block_85 c =
     (if c = 68827 then Some [68763] else if c = 68828 then Some [68764]
      else if c = 68829 then Some [68765] else if c = 68830 then Some [68766]
      else if c = 68831 then Some [68767] else if c = 68832 then Some [68768]
      else if c = 68833 then Some [68769] else if c = 68834 then Some [68770]
      else if c = 68835 then Some [68771] else if c = 68836 then Some [68772]
      else if c = 68837 then Some [68773] else if c = 68838 then Some [68774]
      else if c = 68839 then Some [68775] else if c = 68840 then Some [68776]
      else if c = 68841 then Some [68777] else if c = 68842 then Some [68778] else None)"

definition upper_block_86 :: "nat \<Rightarrow> nat list option" where
  "upper_block_86 c =
     (if c = 68843 then Some [68779] else if c = 68844 then Some [68780]
      else if c = 68845 then Some [68781] else if c = 68846 then Some [68782]
      else if c = 68847 then Some [68783] else if c = 68848 then Some [68784]
      else if c = 68849 then Some [68785] else if c = 68850 then Some [68786]
      else if c = 71872 then Some [71840] else if c = 71873 then Some [71841]
      else if c = 71874 then Some [71842] else if c = 71875 then Some [71843]
      else if c = 71876 then Some [71844] else if c = 71877 then Some [71845]
      else if c = 71878 then Some [71846] else if c = 71879 then Some [71847] else None)"

definition upper_block_87 :: "nat \<Rightarrow> nat list option" where
  "upper_block_87 c =
     (if c = 71880 then Some [71848] else if c = 71881 then Some [71849]
      else if c = 71882 then Some [71850] else if c = 71883 then Some [71851]
      else if c = 71884 then Some [71852] else if c = 71885 then Some [71853]
      else if c = 71886 then Some [71854] else if c = 71887 then Some [71855]
      else if c = 71888 then Some [71856] else if c = 71889 then Some [71857]
      else if c = 71890 then Some [71858] else if c = 71891 then Some [71859]
      else if c = 71892 then Some [71860] else if c = 71893 then Some [71861]
      else if c = 71894 then Some [71862] else if c = 71895 then Some [71863] else None)"

definition upper_block_88 :: "nat \<Rightarrow> nat list option" where
  "upper_block_88 c =
     (if c = 71896 then Some [71864] else if c = 71897 then Some [71865]
      else if c = 71898 then Some [71866] else if c = 71899 then Some [71867]
      else if c = 71900 then Some [71868] else if c = 71901 then Some [71869]
      else if c = 71902 then Some [71870] else if c = 71903 then Some [71871]
      else if c = 93792 then Some [93760] else if c = 93793 then Some [93761]
      else if c = 93794 then Some [93762] else if c = 93795 then Some [93763]
      else if c = 93796 then Some [93764] else if c = 93797 then Some [93765]
      else if c = 93798 then Some [93766] else if c = 93799 then Some [93767] else None)"

definition upper_block_89 :: "nat \<Rightarrow> nat list option" where
  "upper_block_89 c =
     (if c = 93800 then Some [93768] else if c = 93801 then Some [93769]
      else if c = 93802 then Some [93770] else if c = 93803 then Some [93771]
      else if c = 93804 then Some [93772] else if c = 93805 then Some [93773]
      else if c = 93806 then Some [93774] else if c = 93807 then Some [93775]
      else if c = 93808 then Some [93776] else if c = 93809 then Some [93777]
      else if c = 93810 then Some [93778] else if c = 93811 then Some [93779]
      else if c = 93812 then Some [93780] else if c = 93813 then Some [93781]
      else if c = 93814 then Some [93782] else if c = 93815 then Some [93783] else None)"

definition upper_block_90 :: "nat \<Rightarrow> nat list option" where
  "upper_block_90 c =
     (if c = 93816 then Some [93784] else if c = 93817 then Some [93785]
      else if c = 93818 then Some [93786] else if c = 93819 then Some [93787]
      else if c = 93820 then Some [93788] else if c = 93821 then Some [93789]
      else if c = 93822 then Some [93790] else if c = 93823 then Some [93791]
      else if c = 125218 then Some [125184] else if c = 125219 then Some [125185]
      else if c = 125220 then Some [125186] else if c = 125221 then Some [125187]
      else if c = 125222 then Some [125188] else if c = 125223 then Some [125189]
      else if c = 125224 then Some [125190] else if c = 125225 then Some [125191] else None)"

definition upper_block_91 :: "nat \<Rightarrow> nat list option" where
  "upper_block_91 c =
     (if c = 125226 then Some [125192] else if c = 125227 then Some [125193]
      else if c = 125228 then Some [125194] else if c = 125229 then Some [125195]
      else if c = 125230 then Some [125196] else if c = 125231 then Some [125197]
      else if c = 125232 then Some [125198] else if c = 125233 then Some [125199]
      else if c = 125234 then Some [125200] else if c = 125235 then Some [125201]
      else if c = 125236 then Some [125202] else if c = 125237 then Some [125203]
      else if c = 125238 then Some [125204] else if c = 125239 then Some [125205]
      else if c = 125240 then Some [125206] else if c = 125241 then Some [125207] else None)"

definition upper_block_92 :: "nat \<Rightarrow> nat list option" where
  "upper_block_92 c =
     (if c = 125242 then Some [125208] else if c = 125243 then Some [125209]
      else if c = 125244 then Some [125210] else if c = 125245 then Some [125211]
      else if c = 125246 then Some [125212] else if c = 125247 then Some [125213]
      else if c = 125248 then Some [125214] else if c = 125249 then Some [125215]
      else if c = 125250 then Some [125216] else if c = 125251 then Some [125217] else None)"

definition upper_high :: "nat \<Rightarrow> nat list option" where
  "upper_high c =
     (if c < 8099
      then if c < 1259
           then if c < 640
                then if c < 436
                     then if c < 322
                          then if c < 289
                               then upper_block_01 c
                               else upper_block_02 c
                          else if c < 353
                               then upper_block_03 c
                               else if c < 384
                                    then upper_block_04 c
                                    else upper_block_05 c
                     else if c < 535
                          then if c < 472
                               then upper_block_06 c
                               else if c < 501
                                    then upper_block_07 c
                                    else upper_block_08 c
                          else if c < 576
                               then upper_block_09 c
                               else if c < 604
                                    then upper_block_10 c
                                    else upper_block_11 c
                else if c < 1089
                     then if c < 968
                          then if c < 891
                               then upper_block_12 c
                               else if c < 952
                                    then upper_block_13 c
                                    else upper_block_14 c
                          else if c < 993
                               then upper_block_15 c
                               else if c < 1073
                                    then upper_block_16 c
                                    else upper_block_17 c
                     else if c < 1163
                          then if c < 1105
                               then upper_block_18 c
                               else if c < 1123
                                    then upper_block_19 c
                                    else upper_block_20 c
                          else if c < 1195
                               then upper_block_21 c
                               else if c < 1228
                                    then upper_block_22 c
                                    else upper_block_23 c
           else if c < 7757
                then if c < 4310
                     then if c < 1323
                          then if c < 1291
                               then upper_block_24 c
                               else upper_block_25 c
                          else if c < 1390
                               then upper_block_26 c
                               else if c < 1406
                                    then upper_block_27 c
                                    else upper_block_28 c
                     else if c < 7298
                          then if c < 4326
                               then upper_block_29 c
                               else if c < 4342
                                    then upper_block_30 c
                                    else upper_block_31 c
                          else if c < 7693
                               then upper_block_32 c
                               else if c < 7725
                                    then upper_block_33 c
                                    else upper_block_34 c
                else if c < 7941
                     then if c < 7851
                          then if c < 7789
                               then upper_block_35 c
                               else if c < 7821
                                    then upper_block_36 c
                                    else upper_block_37 c
                          else if c < 7883
                               then upper_block_38 c
                               else if c < 7915
                                    then upper_block_39 c
                                    else upper_block_40 c
                     else if c < 8049
                          then if c < 7975
                               then upper_block_41 c
                               else if c < 8017
                                    then upper_block_42 c
                                    else upper_block_43 c
                          else if c < 8067
                               then upper_block_44 c
                               else if c < 8083
                                    then upper_block_45 c
                                    else upper_block_46 c
      else if c < 43904
           then if c < 11449
                then if c < 9438
                     then if c < 8150
                          then if c < 8115
                               then upper_block_47 c
                               else upper_block_48 c
                          else if c < 8526
                               then upper_block_49 c
                               else if c < 8575
                                    then upper_block_50 c
                                    else upper_block_51 c
                     else if c < 11348
                          then if c < 11316
                               then upper_block_52 c
                               else if c < 11332
                                    then upper_block_53 c
                                    else upper_block_54 c
                          else if c < 11370
                               then upper_block_55 c
                               else if c < 11417
                                    then upper_block_56 c
                                    else upper_block_57 c
                else if c < 42641
                     then if c < 11543
                          then if c < 11481
                               then upper_block_58 c
                               else if c < 11527
                                    then upper_block_59 c
                                    else upper_block_60 c
                          else if c < 11565
                               then upper_block_61 c
                               else if c < 42591
                                    then upper_block_62 c
                                    else upper_block_63 c
                     else if c < 42883
                          then if c < 42809
                               then upper_block_64 c
                               else if c < 42841
                                    then upper_block_65 c
                                    else upper_block_66 c
                          else if c < 42921
                               then upper_block_67 c
                               else if c < 43888
                                    then upper_block_68 c
                                    else upper_block_69 c
           else if c < 66810
                then if c < 65349
                     then if c < 43936
                          then if c < 43920
                               then upper_block_70 c
                               else upper_block_71 c
                          else if c < 43952
                               then upper_block_72 c
                               else if c < 64256
                                    then upper_block_73 c
                                    else upper_block_74 c
                     else if c < 66626
                          then if c < 65365
                               then upper_block_75 c
                               else if c < 66610
                                    then upper_block_76 c
                                    else upper_block_77 c
                          else if c < 66778
                               then upper_block_78 c
                               else if c < 66794
                                    then upper_block_79 c
                                    else upper_block_80 c
                else if c < 71880
                     then if c < 68811
                          then if c < 66982
                               then upper_block_81 c
                               else if c < 66999
                                    then upper_block_82 c
                                    else upper_block_83 c
                          else if c < 68827
                               then upper_block_84 c
                               else if c < 68843
                                    then upper_block_85 c
                                    else upper_block_86 c
                     else if c < 93816
                          then if c < 71896
                               then upper_block_87 c
                               else if c < 93800
                                    then upper_block_88 c
                                    else upper_block_89 c
                          else if c < 125226
                               then upper_block_90 c
                               else if c < 125242
                                    then upper_block_91 c
                                    else upper_block_92 c)"

definition upper_char :: "nat \<Rightarrow> nat list" where
  "upper_char c =
     (if c < 256 then upper_latin1 c
      else case upper_high c of None \<Rightarrow> [c] | Some u \<Rightarrow> u)"

definition str_upper :: "ustring \<Rightarrow> ustring" where
  "str_upper s = concat (map upper_char s)"

text \<open>\<^verbatim>\<open>str.isspace\<close> of one code point, and \<^verbatim>\<open>str.strip()\<close>.\<close>

definition isspace :: "nat \<Rightarrow> bool" where
  "isspace c \<longleftrightarrow>
     (9 \<le> c \<and> c \<le> 13) \<or> (28 \<le> c \<and> c \<le> 32) \<or> c = 133 \<or> c = 160 \<or> c = 5760 \<or>
     (8192 \<le> c \<and> c \<le> 8202) \<or> c = 8232 \<or> c = 8233 \<or> c = 8239 \<or> c = 8287 \<or> c = 12288"

definition str_strip :: "ustring \<Rightarrow> ustring" where
  "str_strip s = rev (dropWhile isspace (rev (dropWhile isspace s)))"

text \<open>
  The class \<^verbatim>\<open>\w\<close> of a \<^verbatim>\<open>str\<close> pattern: the code points that are alphanumeric in the
  Unicode database, and the underscore. \<open>word_latin1\<close> is the table below 256,
  \<open>word_ranges\<close> the ranges (both ends included) of the word characters from 256 on, as
  \<^verbatim>\<open>re\<close> of CPython 3.11 has them.
\<close>

definition word_latin1 :: "nat \<Rightarrow> bool" where
  "word_latin1 c \<longleftrightarrow>
     (48 \<le> c \<and> c \<le> 57) \<or> (65 \<le> c \<and> c \<le> 90) \<or> c = 95 \<or> (97 \<le> c \<and> c \<le> 122) \<or>
     c = 170 \<or> c = 178 \<or> c = 179 \<or> c = 181 \<or> c = 185 \<or> c = 186 \<or>
     (188 \<le> c \<and> c \<le> 190) \<or> (192 \<le> c \<and> c \<le> 214) \<or> (216 \<le> c \<and> c \<le> 246) \<or>
     (248 \<le> c \<and> c \<le> 255)"

definition word_ranges :: "(nat \<times> nat) list" where
  "word_ranges =
     [(256, 705), (710, 721), (736, 740), (748, 748), (750, 750), (880, 884), (886, 887),
      (890, 893), (895, 895), (902, 902), (904, 906), (908, 908), (910, 929), (931, 1013),
      (1015, 1153), (1162, 1327), (1329, 1366), (1369, 1369), (1376, 1416), (1488, 1514),
      (1519, 1522), (1568, 1610), (1632, 1641), (1646, 1647), (1649, 1747), (1749, 1749),
      (1765, 1766), (1774, 1788), (1791, 1791), (1808, 1808), (1810, 1839), (1869, 1957),
      (1969, 1969), (1984, 2026), (2036, 2037), (2042, 2042), (2048, 2069), (2074, 2074),
      (2084, 2084), (2088, 2088), (2112, 2136), (2144, 2154), (2160, 2183), (2185, 2190),
      (2208, 2249), (2308, 2361), (2365, 2365), (2384, 2384), (2392, 2401), (2406, 2415),
      (2417, 2432), (2437, 2444), (2447, 2448), (2451, 2472), (2474, 2480), (2482, 2482),
      (2486, 2489), (2493, 2493), (2510, 2510), (2524, 2525), (2527, 2529), (2534, 2545),
      (2548, 2553), (2556, 2556), (2565, 2570), (2575, 2576), (2579, 2600), (2602, 2608),
      (2610, 2611), (2613, 2614), (2616, 2617), (2649, 2652), (2654, 2654), (2662, 2671),
      (2674, 2676), (2693, 2701), (2703, 2705), (2707, 2728), (2730, 2736), (2738, 2739),
      (2741, 2745), (2749, 2749), (2768, 2768), (2784, 2785), (2790, 2799), (2809, 2809),
      (2821, 2828), (2831, 2832), (2835, 2856), (2858, 2864), (2866, 2867), (2869, 2873),
      (2877, 2877), (2908, 2909), (2911, 2913), (2918, 2927), (2929, 2935), (2947, 2947),
      (2949, 2954), (2958, 2960), (2962, 2965), (2969, 2970), (2972, 2972), (2974, 2975),
      (2979, 2980), (2984, 2986), (2990, 3001), (3024, 3024), (3046, 3058), (3077, 3084),
      (3086, 3088), (3090, 3112), (3114, 3129), (3133, 3133), (3160, 3162), (3165, 3165),
      (3168, 3169), (3174, 3183), (3192, 3198), (3200, 3200), (3205, 3212), (3214, 3216),
      (3218, 3240), (3242, 3251), (3253, 3257), (3261, 3261), (3293, 3294), (3296, 3297),
      (3302, 3311), (3313, 3314), (3332, 3340), (3342, 3344), (3346, 3386), (3389, 3389),
      (3406, 3406), (3412, 3414), (3416, 3425), (3430, 3448), (3450, 3455), (3461, 3478),
      (3482, 3505), (3507, 3515), (3517, 3517), (3520, 3526), (3558, 3567), (3585, 3632),
      (3634, 3635), (3648, 3654), (3664, 3673), (3713, 3714), (3716, 3716), (3718, 3722),
      (3724, 3747), (3749, 3749), (3751, 3760), (3762, 3763), (3773, 3773), (3776, 3780),
      (3782, 3782), (3792, 3801), (3804, 3807), (3840, 3840), (3872, 3891), (3904, 3911),
      (3913, 3948), (3976, 3980), (4096, 4138), (4159, 4169), (4176, 4181), (4186, 4189),
      (4193, 4193), (4197, 4198), (4206, 4208), (4213, 4225), (4238, 4238), (4240, 4249),
      (4256, 4293), (4295, 4295), (4301, 4301), (4304, 4346), (4348, 4680), (4682, 4685),
      (4688, 4694), (4696, 4696), (4698, 4701), (4704, 4744), (4746, 4749), (4752, 4784),
      (4786, 4789), (4792, 4798), (4800, 4800), (4802, 4805), (4808, 4822), (4824, 4880),
      (4882, 4885), (4888, 4954), (4969, 4988), (4992, 5007), (5024, 5109), (5112, 5117),
      (5121, 5740), (5743, 5759), (5761, 5786), (5792, 5866), (5870, 5880), (5888, 5905),
      (5919, 5937), (5952, 5969), (5984, 5996), (5998, 6000), (6016, 6067), (6103, 6103),
      (6108, 6108), (6112, 6121), (6128, 6137), (6160, 6169), (6176, 6264), (6272, 6276),
      (6279, 6312), (6314, 6314), (6320, 6389), (6400, 6430), (6470, 6509), (6512, 6516),
      (6528, 6571), (6576, 6601), (6608, 6618), (6656, 6678), (6688, 6740), (6784, 6793),
      (6800, 6809), (6823, 6823), (6917, 6963), (6981, 6988), (6992, 7001), (7043, 7072),
      (7086, 7141), (7168, 7203), (7232, 7241), (7245, 7293), (7296, 7304), (7312, 7354),
      (7357, 7359), (7401, 7404), (7406, 7411), (7413, 7414), (7418, 7418), (7424, 7615),
      (7680, 7957), (7960, 7965), (7968, 8005), (8008, 8013), (8016, 8023), (8025, 8025),
      (8027, 8027), (8029, 8029), (8031, 8061), (8064, 8116), (8118, 8124), (8126, 8126),
      (8130, 8132), (8134, 8140), (8144, 8147), (8150, 8155), (8160, 8172), (8178, 8180),
      (8182, 8188), (8304, 8305), (8308, 8313), (8319, 8329), (8336, 8348), (8450, 8450),
      (8455, 8455), (8458, 8467), (8469, 8469), (8473, 8477), (8484, 8484), (8486, 8486),
      (8488, 8488), (8490, 8493), (8495, 8505), (8508, 8511), (8517, 8521), (8526, 8526),
      (8528, 8585), (9312, 9371), (9450, 9471), (10102, 10131), (11264, 11492), (11499, 11502),
      (11506, 11507), (11517, 11517), (11520, 11557), (11559, 11559), (11565, 11565),
      (11568, 11623), (11631, 11631), (11648, 11670), (11680, 11686), (11688, 11694),
      (11696, 11702), (11704, 11710), (11712, 11718), (11720, 11726), (11728, 11734),
      (11736, 11742), (11823, 11823), (12293, 12295), (12321, 12329), (12337, 12341),
      (12344, 12348), (12353, 12438), (12445, 12447), (12449, 12538), (12540, 12543),
      (12549, 12591), (12593, 12686), (12690, 12693), (12704, 12735), (12784, 12799),
      (12832, 12841), (12872, 12879), (12881, 12895), (12928, 12937), (12977, 12991),
      (13312, 19903), (19968, 42124), (42192, 42237), (42240, 42508), (42512, 42539),
      (42560, 42606), (42623, 42653), (42656, 42735), (42775, 42783), (42786, 42888),
      (42891, 42954), (42960, 42961), (42963, 42963), (42965, 42969), (42994, 43009),
      (43011, 43013), (43015, 43018), (43020, 43042), (43056, 43061), (43072, 43123),
      (43138, 43187), (43216, 43225), (43250, 43255), (43259, 43259), (43261, 43262),
      (43264, 43301), (43312, 43334), (43360, 43388), (43396, 43442), (43471, 43481),
      (43488, 43492), (43494, 43518), (43520, 43560), (43584, 43586), (43588, 43595),
      (43600, 43609), (43616, 43638), (43642, 43642), (43646, 43695), (43697, 43697),
      (43701, 43702), (43705, 43709), (43712, 43712), (43714, 43714), (43739, 43741),
      (43744, 43754), (43762, 43764), (43777, 43782), (43785, 43790), (43793, 43798),
      (43808, 43814), (43816, 43822), (43824, 43866), (43868, 43881), (43888, 44002),
      (44016, 44025), (44032, 55203), (55216, 55238), (55243, 55291), (63744, 64109),
      (64112, 64217), (64256, 64262), (64275, 64279), (64285, 64285), (64287, 64296),
      (64298, 64310), (64312, 64316), (64318, 64318), (64320, 64321), (64323, 64324),
      (64326, 64433), (64467, 64829), (64848, 64911), (64914, 64967), (65008, 65019),
      (65136, 65140), (65142, 65276), (65296, 65305), (65313, 65338), (65345, 65370),
      (65382, 65470), (65474, 65479), (65482, 65487), (65490, 65495), (65498, 65500),
      (65536, 65547), (65549, 65574), (65576, 65594), (65596, 65597), (65599, 65613),
      (65616, 65629), (65664, 65786), (65799, 65843), (65856, 65912), (65930, 65931),
      (66176, 66204), (66208, 66256), (66273, 66299), (66304, 66339), (66349, 66378),
      (66384, 66421), (66432, 66461), (66464, 66499), (66504, 66511), (66513, 66517),
      (66560, 66717), (66720, 66729), (66736, 66771), (66776, 66811), (66816, 66855),
      (66864, 66915), (66928, 66938), (66940, 66954), (66956, 66962), (66964, 66965),
      (66967, 66977), (66979, 66993), (66995, 67001), (67003, 67004), (67072, 67382),
      (67392, 67413), (67424, 67431), (67456, 67461), (67463, 67504), (67506, 67514),
      (67584, 67589), (67592, 67592), (67594, 67637), (67639, 67640), (67644, 67644),
      (67647, 67669), (67672, 67702), (67705, 67742), (67751, 67759), (67808, 67826),
      (67828, 67829), (67835, 67867), (67872, 67897), (67968, 68023), (68028, 68047),
      (68050, 68096), (68112, 68115), (68117, 68119), (68121, 68149), (68160, 68168),
      (68192, 68222), (68224, 68255), (68288, 68295), (68297, 68324), (68331, 68335),
      (68352, 68405), (68416, 68437), (68440, 68466), (68472, 68497), (68521, 68527),
      (68608, 68680), (68736, 68786), (68800, 68850), (68858, 68899), (68912, 68921),
      (69216, 69246), (69248, 69289), (69296, 69297), (69376, 69415), (69424, 69445),
      (69457, 69460), (69488, 69505), (69552, 69579), (69600, 69622), (69635, 69687),
      (69714, 69743), (69745, 69746), (69749, 69749), (69763, 69807), (69840, 69864),
      (69872, 69881), (69891, 69926), (69942, 69951), (69956, 69956), (69959, 69959),
      (69968, 70002), (70006, 70006), (70019, 70066), (70081, 70084), (70096, 70106),
      (70108, 70108), (70113, 70132), (70144, 70161), (70163, 70187), (70272, 70278),
      (70280, 70280), (70282, 70285), (70287, 70301), (70303, 70312), (70320, 70366),
      (70384, 70393), (70405, 70412), (70415, 70416), (70419, 70440), (70442, 70448),
      (70450, 70451), (70453, 70457), (70461, 70461), (70480, 70480), (70493, 70497),
      (70656, 70708), (70727, 70730), (70736, 70745), (70751, 70753), (70784, 70831),
      (70852, 70853), (70855, 70855), (70864, 70873), (71040, 71086), (71128, 71131),
      (71168, 71215), (71236, 71236), (71248, 71257), (71296, 71338), (71352, 71352),
      (71360, 71369), (71424, 71450), (71472, 71483), (71488, 71494), (71680, 71723),
      (71840, 71922), (71935, 71942), (71945, 71945), (71948, 71955), (71957, 71958),
      (71960, 71983), (71999, 71999), (72001, 72001), (72016, 72025), (72096, 72103),
      (72106, 72144), (72161, 72161), (72163, 72163), (72192, 72192), (72203, 72242),
      (72250, 72250), (72272, 72272), (72284, 72329), (72349, 72349), (72368, 72440),
      (72704, 72712), (72714, 72750), (72768, 72768), (72784, 72812), (72818, 72847),
      (72960, 72966), (72968, 72969), (72971, 73008), (73030, 73030), (73040, 73049),
      (73056, 73061), (73063, 73064), (73066, 73097), (73112, 73112), (73120, 73129),
      (73440, 73458), (73648, 73648), (73664, 73684), (73728, 74649), (74752, 74862),
      (74880, 75075), (77712, 77808), (77824, 78894), (82944, 83526), (92160, 92728),
      (92736, 92766), (92768, 92777), (92784, 92862), (92864, 92873), (92880, 92909),
      (92928, 92975), (92992, 92995), (93008, 93017), (93019, 93025), (93027, 93047),
      (93053, 93071), (93760, 93846), (93952, 94026), (94032, 94032), (94099, 94111),
      (94176, 94177), (94179, 94179), (94208, 100343), (100352, 101589), (101632, 101640),
      (110576, 110579), (110581, 110587), (110589, 110590), (110592, 110882), (110928, 110930),
      (110948, 110951), (110960, 111355), (113664, 113770), (113776, 113788), (113792, 113800),
      (113808, 113817), (119520, 119539), (119648, 119672), (119808, 119892), (119894, 119964),
      (119966, 119967), (119970, 119970), (119973, 119974), (119977, 119980), (119982, 119993),
      (119995, 119995), (119997, 120003), (120005, 120069), (120071, 120074), (120077, 120084),
      (120086, 120092), (120094, 120121), (120123, 120126), (120128, 120132), (120134, 120134),
      (120138, 120144), (120146, 120485), (120488, 120512), (120514, 120538), (120540, 120570),
      (120572, 120596), (120598, 120628), (120630, 120654), (120656, 120686), (120688, 120712),
      (120714, 120744), (120746, 120770), (120772, 120779), (120782, 120831), (122624, 122654),
      (123136, 123180), (123191, 123197), (123200, 123209), (123214, 123214), (123536, 123565),
      (123584, 123627), (123632, 123641), (124896, 124902), (124904, 124907), (124909, 124910),
      (124912, 124926), (124928, 125124), (125127, 125135), (125184, 125251), (125259, 125259),
      (125264, 125273), (126065, 126123), (126125, 126127), (126129, 126132), (126209, 126253),
      (126255, 126269), (126464, 126467), (126469, 126495), (126497, 126498), (126500, 126500),
      (126503, 126503), (126505, 126514), (126516, 126519), (126521, 126521), (126523, 126523),
      (126530, 126530), (126535, 126535), (126537, 126537), (126539, 126539), (126541, 126543),
      (126545, 126546), (126548, 126548), (126551, 126551), (126553, 126553), (126555, 126555),
      (126557, 126557), (126559, 126559), (126561, 126562), (126564, 126564), (126567, 126570),
      (126572, 126578), (126580, 126583), (126585, 126588), (126590, 126590), (126592, 126601),
      (126603, 126619), (126625, 126627), (126629, 126633), (126635, 126651), (127232, 127244),
      (130032, 130041), (131072, 173791), (173824, 177976), (177984, 178205), (178208, 183969),
      (183984, 191456), (194560, 195101), (196608, 201546)]"

definition in_ranges :: "(nat \<times> nat) list \<Rightarrow> nat \<Rightarrow> bool" where
  "in_ranges rs c = list_ex (\<lambda>(lo, hi). lo \<le> c \<and> c \<le> hi) rs"

definition is_word :: "nat \<Rightarrow> bool" where
  "is_word c \<longleftrightarrow> (if c < 256 then word_latin1 c else in_ranges word_ranges c)"

text \<open>
  \<^verbatim>\<open>\b\<close> holds between two neighbouring positions when exactly one of them is a word
  character; the position before the start and after the end of the string is \<open>None\<close>.
\<close>

definition word_at :: "nat option \<Rightarrow> bool" where
  "word_at c = (case c of None \<Rightarrow> False | Some x \<Rightarrow> is_word x)"

definition boundary :: "nat option \<Rightarrow> nat option \<Rightarrow> bool" where
  "boundary p n \<longleftrightarrow> word_at p \<noteq> word_at n"

definition next_char :: "ustring \<Rightarrow> nat option" where
  "next_char s = (case s of [] \<Rightarrow> None | c # _ \<Rightarrow> Some c)"

text \<open>
  The pattern \<^verbatim>\<open>\bLIT\b\<close> matches at the head of \<open>s\<close>, where \<open>prev\<close> is the character
  before \<open>s\<close> in the whole string.
\<close>

definition match_here :: "ustring \<Rightarrow> nat option \<Rightarrow> ustring \<Rightarrow> bool" where
  "match_here lit prev s \<longleftrightarrow>
     lit \<noteq> [] \<and> take (length lit) s = lit \<and>
     boundary prev (next_char lit) \<and>
     boundary (Some (last lit)) (next_char (drop (length lit) s))"

text \<open>
  \<^verbatim>\<open>re.sub(r"\bLIT\b", repl, s)\<close>, which \<^verbatim>\<open>Series.str.replace(..., regex=True)\<close> applies to
  each string: scan from the left; at a match emit \<open>repl\<close> and go on behind the match,
  otherwise copy one character.
\<close>

function re_sub_word :: "ustring \<Rightarrow> ustring \<Rightarrow> nat option \<Rightarrow> ustring \<Rightarrow> ustring" where
  "re_sub_word lit repl prev [] = []"
| "re_sub_word lit repl prev (c # cs) =
     (if match_here lit prev (c # cs)
      then repl @ re_sub_word lit repl (Some (last lit)) (drop (length lit) (c # cs))
      else c # re_sub_word lit repl (Some c) cs)"
  by pat_completeness auto
termination
  by (relation "measure (\<lambda>(lit, repl, prev, s). length s)") (auto simp: match_here_def)

definition str_replace_word :: "ustring \<Rightarrow> ustring \<Rightarrow> ustring \<Rightarrow> ustring" where
  "str_replace_word lit repl s = re_sub_word lit repl None s"

definition VINICIUS :: ustring where
  "VINICIUS = U ''VINICIUS''"

definition VINICIUS_acento :: ustring where
  "VINICIUS_acento = U ''VIN'' @ [205] @ U ''CIUS''"

definition MARCOS_NASCIMENTO :: ustring where
  "MARCOS_NASCIMENTO = U ''MARCOS NASCIMENTO''"

definition MARCOS :: ustring where
  "MARCOS = U ''MARCOS''"

text \<open>Lines 99 to 105: the new value of one cell of \<^verbatim>\<open>MOTORISTA\<close>.\<close>

definition padronizar_motorista :: "ustring option \<Rightarrow> ustring" where
  "padronizar_motorista c =
     str_replace_word MARCOS_NASCIMENTO MARCOS
       (str_replace_word VINICIUS VINICIUS_acento
         (str_strip (str_upper (astype_str c))))"

section \<open>The normaliser \<^verbatim>\<open>limpar_e_filtrar_dados\<close>\<close>

text \<open>
  \<^verbatim>\<open>pd.to_datetime(..., errors="coerce")\<close> on one cell. The date parser of pandas is not
  part of the program; it is the parameter \<open>parse\<close>, which gives \<open>None\<close> for text it
  rejects.
\<close>

definition to_datetime_coerce :: "(ustring \<Rightarrow> int option) \<Rightarrow> datetime_cell \<Rightarrow> datetime_cell" where
  "to_datetime_coerce parse c =
     (case c of
        Timestamp t \<Rightarrow> Timestamp t
      | NaT \<Rightarrow> NaT
      | RawText s \<Rightarrow> (case parse s of Some t \<Rightarrow> Timestamp t | None \<Rightarrow> NaT))"

text \<open>\<^verbatim>\<open>pd.to_datetime\<close> of a \<^verbatim>\<open>datetime.date\<close>: midnight at the start of that day.\<close>

definition ns_per_day :: int where
  "ns_per_day = 86400000000000"

definition to_datetime_date :: "int \<Rightarrow> int" where
  "to_datetime_date d = d * ns_per_day"

text \<open>Comparisons of a \<^verbatim>\<open>DATA\<close> cell with a timestamp; they are false on \<^verbatim>\<open>NaT\<close>.\<close>

definition data_ge :: "datetime_cell \<Rightarrow> int \<Rightarrow> bool" where
  "data_ge c t = (case c of Timestamp x \<Rightarrow> t \<le> x | _ \<Rightarrow> False)"

definition data_le :: "datetime_cell \<Rightarrow> int \<Rightarrow> bool" where
  "data_le c t = (case c of Timestamp x \<Rightarrow> x \<le> t | _ \<Rightarrow> False)"

text \<open>
  Lines 96 to 105 assign the columns \<^verbatim>\<open>DATA\<close> and \<^verbatim>\<open>MOTORISTA\<close> of the frame the caller
  passed in; \<open>padronizar_linha\<close> is their effect on one row.
\<close>

definition padronizar_linha :: "(ustring \<Rightarrow> int option) \<Rightarrow> viagem \<Rightarrow> viagem" where
  "padronizar_linha parse r =
     r\<lparr>DATA := to_datetime_coerce parse (DATA r),
       MOTORISTA := Some (padronizar_motorista (MOTORISTA r))\<rparr>"

text \<open>\<^verbatim>\<open>dropna(subset=["MOTORISTA", "DATA"])\<close>: a new frame without the rows missing either.\<close>

definition dropna_motorista_data :: "frame \<Rightarrow> frame" where
  "dropna_motorista_data df = filter (\<lambda>r. MOTORISTA r \<noteq> None \<and> DATA r \<noteq> NaT) df"

text \<open>
  The function returns the state of the caller's frame after the call together with its
  result: the exception (\<open>Inl\<close>) or the filtered copy (\<open>Inr\<close>). From line 108 on the
  name \<^verbatim>\<open>dados\<close> is bound to new frames, so the caller's frame does not change again.
\<close>

definition limpar_e_filtrar_dados ::
    "(ustring \<Rightarrow> int option) \<Rightarrow> int \<Rightarrow> int \<Rightarrow> frame \<Rightarrow> frame \<times> (erro + frame)" where
  "limpar_e_filtrar_dados parse data_ini data_fim dados =
     (let dados_caller = map (padronizar_linha parse) dados;
          dados' = dropna_motorista_data dados_caller;
          data_ini_ts = to_datetime_date data_ini;
          data_fim_ts = to_datetime_date data_fim;
          dados_filtrados =
            filter (\<lambda>r. data_ge (DATA r) data_ini_ts \<and> data_le (DATA r) data_fim_ts) dados'
      in (dados_caller,
          if dados_filtrados = [] then Inl ValueError else Inr dados_filtrados))"

section \<open>The bonus rule and the summary tables: \<^verbatim>\<open>calcular_bonus\<close>\<close>

text \<open>Arithmetic on cells: \<^verbatim>\<open>NaN\<close> propagates through products and rounding.\<close>

definition nan_mul :: "rat option \<Rightarrow> rat \<Rightarrow> rat option" where
  "nan_mul x k = map_option (\<lambda>v. v * k) x"

text \<open>
  \<^verbatim>\<open>round(2)\<close> of numpy and pandas rounds to the nearest multiple of \<open>1/100\<close>, a tie to the
  even neighbour.
\<close>

definition round_half_even :: "rat \<Rightarrow> int" where
  "round_half_even x =
     (let f = \<lfloor>x\<rfloor>; d = x - of_int f
      in if d < 1 / 2 then f else if 1 / 2 < d then f + 1 else if even f then f else f + 1)"

definition round2 :: "rat \<Rightarrow> rat" where
  "round2 x = of_int (round_half_even (x * 100)) / 100"

definition nan_round2 :: "rat option \<Rightarrow> rat option" where
  "nan_round2 x = map_option round2 x"

text \<open>\<^verbatim>\<open>Series.isin\<close> on one cell: a missing cell is in no list.\<close>

definition isin :: "ustring option \<Rightarrow> ustring list \<Rightarrow> bool" where
  "isin c vs = (case c of None \<Rightarrow> False | Some s \<Rightarrow> s \<in> set vs)"

text \<open>
  \<^verbatim>\<open>np.select(condlist, choicelist, default)\<close>: at every position the choice of the first
  condition that holds there, the default when none holds. \<open>select_at\<close> is one position,
  given the conditions and the choices at that position.
\<close>

fun select_at :: "bool list \<Rightarrow> 'a list \<Rightarrow> 'a \<Rightarrow> 'a" where
  "select_at (c # cs) (x # xs) d = (if c then x else select_at cs xs d)"
| "select_at _ _ d = d"

definition np_select :: "bool list list \<Rightarrow> 'a list list \<Rightarrow> 'a \<Rightarrow> nat \<Rightarrow> 'a list" where
  "np_select condlist choicelist d n =
     map (\<lambda>i. select_at (map (\<lambda>c. c ! i) condlist) (map (\<lambda>x. x ! i) choicelist) d) [0..<n]"

text \<open>Lines 128 to 137: the column \<^verbatim>\<open>BONUS\<close>, one value for each row of the frame.\<close>

definition coluna_bonus :: "frame \<Rightarrow> rat option list" where
  "coluna_bonus df =
     (let conditions =
            [map (\<lambda>r. isin (CENTRO_DE_CUSTO r) [U ''FRETE BRITA'', U ''AREIA'']) df,
             map (\<lambda>r. isin (CENTRO_DE_CUSTO r) [U ''FRETE CIMENTO'', U ''FRETE ADITIVO'']) df];
          calculos =
            [map (\<lambda>r. nan_mul (QUANT r) 1) df,
             map (\<lambda>r. nan_mul (TOTAL r) (2 / 100)) df]
      in map nan_round2 (np_select conditions calculos (Some 0) (length df)))"

text \<open>The frame with the new column: every row paired with its bonus.\<close>

type_synonym frame_bonus = "(viagem \<times> rat option) list"

text \<open>
  The aggregations of \<^verbatim>\<open>groupby(...).agg\<close>: \<^verbatim>\<open>sum\<close> skips missing values (an empty sum is
  0), \<^verbatim>\<open>count\<close> counts the values that are present.
\<close>

definition nansum :: "rat option list \<Rightarrow> rat" where
  "nansum xs = sum_list (map (\<lambda>x. case x of None \<Rightarrow> 0 | Some v \<Rightarrow> v) xs)"

definition count_notna :: "'a option list \<Rightarrow> nat" where
  "count_notna xs = length (filter (\<lambda>x. x \<noteq> None) xs)"

text \<open>
  \<^verbatim>\<open>groupby\<close> drops the rows whose key is missing and orders the groups by key: strings
  by code points, pairs lexicographically.
\<close>

definition group_keys :: "('r \<Rightarrow> 'k option) \<Rightarrow> 'r list \<Rightarrow> ('k::linorder) list" where
  "group_keys key df = sort (remdups (List.map_filter key df))"

definition group_rows :: "('r \<Rightarrow> 'k option) \<Rightarrow> 'k \<Rightarrow> 'r list \<Rightarrow> 'r list" where
  "group_rows key k df = filter (\<lambda>r. key r = Some k) df"

definition chave_motorista :: "viagem \<times> rat option \<Rightarrow> ustring option" where
  "chave_motorista x = MOTORISTA (fst x)"

definition chave_centro :: "viagem \<times> rat option \<Rightarrow> ustring option" where
  "chave_centro x = CENTRO_DE_CUSTO (fst x)"

definition chave_motorista_centro :: "viagem \<times> rat option \<Rightarrow> (ustring \<times> ustring) option" where
  "chave_motorista_centro x =
     (case MOTORISTA (fst x) of
        None \<Rightarrow> None
      | Some m \<Rightarrow> (case CENTRO_DE_CUSTO (fst x) of None \<Rightarrow> None | Some c \<Rightarrow> Some (m, c)))"

text \<open>
  \<^verbatim>\<open>sort_values(..., ascending=False)\<close>. The source leaves the order of rows with equal
  values to the sorting routine of numpy; the model keeps them in the order they had,
  and no statement below depends on it.
\<close>

definition sort_values_desc :: "('r \<Rightarrow> rat) \<Rightarrow> 'r list \<Rightarrow> 'r list" where
  "sort_values_desc f xs = sort_key (\<lambda>x. - f x) xs"

text \<open>A row of the detailed table (lines 140 to 145), indexed by driver and cost centre.\<close>

record linha_tabela =
  tb_MOTORISTA :: ustring
  tb_CENTRO_DE_CUSTO :: ustring
  tb_VIAGENS :: nat
  tb_QUANT :: rat
  tb_FATURAMENTO :: rat
  tb_BONUS :: rat

definition agg_tabela :: "frame_bonus \<Rightarrow> linha_tabela list" where
  "agg_tabela df =
     map (\<lambda>k. let g = group_rows chave_motorista_centro k df
              in \<lparr>tb_MOTORISTA = fst k,
                  tb_CENTRO_DE_CUSTO = snd k,
                  tb_VIAGENS = count_notna (map (\<lambda>x. QUANT (fst x)) g),
                  tb_QUANT = round2 (nansum (map (\<lambda>x. QUANT (fst x)) g)),
                  tb_FATURAMENTO = round2 (nansum (map (\<lambda>x. TOTAL (fst x)) g)),
                  tb_BONUS = round2 (nansum (map snd g))\<rparr>)
         (group_keys chave_motorista_centro df)"

text \<open>A row of the summary by driver (lines 148 to 151).\<close>

record linha_motorista =
  bm_MOTORISTA :: ustring
  bm_VIAGENS :: nat
  bm_BONUS :: rat

definition agg_motorista :: "frame_bonus \<Rightarrow> linha_motorista list" where
  "agg_motorista df =
     sort_values_desc bm_BONUS
       (map (\<lambda>m. let g = group_rows chave_motorista m df
                 in \<lparr>bm_MOTORISTA = m,
                     bm_VIAGENS = count_notna (map (\<lambda>x. QUANT (fst x)) g),
                     bm_BONUS = round2 (nansum (map snd g))\<rparr>)
            (group_keys chave_motorista df))"

text \<open>
  Line 154: \<^verbatim>\<open>Index.map\<close> with the series \<^verbatim>\<open>bonus_motorista["BONUS"]\<close> looks every driver of
  the detailed table up in the summary by driver; a driver not found gives a missing
  value.
\<close>

definition series_map :: "linha_motorista list \<Rightarrow> ustring \<Rightarrow> rat option" where
  "series_map bm m = map_option bm_BONUS (find (\<lambda>d. bm_MOTORISTA d = m) bm)"

text \<open>
  Lines 157 to 159: within the rows of one driver, \<^verbatim>\<open>x.where(x.index == x.index[0], None)\<close>
  keeps the value where the index (driver, cost centre) equals the index of the group's
  first row and puts a missing value elsewhere. The detailed table with the column
  \<^verbatim>\<open>BONUS TOTAL\<close> is a list of rows paired with that column's value.
\<close>

type_synonym tabela = "(linha_tabela \<times> rat option) list"

definition tb_index :: "linha_tabela \<Rightarrow> ustring \<times> ustring" where
  "tb_index t = (tb_MOTORISTA t, tb_CENTRO_DE_CUSTO t)"

definition transform_primeira_linha :: "tabela \<Rightarrow> tabela" where
  "transform_primeira_linha tab =
     map (\<lambda>(t, v).
            (t, case filter (\<lambda>(u, w). tb_MOTORISTA u = tb_MOTORISTA t) tab of
                  [] \<Rightarrow> None
                | (u0, w0) # x \<Rightarrow> if tb_index t = tb_index u0 then v else None))
         tab"

text \<open>A row of the summary by cost centre (lines 162 to 167).\<close>

record linha_centro =
  cc_CENTRO_DE_CUSTO :: ustring
  cc_BONUS_TOTAL :: rat

definition agg_centro_custo :: "frame_bonus \<Rightarrow> linha_centro list" where
  "agg_centro_custo df =
     sort_values_desc cc_BONUS_TOTAL
       (map (\<lambda>c. \<lparr>cc_CENTRO_DE_CUSTO = c,
                  cc_BONUS_TOTAL = round2 (nansum (map snd (group_rows chave_centro c df)))\<rparr>)
            (group_keys chave_centro df))"

text \<open>
  The function adds the column \<^verbatim>\<open>BONUS\<close> to the frame it is given and returns the three
  tables; the model returns the frame with the column as well.
\<close>

definition calcular_bonus ::
    "frame \<Rightarrow> frame_bonus \<times> tabela \<times> linha_motorista list \<times> linha_centro list" where
  "calcular_bonus dados_filtrados =
     (let df = zip dados_filtrados (coluna_bonus dados_filtrados);
          tabela0 = agg_tabela df;
          bonus_motorista = agg_motorista df;
          tabela1 = map (\<lambda>t. (t, series_map bonus_motorista (tb_MOTORISTA t))) tabela0;
          tabela2 = transform_primeira_linha tabela1;
          resumo_centro_custo = agg_centro_custo df
      in (df, tabela2, bonus_motorista, resumo_centro_custo))"

text \<open>
  Lines 440 to 443 of the page: the tables are computed from the result of the
  normaliser, and an exception of the normaliser ends the computation.
\<close>

definition relatorio ::
    "(ustring \<Rightarrow> int option) \<Rightarrow> int \<Rightarrow> int \<Rightarrow> frame \<Rightarrow>
     erro + (frame_bonus \<times> tabela \<times> linha_motorista list \<times> linha_centro list)" where
  "relatorio parse data_ini data_fim dados_raw =
     (case snd (limpar_e_filtrar_dados parse data_ini data_fim dados_raw) of
        Inl e \<Rightarrow> Inl e
      | Inr dados_filtrados \<Rightarrow> Inr (calcular_bonus dados_filtrados))"

text \<open>
  The records that are left after cleaning and filtering: the result of the normaliser,
  or no record when it raises.
\<close>

definition registros_mantidos :: "(ustring \<Rightarrow> int option) \<Rightarrow> int \<Rightarrow> int \<Rightarrow> frame \<Rightarrow> frame" where
  "registros_mantidos parse data_ini data_fim dados =
     (case snd (limpar_e_filtrar_dados parse data_ini data_fim dados) of
        Inl e \<Rightarrow> []
      | Inr dados_filtrados \<Rightarrow> dados_filtrados)"

text \<open>
  Notions used to state the properties of the alias substitution. The pattern \<^verbatim>\<open>\bLIT\b\<close>
  matches somewhere in \<open>s\<close> (\<open>prev\<close> is the character before \<open>s\<close>); a string contains
  \<open>lit\<close> as a whole word when the pattern matches somewhere in it.
\<close>

fun has_match :: "ustring \<Rightarrow> nat option \<Rightarrow> ustring \<Rightarrow> bool" where
  "has_match lit prev [] = False"
| "has_match lit prev (c # cs) = (match_here lit prev (c # cs) \<or> has_match lit (Some c) cs)"

definition contains_word :: "ustring \<Rightarrow> ustring \<Rightarrow> bool" where
  "contains_word lit s = has_match lit None s"

text \<open>No proper suffix of \<open>lit\<close> is a prefix of it: two occurrences of \<open>lit\<close> cannot overlap.\<close>

definition unbordered :: "ustring \<Rightarrow> bool" where
  "unbordered lit \<longleftrightarrow>
     list_all (\<lambda>k. take k lit \<noteq> drop (length lit - k) lit) [1..<length lit]"

text \<open>A string on which \<^verbatim>\<open>strip()\<close> has nothing to remove.\<close>

definition stripped :: "ustring \<Rightarrow> bool" where
  "stripped s \<longleftrightarrow> (case s of [] \<Rightarrow> True | c # cs \<Rightarrow> \<not> isspace c \<and> \<not> isspace (last s))"

text \<open>A date parser that rejects every text, for the examples.\<close>

definition parse_none :: "ustring \<Rightarrow> int option" where
  "parse_none s = None"

section \<open>Rounding\<close>

lemma round_half_even_of_int: "round_half_even (of_int n) = n"
  by (simp add: round_half_even_def Let_def)

lemma round2_cents: "round2 (of_int n / 100) = of_int n / 100"
  by (simp add: round2_def round_half_even_of_int)

lemma round2_is_cents: "\<exists>n::int. round2 x = of_int n / 100"
  by (auto simp: round2_def)

lemma round2_zero: "round2 0 = 0"
  using round2_cents [of 0] by simp

lemma round2_of_int: "round2 (of_int n) = of_int n"
proof -
  have "of_int n * (100::rat) = of_int (n * 100)"
    by simp
  then have "round_half_even (of_int n * 100) = n * 100"
    by (simp only: round_half_even_of_int)
  then show ?thesis
    by (simp add: round2_def)
qed

lemma round2_numeral: "round2 (numeral k) = numeral k"
  using round2_of_int [of "numeral k"] by simp

lemma round_half_even_close: "\<bar>of_int (round_half_even x) - x\<bar> \<le> 1 / 2"
proof -
  have "of_int \<lfloor>x\<rfloor> \<le> x" "x < of_int \<lfloor>x\<rfloor> + 1" by linarith+
  then show ?thesis
    by (auto simp: round_half_even_def Let_def)
qed

lemma round2_close: "\<bar>round2 x - x\<bar> \<le> 1 / 200"
proof -
  have "\<bar>of_int (round_half_even (x * 100)) - x * 100\<bar> \<le> 1 / 2"
    by (rule round_half_even_close)
  then show ?thesis
    by (simp add: round2_def abs_le_iff field_simps)
qed

lemma coluna_bonus_length: "length (coluna_bonus df) = length df"
  by (simp add: coluna_bonus_def np_select_def)

lemma coluna_bonus_nth:
  "i < length df \<Longrightarrow> coluna_bonus df ! i =
     (if isin (CENTRO_DE_CUSTO (df ! i)) [U ''FRETE BRITA'', U ''AREIA'']
      then nan_round2 (nan_mul (QUANT (df ! i)) 1)
      else if isin (CENTRO_DE_CUSTO (df ! i)) [U ''FRETE CIMENTO'', U ''FRETE ADITIVO'']
      then nan_round2 (nan_mul (TOTAL (df ! i)) (2 / 100))
      else Some 0)"
  by (simp add: coluna_bonus_def np_select_def nan_round2_def round2_zero)




section \<open>The normaliser: date filter, empty result, effect on the caller\<close>

lemma padronizar_linha_simps [simp]:
  "MOTORISTA (padronizar_linha parse r) = Some (padronizar_motorista (MOTORISTA r))"
  "DATA (padronizar_linha parse r) = to_datetime_coerce parse (DATA r)"
  "CENTRO_DE_CUSTO (padronizar_linha parse r) = CENTRO_DE_CUSTO r"
  "QUANT (padronizar_linha parse r) = QUANT r"
  "TOTAL (padronizar_linha parse r) = TOTAL r"
  by (simp_all add: padronizar_linha_def)

lemma dropna_padronizar:
  "dropna_motorista_data (map (padronizar_linha parse) dados) =
     filter (\<lambda>r. DATA r \<noteq> NaT) (map (padronizar_linha parse) dados)"
  by (induction dados) (simp_all add: dropna_motorista_data_def)

lemma in_range_iff:
  "data_ge c lo \<and> data_le c hi \<longleftrightarrow> (\<exists>t. c = Timestamp t \<and> lo \<le> t \<and> t \<le> hi)"
  by (cases c) (auto simp: data_ge_def data_le_def)

lemma dados_filtrados_eq:
  "filter (\<lambda>r. data_ge (DATA r) lo \<and> data_le (DATA r) hi)
      (dropna_motorista_data (map (padronizar_linha parse) dados)) =
   filter (\<lambda>r. \<exists>t. DATA r = Timestamp t \<and> lo \<le> t \<and> t \<le> hi)
      (map (padronizar_linha parse) dados)"
proof -
  have "(DATA r \<noteq> NaT \<and> data_ge (DATA r) lo \<and> data_le (DATA r) hi) \<longleftrightarrow>
        (\<exists>t. DATA r = Timestamp t \<and> lo \<le> t \<and> t \<le> hi)" for r :: viagem
    by (cases "DATA r") (auto simp: data_ge_def data_le_def)
  then show ?thesis
    by (simp add: dropna_padronizar conj_commute)
qed

lemma registros_mantidos_eq:
  "registros_mantidos parse data_ini data_fim dados =
     filter (\<lambda>r. \<exists>t. DATA r = Timestamp t \<and>
                     to_datetime_date data_ini \<le> t \<and> t \<le> to_datetime_date data_fim)
       (map (padronizar_linha parse) dados)"
  by (simp add: registros_mantidos_def limpar_e_filtrar_dados_def Let_def dados_filtrados_eq)


text \<open>
  For a timestamp that carries a time of day the comparison is the same one: on the last
  day any time after midnight is later than the upper bound.
\<close>

lemma later_time_on_last_day_removed:
  assumes "to_datetime_coerce parse (DATA r) = Timestamp (to_datetime_date data_fim + k)" "0 < k"
  shows "padronizar_linha parse r \<notin> set (registros_mantidos parse data_ini data_fim dados)"
  using assms by (auto simp: registros_mantidos_eq)

lemmas str_eval =
  padronizar_motorista_def str_replace_word_def str_strip_def str_upper_def astype_str_def
  upper_char_def upper_latin1_def isspace_def is_word_def word_latin1_def match_here_def boundary_def word_at_def next_char_def
  VINICIUS_def VINICIUS_acento_def MARCOS_NASCIMENTO_def MARCOS_def U_def

lemmas limpar_eval =
  limpar_e_filtrar_dados_def dropna_motorista_data_def padronizar_linha_def
  to_datetime_coerce_def to_datetime_date_def ns_per_day_def data_ge_def data_le_def


text \<open>
  Claim C6. The normaliser raises its error (a \<^verbatim>\<open>ValueError\<close>) exactly when no record is
  left after cleaning and date filtering, and then no table is computed; when at least
  one record is left it returns the records left, and the tables are computed from them.
\<close>

theorem empty_result_error:
  "(filter (\<lambda>r. \<exists>t. DATA r = Timestamp t \<and>
                    to_datetime_date data_ini \<le> t \<and> t \<le> to_datetime_date data_fim)
      (dropna_motorista_data (map (padronizar_linha parse) dados)) = [] \<longrightarrow>
      snd (limpar_e_filtrar_dados parse data_ini data_fim dados) = Inl ValueError \<and>
      relatorio parse data_ini data_fim dados = Inl ValueError) \<and>
   (filter (\<lambda>r. \<exists>t. DATA r = Timestamp t \<and>
                    to_datetime_date data_ini \<le> t \<and> t \<le> to_datetime_date data_fim)
      (dropna_motorista_data (map (padronizar_linha parse) dados)) \<noteq> [] \<longrightarrow>
      (\<exists>out. out \<noteq> [] \<and>
         snd (limpar_e_filtrar_dados parse data_ini data_fim dados) = Inr out \<and>
         relatorio parse data_ini data_fim dados = Inr (calcular_bonus out)))"
  by (simp add: limpar_e_filtrar_dados_def relatorio_def Let_def in_range_iff)

theorem empty_result_error_witness:
  "relatorio (\<lambda>s. None) 10 12
     [\<lparr>MOTORISTA = Some (U ''ANA''), CENTRO_DE_CUSTO = Some (U ''AREIA''),
        DATA = Timestamp (to_datetime_date 13), QUANT = Some 3, TOTAL = Some 3\<rparr>] =
     Inl ValueError \<and>
   (\<exists>out. out \<noteq> [] \<and>
      snd (limpar_e_filtrar_dados (\<lambda>s. None) 10 13
        [\<lparr>MOTORISTA = Some (U ''ANA''), CENTRO_DE_CUSTO = Some (U ''AREIA''),
           DATA = Timestamp (to_datetime_date 13), QUANT = Some 3, TOTAL = Some 3\<rparr>]) = Inr out)"
  using
    empty_result_error [of 10 12 "\<lambda>s. None"
      "[\<lparr>MOTORISTA = Some (U ''ANA''), CENTRO_DE_CUSTO = Some (U ''AREIA''),
         DATA = Timestamp (to_datetime_date 13), QUANT = Some 3, TOTAL = Some 3\<rparr>]"]
    empty_result_error [of 10 13 "\<lambda>s. None"
      "[\<lparr>MOTORISTA = Some (U ''ANA''), CENTRO_DE_CUSTO = Some (U ''AREIA''),
         DATA = Timestamp (to_datetime_date 13), QUANT = Some 3, TOTAL = Some 3\<rparr>]"]
  by (auto simp add: dropna_motorista_data_def padronizar_linha_def to_datetime_coerce_def
      to_datetime_date_def ns_per_day_def)

text \<open>
  Claim C9. The normaliser changes the frame of its caller in place. After any call,
  whatever its result, the caller's frame has the rows it had, each with its date coerced
  and its driver name turned into text, upper-cased, trimmed and alias-rewritten, and the
  other fields as they were; that includes the rows that are then dropped or filtered
  out, and the calls that raise.
\<close>

theorem caller_frame_mutated:
  "length (fst (limpar_e_filtrar_dados parse data_ini data_fim dados)) = length dados \<and>
   (\<forall>i < length dados.
      DATA (fst (limpar_e_filtrar_dados parse data_ini data_fim dados) ! i) =
        to_datetime_coerce parse (DATA (dados ! i)) \<and>
      MOTORISTA (fst (limpar_e_filtrar_dados parse data_ini data_fim dados) ! i) =
        Some (str_replace_word MARCOS_NASCIMENTO MARCOS
               (str_replace_word VINICIUS VINICIUS_acento
                 (str_strip (str_upper (astype_str (MOTORISTA (dados ! i))))))) \<and>
      CENTRO_DE_CUSTO (fst (limpar_e_filtrar_dados parse data_ini data_fim dados) ! i) =
        CENTRO_DE_CUSTO (dados ! i) \<and>
      QUANT (fst (limpar_e_filtrar_dados parse data_ini data_fim dados) ! i) = QUANT (dados ! i) \<and>
      TOTAL (fst (limpar_e_filtrar_dados parse data_ini data_fim dados) ! i) = TOTAL (dados ! i))"
  by (simp add: limpar_e_filtrar_dados_def Let_def padronizar_motorista_def)

theorem caller_frame_mutated_witness:
  "snd (limpar_e_filtrar_dados (\<lambda>s. None) 10 12
     [\<lparr>MOTORISTA = Some (U '' vinicius ''), CENTRO_DE_CUSTO = Some (U ''AREIA''),
        DATA = RawText (U ''ontem''), QUANT = Some 3, TOTAL = Some 3\<rparr>]) = Inl ValueError \<and>
   (0::nat) < length
     [\<lparr>MOTORISTA = Some (U '' vinicius ''), CENTRO_DE_CUSTO = Some (U ''AREIA''),
        DATA = RawText (U ''ontem''), QUANT = Some 3, TOTAL = Some 3\<rparr>] \<and>
   DATA (fst (limpar_e_filtrar_dados (\<lambda>s. None) 10 12
     [\<lparr>MOTORISTA = Some (U '' vinicius ''), CENTRO_DE_CUSTO = Some (U ''AREIA''),
        DATA = RawText (U ''ontem''), QUANT = Some 3, TOTAL = Some 3\<rparr>]) ! 0) = NaT \<and>
   MOTORISTA (fst (limpar_e_filtrar_dados (\<lambda>s. None) 10 12
     [\<lparr>MOTORISTA = Some (U '' vinicius ''), CENTRO_DE_CUSTO = Some (U ''AREIA''),
        DATA = RawText (U ''ontem''), QUANT = Some 3, TOTAL = Some 3\<rparr>]) ! 0) =
     Some (U ''VIN'' @ [205] @ U ''CIUS'')"
proof -
  have err: "snd (limpar_e_filtrar_dados (\<lambda>s. None) 10 12
     [\<lparr>MOTORISTA = Some (U '' vinicius ''), CENTRO_DE_CUSTO = Some (U ''AREIA''),
        DATA = RawText (U ''ontem''), QUANT = Some 3, TOTAL = Some 3\<rparr>]) = Inl ValueError"
    by (simp add: limpar_eval)
  show ?thesis
    using err caller_frame_mutated [of "\<lambda>s. None" 10 12
     "[\<lparr>MOTORISTA = Some (U '' vinicius ''), CENTRO_DE_CUSTO = Some (U ''AREIA''),
        DATA = RawText (U ''ontem''), QUANT = Some 3, TOTAL = Some 3\<rparr>]"]
    by (simp add: to_datetime_coerce_def str_eval)
qed

section \<open>The alias substitution\<close>

lemma alias_lits:
  "VINICIUS = [86, 73, 78, 73, 67, 73, 85, 83]"
  "VINICIUS_acento = [86, 73, 78, 205, 67, 73, 85, 83]"
  "MARCOS_NASCIMENTO = [77, 65, 82, 67, 79, 83, 32, 78, 65, 83, 67, 73, 77, 69, 78, 84, 79]"
  "MARCOS = [77, 65, 82, 67, 79, 83]"
  by (simp_all add: VINICIUS_def VINICIUS_acento_def MARCOS_NASCIMENTO_def MARCOS_def U_def)

lemma unbordered_aliases: "unbordered VINICIUS" "unbordered MARCOS_NASCIMENTO"
  by (simp_all add: unbordered_def alias_lits upt_rec)

lemma match_here_cong_prev:
  "word_at p = word_at q \<Longrightarrow> match_here lit p s = match_here lit q s"
  by (simp add: match_here_def boundary_def)

lemma re_sub_word_cong_prev:
  "word_at p = word_at q \<Longrightarrow> re_sub_word lit repl p s = re_sub_word lit repl q s"
  by (cases s) (simp_all add: match_here_cong_prev [of p q])

lemma has_match_cong_prev:
  "word_at p = word_at q \<Longrightarrow> has_match lit p s = has_match lit q s"
  by (cases s) (simp_all add: match_here_cong_prev [of p q])

lemma no_match_unchanged:
  "\<not> has_match lit prev s \<Longrightarrow> re_sub_word lit repl prev s = s"
  by (induction s arbitrary: prev) simp_all

lemma match_here_nonword_head:
  "\<not> is_word c \<Longrightarrow> lit \<noteq> [] \<Longrightarrow> is_word (hd lit) \<Longrightarrow> \<not> match_here lit p (c # cs)"
  by (cases lit) (auto simp: match_here_def)

lemma has_match_append:
  "has_match lit (if a = [] then prev else Some (last a)) b \<Longrightarrow> has_match lit prev (a @ b)"
  by (induction a arbitrary: prev) (auto split: if_splits)

lemma match_here_iff:
  "match_here lit prev s \<longleftrightarrow>
     lit \<noteq> [] \<and> (\<exists>post. s = lit @ post \<and> boundary prev (Some (hd lit)) \<and>
        boundary (Some (last lit)) (next_char post))"
proof (cases lit)
  case Nil
  then show ?thesis by (simp add: match_here_def)
next
  case (Cons a as)
  have "take (length lit) s = lit \<longleftrightarrow> (\<exists>post. s = lit @ post)"
    by (metis append_eq_conv_conj append_take_drop_id)
  then show ?thesis
    using Cons by (auto simp: match_here_def next_char_def)
qed

lemma has_match_iff:
  "has_match lit prev s \<longleftrightarrow>
     lit \<noteq> [] \<and>
     (\<exists>pre post. s = pre @ lit @ post \<and>
        boundary (if pre = [] then prev else Some (last pre)) (Some (hd lit)) \<and>
        boundary (Some (last lit)) (next_char post))"
proof (induction s arbitrary: prev)
  case Nil
  then show ?case by auto
next
  case (Cons c cs)
  show ?case
  proof
    assume "has_match lit prev (c # cs)"
    then consider "match_here lit prev (c # cs)" | "has_match lit (Some c) cs"
      by auto
    then show "lit \<noteq> [] \<and>
       (\<exists>pre post. c # cs = pre @ lit @ post \<and>
          boundary (if pre = [] then prev else Some (last pre)) (Some (hd lit)) \<and>
          boundary (Some (last lit)) (next_char post))"
    proof cases
      case 1
      then obtain post where "lit \<noteq> []" "c # cs = lit @ post"
        "boundary prev (Some (hd lit))" "boundary (Some (last lit)) (next_char post)"
        by (auto simp: match_here_iff)
      then show ?thesis
        by (intro conjI exI [of _ "[]"] exI [of _ post]) simp_all
    next
      case 2
      then obtain pre post where *: "lit \<noteq> []" "cs = pre @ lit @ post"
        "boundary (if pre = [] then Some c else Some (last pre)) (Some (hd lit))"
        "boundary (Some (last lit)) (next_char post)"
        using Cons.IH [of "Some c"] by auto
      then show ?thesis
        by (intro conjI exI [of _ "c # pre"] exI [of _ post]) (simp_all split: if_splits)
    qed
  next
    assume "lit \<noteq> [] \<and>
       (\<exists>pre post. c # cs = pre @ lit @ post \<and>
          boundary (if pre = [] then prev else Some (last pre)) (Some (hd lit)) \<and>
          boundary (Some (last lit)) (next_char post))"
    then obtain pre post where *: "lit \<noteq> []" "c # cs = pre @ lit @ post"
      "boundary (if pre = [] then prev else Some (last pre)) (Some (hd lit))"
      "boundary (Some (last lit)) (next_char post)"
      by auto
    show "has_match lit prev (c # cs)"
    proof (cases pre)
      case Nil
      then have "match_here lit prev (c # cs)"
        using * by (auto simp: match_here_iff)
      then show ?thesis by simp
    next
      case (Cons d pre')
      then have "c = d" "cs = pre' @ lit @ post"
        using * by simp_all
      moreover have "boundary (if pre' = [] then Some c else Some (last pre')) (Some (hd lit))"
        using * Cons \<open>c = d\<close> by (simp split: if_splits)
      ultimately have "has_match lit (Some c) cs"
        using * Cons.IH [of "Some c"] by blast
      then show ?thesis by simp
    qed
  qed
qed

lemma occurrence_inside:
  assumes "unbordered lit" "is_word (last lit)" "pre \<noteq> []" "\<not> is_word (last pre)"
    and take: "take (length lit) (pre @ lit @ post) = lit"
  shows "length lit < length pre"
proof (rule ccontr)
  assume "\<not> length lit < length pre"
  then have le: "length pre \<le> length lit" by simp
  define k where "k = length lit - length pre"
  have lit_eq: "lit = pre @ take k lit"
    using take le by (simp add: k_def)
  show False
  proof (cases "k = 0")
    case True
    then have "lit = pre" using lit_eq by simp
    then show False using assms by simp
  next
    case False
    moreover have "0 < length pre"
      using \<open>pre \<noteq> []\<close> by simp
    ultimately have k: "1 \<le> k" "k < length lit"
      using le unfolding k_def by linarith+
    have "length lit - k = length pre"
      using le by (simp add: k_def)
    then have "drop (length lit - k) lit = take k lit"
      using lit_eq by (metis append_eq_conv_conj)
    moreover have "take k lit \<noteq> drop (length lit - k) lit"
      using \<open>unbordered lit\<close> k by (simp add: unbordered_def list_all_iff)
    ultimately show False by simp
  qed
qed

lemma match_here_at_occurrence:
  assumes "lit \<noteq> []" "is_word (hd lit)" "is_word (last lit)"
    and "\<not> word_at prev" "post = [] \<or> \<not> is_word (hd post)"
  shows "match_here lit prev (lit @ post)"
  using assms by (cases post) (auto simp: match_here_iff boundary_def word_at_def next_char_def)

lemma re_sub_word_after_occurrence:
  assumes "lit \<noteq> []" "is_word (hd lit)" "post = [] \<or> \<not> is_word (hd post)"
  shows "re_sub_word lit repl p post = re_sub_word lit repl None post"
proof (cases post)
  case Nil
  then show ?thesis by simp
next
  case (Cons c cs)
  then have "\<not> match_here lit q (c # cs)" for q
    using assms match_here_nonword_head by simp
  then show ?thesis using Cons by simp
qed

lemma re_sub_word_match:
  assumes "match_here lit prev s"
  shows "re_sub_word lit repl prev s =
         repl @ re_sub_word lit repl (Some (last lit)) (drop (length lit) s)"
proof (cases s)
  case Nil
  then show ?thesis using assms by (auto simp: match_here_def)
next
  case (Cons c cs)
  then show ?thesis using assms by simp
qed

lemma take_eq_length:
  assumes "take n s = lit" "length lit = n"
  shows "n \<le> length s"
proof -
  have "length (take n s) = n" using assms by simp
  then show ?thesis by simp
qed

lemma match_here_length:
  "match_here lit prev s \<Longrightarrow> length lit \<le> length s"
  unfolding match_here_def by (blast intro: take_eq_length)

lemma match_here_inside:
  assumes "length lit < length pre"
  shows "match_here lit prev (pre @ rest) = match_here lit prev pre"
proof -
  have "drop (length lit) pre \<noteq> []" using assms by simp
  then have "next_char (drop (length lit) (pre @ rest)) = next_char (drop (length lit) pre)"
    using assms by (cases "drop (length lit) pre") (simp_all add: next_char_def)
  then show ?thesis
    using assms by (simp add: match_here_def)
qed

text \<open>
  Occurrences of an unbordered literal between word boundaries do not interact: the text
  before a whole-word occurrence and the text after it are rewritten on their own.
\<close>

lemma re_sub_word_compose:
  assumes lit: "lit \<noteq> []" "is_word (hd lit)" "is_word (last lit)" "unbordered lit"
    and post: "post = [] \<or> \<not> is_word (hd post)"
  shows "(pre = [] \<longrightarrow> \<not> word_at prev) \<Longrightarrow> (pre \<noteq> [] \<longrightarrow> \<not> is_word (last pre)) \<Longrightarrow>
     re_sub_word lit repl prev (pre @ lit @ post) =
     re_sub_word lit repl prev pre @ repl @ re_sub_word lit repl None post"
proof (induction pre arbitrary: prev rule: length_induct)
  case (1 pre)
  note IH = "1.IH" [rule_format]
  show ?case
  proof (cases pre)
    case Nil
    have "match_here lit prev (lit @ post)"
      using lit post "1.prems" Nil by (intro match_here_at_occurrence) simp_all
    then have "re_sub_word lit repl prev (lit @ post) =
        repl @ re_sub_word lit repl (Some (last lit)) post"
      by (simp add: re_sub_word_match)
    moreover have "re_sub_word lit repl (Some (last lit)) post = re_sub_word lit repl None post"
      using lit post by (intro re_sub_word_after_occurrence) simp_all
    ultimately show ?thesis
      using Nil by simp
  next
    case (Cons c cs)
    then have nw: "\<not> is_word (last pre)" and ne: "pre \<noteq> []"
      using "1.prems" by simp_all
    show ?thesis
    proof (cases "match_here lit prev (pre @ lit @ post)")
      case True
      then have tk: "take (length lit) (pre @ lit @ post) = lit"
        by (simp add: match_here_def)
      have len: "length lit < length pre"
        using occurrence_inside [OF lit(4) lit(3) ne nw tk] .
      define pre' where "pre' = drop (length lit) pre"
      have m2: "match_here lit prev pre"
        using True len by (simp add: match_here_inside)
      have pre'_ne: "pre' \<noteq> []"
        using len by (simp add: pre'_def)
      have last': "last pre' = last pre"
        using len by (simp add: pre'_def)
      have drop_full: "drop (length lit) (pre @ lit @ post) = pre' @ lit @ post"
        using len by (simp add: pre'_def)
      have L: "re_sub_word lit repl prev (pre @ lit @ post) =
          repl @ re_sub_word lit repl (Some (last lit)) (pre' @ lit @ post)"
        using re_sub_word_match [OF True, of repl] by (simp only: drop_full)
      have R: "re_sub_word lit repl prev pre =
          repl @ re_sub_word lit repl (Some (last lit)) pre'"
        using re_sub_word_match [OF m2, of repl] by (simp only: pre'_def)
      have shorter: "length pre' < length pre"
        using lit(1) ne by (simp add: pre'_def)
      have "re_sub_word lit repl (Some (last lit)) (pre' @ lit @ post) =
          re_sub_word lit repl (Some (last lit)) pre' @ repl @ re_sub_word lit repl None post"
        using IH [OF shorter, of "Some (last lit)"] pre'_ne last' nw by simp
      then show ?thesis
        using L R by simp
    next
      case False
      have nm: "\<not> match_here lit prev pre"
      proof
        assume m: "match_here lit prev pre"
        then have le: "length lit \<le> length pre"
          by (rule match_here_length)
        have "length lit \<noteq> length pre"
        proof
          assume "length lit = length pre"
          then have "pre = lit"
            using m by (simp add: match_here_def)
          then show False using nw lit(3) by simp
        qed
        then have "length lit < length pre"
          using le by simp
        then have "match_here lit prev (pre @ lit @ post)"
          using m by (simp add: match_here_inside)
        then show False using False by simp
      qed
      have L: "re_sub_word lit repl prev (pre @ lit @ post) =
          c # re_sub_word lit repl (Some c) (cs @ lit @ post)"
        using False Cons by simp
      have R: "re_sub_word lit repl prev pre = c # re_sub_word lit repl (Some c) cs"
        using nm Cons by simp
      have shorter: "length cs < length pre"
        using Cons by simp
      have p1: "cs = [] \<longrightarrow> \<not> word_at (Some c)"
        using nw Cons by (auto simp: word_at_def)
      have p2: "cs \<noteq> [] \<longrightarrow> \<not> is_word (last cs)"
        using nw Cons by auto
      have "re_sub_word lit repl (Some c) (cs @ lit @ post) =
          re_sub_word lit repl (Some c) cs @ repl @ re_sub_word lit repl None post"
        using IH [OF shorter, of "Some c"] p1 p2 by blast
      then show ?thesis
        using L R by simp
    qed
  qed
qed

lemma alias_shape:
  "VINICIUS \<noteq> []" "is_word (hd VINICIUS)" "is_word (last VINICIUS)"
  "MARCOS_NASCIMENTO \<noteq> []" "is_word (hd MARCOS_NASCIMENTO)" "is_word (last MARCOS_NASCIMENTO)"
  by (simp_all add: alias_lits is_word_def word_latin1_def)

lemma contains_word_iff:
  assumes "lit \<noteq> []" "is_word (hd lit)" "is_word (last lit)"
  shows "contains_word lit s \<longleftrightarrow>
     (\<exists>pre post. s = pre @ lit @ post \<and>
        (pre = [] \<or> \<not> is_word (last pre)) \<and> (post = [] \<or> \<not> is_word (hd post)))"
proof -
  have b1: "boundary (if pre = [] then None else Some (last pre)) (Some (hd lit)) \<longleftrightarrow>
      pre = [] \<or> \<not> is_word (last pre)" for pre :: ustring
    using assms by (simp add: boundary_def word_at_def)
  have b2: "boundary (Some (last lit)) (next_char post) \<longleftrightarrow>
      post = [] \<or> \<not> is_word (hd post)" for post :: ustring
    using assms by (cases post) (simp_all add: boundary_def word_at_def next_char_def)
  show ?thesis
    unfolding contains_word_def has_match_iff using assms(1) by (simp add: b1 b2)
qed

text \<open>
  Claim C7. The alias substitution matches whole name tokens only, a token being a
  maximal run of word characters (\<^verbatim>\<open>\w\<close>). For each of the two aliases (VINICIUS, rewritten
  with an accent, and MARCOS NASCIMENTO, rewritten to MARCOS):
  \<^item> a name contains the alias as a whole word exactly when the alias occurs in it with no
    word character next to it on either side;
  \<^item> a name that does not, so one where the alias occurs only inside longer tokens, is
    not rewritten;
  \<^item> an occurrence of the alias as a whole word is replaced by the canonical form, and the
    text before and after it is rewritten by the same rule; so a name that consists of the
    alias becomes the canonical form.
\<close>

theorem alias_whole_word_only:
  assumes "(lit, repl) = (VINICIUS, VINICIUS_acento) \<or> (lit, repl) = (MARCOS_NASCIMENTO, MARCOS)"
  shows "(contains_word lit s \<longleftrightarrow>
       (\<exists>pre post. s = pre @ lit @ post \<and>
          (pre = [] \<or> \<not> is_word (last pre)) \<and> (post = [] \<or> \<not> is_word (hd post)))) \<and>
     (\<not> contains_word lit s \<longrightarrow> str_replace_word lit repl s = s) \<and>
     ((a = [] \<or> \<not> is_word (last a)) \<and> (b = [] \<or> \<not> is_word (hd b)) \<longrightarrow>
        str_replace_word lit repl (a @ lit @ b) =
        str_replace_word lit repl a @ repl @ str_replace_word lit repl b)"
proof -
  have shape: "lit \<noteq> []" "is_word (hd lit)" "is_word (last lit)" "unbordered lit"
    using assms alias_shape unbordered_aliases by auto
  have c1: "contains_word lit s \<longleftrightarrow>
       (\<exists>pre post. s = pre @ lit @ post \<and>
          (pre = [] \<or> \<not> is_word (last pre)) \<and> (post = [] \<or> \<not> is_word (hd post)))"
    by (rule contains_word_iff [OF shape(1-3)])
  have c2: "\<not> contains_word lit s \<longrightarrow> str_replace_word lit repl s = s"
    by (simp add: contains_word_def str_replace_word_def no_match_unchanged)
  have c3: "str_replace_word lit repl (a @ lit @ b) =
        str_replace_word lit repl a @ repl @ str_replace_word lit repl b"
    if "a = [] \<or> \<not> is_word (last a)" "b = [] \<or> \<not> is_word (hd b)"
    unfolding str_replace_word_def
    using that by (intro re_sub_word_compose shape) (auto simp: word_at_def)
  show ?thesis
    using c1 c2 c3 by blast
qed

theorem alias_whole_word_only_witness:
  "str_replace_word VINICIUS VINICIUS_acento (U ''VINICIUSA'') = U ''VINICIUSA'' \<and>
   str_replace_word VINICIUS VINICIUS_acento (U ''JOSE '' @ VINICIUS @ U '' LIMA'') =
     U ''JOSE '' @ VINICIUS_acento @ U '' LIMA''"
proof -
  have n1: "\<not> contains_word VINICIUS (U ''VINICIUSA'')"
    by (simp add: contains_word_def str_eval)
  have n2: "\<not> contains_word VINICIUS (U ''JOSE '')" "\<not> contains_word VINICIUS (U '' LIMA'')"
    by (simp_all add: contains_word_def str_eval)
  have e: "\<not> is_word (last (U ''JOSE ''))" "\<not> is_word (hd (U '' LIMA''))"
    by (simp_all add: U_def is_word_def word_latin1_def)
  show ?thesis
    using n1 n2 e
      alias_whole_word_only [of VINICIUS VINICIUS_acento "U ''VINICIUSA''" "U ''JOSE ''" "U '' LIMA''"]
      alias_whole_word_only [of VINICIUS VINICIUS_acento "U ''JOSE ''"]
      alias_whole_word_only [of VINICIUS VINICIUS_acento "U '' LIMA''"]
    by simp
qed

section \<open>Records without a driver\<close>

lemmas calcular_eval =
  calcular_bonus_def coluna_bonus_def np_select_def isin_def nan_mul_def nan_round2_def
  agg_tabela_def agg_motorista_def agg_centro_custo_def group_keys_def group_rows_def
  chave_motorista_def chave_centro_def chave_motorista_centro_def sort_values_desc_def
  nansum_def count_notna_def series_map_def transform_primeira_linha_def tb_index_def
  List.map_filter_def

text \<open>
  Claim C1 says that a record whose driver is missing is excluded before any computation.
  The code means to do so (line 108 drops the rows with a missing \<^verbatim>\<open>MOTORISTA\<close>), but
  line 99 has already turned the column into text, where a missing driver is the string
  \<^verbatim>\<open>nan\<close>, upper-cased to \<^verbatim>\<open>NAN\<close>; no row has a missing driver any more when line 108 runs.
  On a frame with one record, without driver and dated inside the range, the record is in
  the normalised output under the driver name NAN and makes a row of every table.
\<close>

theorem missing_driver_kept:
  "relatorio parse_none 10 12
     [\<lparr>MOTORISTA = None, CENTRO_DE_CUSTO = Some (U ''AREIA''),
        DATA = Timestamp (to_datetime_date 11), QUANT = Some 5, TOTAL = Some 100\<rparr>] =
   Inr ([(\<lparr>MOTORISTA = Some (U ''NAN''), CENTRO_DE_CUSTO = Some (U ''AREIA''),
            DATA = Timestamp (to_datetime_date 11), QUANT = Some 5, TOTAL = Some 100\<rparr>,
          Some 5)],
        [(\<lparr>tb_MOTORISTA = U ''NAN'', tb_CENTRO_DE_CUSTO = U ''AREIA'', tb_VIAGENS = 1,
            tb_QUANT = 5, tb_FATURAMENTO = 100, tb_BONUS = 5\<rparr>, Some 5)],
        [\<lparr>bm_MOTORISTA = U ''NAN'', bm_VIAGENS = 1, bm_BONUS = 5\<rparr>],
        [\<lparr>cc_CENTRO_DE_CUSTO = U ''AREIA'', cc_BONUS_TOTAL = 5\<rparr>])"
  by (simp add: relatorio_def limpar_eval str_eval calcular_eval round2_numeral Let_def)

section \<open>Normalising twice\<close>

text \<open>
  The output of a substitution copies its input up to the first replacement, and a
  replacement starts with the first character of the literal it replaces.
\<close>

lemma match_here_hd: "match_here lit prev (c # cs) \<Longrightarrow> c = hd lit"
  by (cases lit) (auto simp: match_here_def)

lemma re_sub_word_prefix:
  assumes "repl \<noteq> []" "hd repl = hd lit"
  shows "hd lit \<notin> set (take n (re_sub_word lit repl prev s)) \<Longrightarrow>
         take (Suc n) (re_sub_word lit repl prev s) = take (Suc n) s"
proof (induction n arbitrary: s prev)
  case 0
  show ?case
  proof (cases s)
    case Nil
    then show ?thesis by simp
  next
    case (Cons c cs)
    show ?thesis
    proof (cases "match_here lit prev (c # cs)")
      case True
      then have "c = hd lit" by (rule match_here_hd)
      moreover obtain r rs where "repl = r # rs"
        using assms(1) by (cases repl) auto
      ultimately show ?thesis
        using True Cons assms(2) by simp
    next
      case False
      then show ?thesis using Cons by simp
    qed
  qed
next
  case (Suc n)
  show ?case
  proof (cases s)
    case Nil
    then show ?thesis by simp
  next
    case (Cons c cs)
    show ?thesis
    proof (cases "match_here lit prev (c # cs)")
      case True
      obtain r rs where r: "repl = r # rs"
        using assms(1) by (cases repl) auto
      have "hd lit \<in> set (take (Suc n) (re_sub_word lit repl prev s))"
        using True Cons r assms(2) by simp
      then show ?thesis using Suc.prems by simp
    next
      case False
      then have out: "re_sub_word lit repl prev s = c # re_sub_word lit repl (Some c) cs"
        using Cons by simp
      have "hd lit \<notin> set (take n (re_sub_word lit repl (Some c) cs))"
        using Suc.prems out by simp
      then have "take (Suc n) (re_sub_word lit repl (Some c) cs) = take (Suc n) cs"
        by (rule Suc.IH)
      then show ?thesis using out Cons by simp
    qed
  qed
qed

lemma next_char_drop_cong:
  "take (Suc k) xs = take (Suc k) ys \<Longrightarrow> next_char (drop k xs) = next_char (drop k ys)"
proof (induction k arbitrary: xs ys)
  case 0
  then show ?case by (cases xs; cases ys) (simp_all add: next_char_def)
next
  case (Suc k)
  show ?case
  proof (cases xs)
    case Nil
    then show ?thesis using Suc.prems by (cases ys) simp_all
  next
    case xs: (Cons x xs')
    show ?thesis
    proof (cases ys)
      case Nil
      then show ?thesis using Suc.prems xs by simp
    next
      case ys: (Cons y ys')
      have "take (Suc k) xs' = take (Suc k) ys'"
        using Suc.prems xs ys by simp
      then have "next_char (drop k xs') = next_char (drop k ys')"
        by (rule Suc.IH)
      then show ?thesis using xs ys by simp
    qed
  qed
qed

lemma take_Suc_eq_take:
  "take (Suc k) xs = take (Suc k) ys \<Longrightarrow> take k xs = take k ys"
proof (induction k arbitrary: xs ys)
  case 0
  then show ?case by simp
next
  case (Suc k)
  show ?case
  proof (cases xs)
    case Nil
    then show ?thesis using Suc.prems by (cases ys) simp_all
  next
    case xs: (Cons x xs')
    show ?thesis
    proof (cases ys)
      case Nil
      then show ?thesis using Suc.prems xs by simp
    next
      case ys: (Cons y ys')
      have "x = y" "take (Suc k) xs' = take (Suc k) ys'"
        using Suc.prems xs ys by simp_all
      moreover from this(2) have "take k xs' = take k ys'"
        by (rule Suc.IH)
      ultimately show ?thesis using xs ys by simp
    qed
  qed
qed

lemma match_here_copied:
  assumes "repl \<noteq> []" "hd repl = hd lit" "hd lit \<notin> set (tl pat)"
    and m: "match_here pat prev (c # re_sub_word lit repl (Some c) cs)"
  shows "match_here pat prev (c # cs)"
proof -
  let ?out = "re_sub_word lit repl (Some c) cs"
  obtain p ps where pat: "pat = p # ps"
    using m by (cases pat) (auto simp: match_here_def)
  have c_eq: "c = p"
    and tk: "take (length ps) ?out = ps"
    and b1: "boundary prev (next_char pat)"
    and b2: "boundary (Some (last pat)) (next_char (drop (length ps) ?out))"
    using m unfolding match_here_def pat by auto
  have "hd lit \<notin> set ps"
    using assms(3) pat by simp
  then have "hd lit \<notin> set (take (length ps) ?out)"
    by (simp add: tk)
  then have eq: "take (Suc (length ps)) ?out = take (Suc (length ps)) cs"
    by (rule re_sub_word_prefix [OF assms(1,2)])
  have "take (length ps) cs = take (length ps) ?out"
    using take_Suc_eq_take [OF eq] by simp
  then have tk': "take (length ps) cs = ps"
    by (simp add: tk)
  have nx: "next_char (drop (length ps) ?out) = next_char (drop (length ps) cs)"
    by (rule next_char_drop_cong [OF eq])
  have t: "take (length pat) (c # cs) = pat"
    using pat c_eq tk' by simp
  have b2': "boundary (Some (last pat)) (next_char (drop (length pat) (c # cs)))"
    using b2 nx pat by simp
  show ?thesis
    unfolding match_here_def using t b1 b2' pat by blast
qed

lemma match_here_wrong_head: "c \<noteq> hd lit \<Longrightarrow> match_here lit prev (c # cs) = False"
  using match_here_hd by blast

lemma no_match_at_acento: "match_here VINICIUS prev (VINICIUS_acento @ X) = False"
proof -
  have "take (length VINICIUS) (VINICIUS_acento @ X) = VINICIUS_acento"
    by (simp add: alias_lits)
  moreover have "VINICIUS_acento \<noteq> VINICIUS"
    by (simp add: alias_lits)
  ultimately show ?thesis
    by (simp add: match_here_def)
qed

lemma has_match_skip_acento:
  "has_match VINICIUS prev (VINICIUS_acento @ X) = has_match VINICIUS (Some 83) X"
proof -
  have "has_match VINICIUS prev (VINICIUS_acento @ X) =
        has_match VINICIUS (Some 86) ([73, 78, 205, 67, 73, 85, 83] @ X)"
    using no_match_at_acento [of prev X] by (simp add: alias_lits(2))
  also have "\<dots> = has_match VINICIUS (Some 83) X"
    by (simp add: match_here_wrong_head alias_lits(1))
  finally show ?thesis .
qed

lemma has_match_skip_marcos:
  "has_match VINICIUS prev (MARCOS @ X) = has_match VINICIUS (Some 83) X"
  by (simp add: match_here_wrong_head alias_lits(1,4))

lemma alias_heads:
  "VINICIUS_acento \<noteq> []" "hd VINICIUS_acento = hd VINICIUS" "hd VINICIUS \<notin> set (tl VINICIUS)"
  "MARCOS \<noteq> []" "hd MARCOS = hd MARCOS_NASCIMENTO" "hd MARCOS_NASCIMENTO \<notin> set (tl VINICIUS)"
  "last VINICIUS = 83" "word_at (Some 83) = word_at (Some (last MARCOS_NASCIMENTO))"
  by (simp_all add: alias_lits word_at_def is_word_def word_latin1_def)

lemma drop_match_shorter:
  assumes "match_here lit prev s"
  shows "length (drop (length lit) s) < length s"
proof -
  have "lit \<noteq> []"
    using assms by (simp add: match_here_def)
  moreover have "length lit \<le> length s"
    by (rule match_here_length [OF assms])
  ultimately show ?thesis by (cases lit) simp_all
qed

text \<open>
  After the first substitution no whole-word VINICIUS is left, and the second substitution
  creates none.
\<close>

lemma no_vinicius_after_sub:
  "\<not> has_match VINICIUS prev (re_sub_word VINICIUS VINICIUS_acento prev s)"
proof (induction s arbitrary: prev rule: length_induct)
  case (1 s)
  note IH = "1.IH" [rule_format]
  show ?case
  proof (cases s)
    case Nil
    then show ?thesis by simp
  next
    case (Cons c cs)
    show ?thesis
    proof (cases "match_here VINICIUS prev s")
      case True
      let ?rest = "drop (length VINICIUS) s"
      have out: "re_sub_word VINICIUS VINICIUS_acento prev s =
          VINICIUS_acento @ re_sub_word VINICIUS VINICIUS_acento (Some (last VINICIUS)) ?rest"
        by (rule re_sub_word_match [OF True])
      have "\<not> has_match VINICIUS (Some (last VINICIUS))
          (re_sub_word VINICIUS VINICIUS_acento (Some (last VINICIUS)) ?rest)"
        by (rule IH [OF drop_match_shorter [OF True]])
      then show ?thesis
        unfolding out has_match_skip_acento by (simp add: alias_heads(7))
    next
      case False
      have out: "re_sub_word VINICIUS VINICIUS_acento prev s =
          c # re_sub_word VINICIUS VINICIUS_acento (Some c) cs"
        using False Cons by simp
      have a: "\<not> match_here VINICIUS prev (c # re_sub_word VINICIUS VINICIUS_acento (Some c) cs)"
        using match_here_copied [OF alias_heads(1,2,3)] False Cons by blast
      have b: "\<not> has_match VINICIUS (Some c) (re_sub_word VINICIUS VINICIUS_acento (Some c) cs)"
        by (rule IH) (simp add: Cons)
      show ?thesis
        unfolding out using a b by simp
    qed
  qed
qed

lemma vinicius_not_created:
  "has_match VINICIUS prev (re_sub_word MARCOS_NASCIMENTO MARCOS prev s) \<Longrightarrow>
   has_match VINICIUS prev s"
proof (induction s arbitrary: prev rule: length_induct)
  case (1 s)
  note IH = "1.IH" [rule_format]
  show ?case
  proof (cases s)
    case Nil
    then show ?thesis using "1.prems" by simp
  next
    case (Cons c cs)
    show ?thesis
    proof (cases "match_here MARCOS_NASCIMENTO prev s")
      case True
      let ?rest = "drop (length MARCOS_NASCIMENTO) s"
      have out: "re_sub_word MARCOS_NASCIMENTO MARCOS prev s =
          MARCOS @ re_sub_word MARCOS_NASCIMENTO MARCOS (Some (last MARCOS_NASCIMENTO)) ?rest"
        by (rule re_sub_word_match [OF True])
      have "has_match VINICIUS (Some 83)
          (re_sub_word MARCOS_NASCIMENTO MARCOS (Some (last MARCOS_NASCIMENTO)) ?rest)"
        using "1.prems" unfolding out has_match_skip_marcos .
      then have "has_match VINICIUS (Some (last MARCOS_NASCIMENTO))
          (re_sub_word MARCOS_NASCIMENTO MARCOS (Some (last MARCOS_NASCIMENTO)) ?rest)"
        using has_match_cong_prev [OF alias_heads(8)] by simp
      then have r: "has_match VINICIUS (Some (last MARCOS_NASCIMENTO)) ?rest"
        by (rule IH [OF drop_match_shorter [OF True]])
      have "take (length MARCOS_NASCIMENTO) s = MARCOS_NASCIMENTO"
        using True by (simp add: match_here_def)
      then have s_eq: "s = MARCOS_NASCIMENTO @ ?rest"
        using append_take_drop_id [of "length MARCOS_NASCIMENTO" s] by simp
      have "has_match VINICIUS prev (MARCOS_NASCIMENTO @ ?rest)"
        by (rule has_match_append) (simp add: r alias_shape)
      then show ?thesis
        using s_eq by simp
    next
      case False
      have out: "re_sub_word MARCOS_NASCIMENTO MARCOS prev s =
          c # re_sub_word MARCOS_NASCIMENTO MARCOS (Some c) cs"
        using False Cons by simp
      from "1.prems" consider
        "match_here VINICIUS prev (c # re_sub_word MARCOS_NASCIMENTO MARCOS (Some c) cs)" |
        "has_match VINICIUS (Some c) (re_sub_word MARCOS_NASCIMENTO MARCOS (Some c) cs)"
        unfolding out by auto
      then show ?thesis
      proof cases
        case 1
        then have "match_here VINICIUS prev (c # cs)"
          by (rule match_here_copied [OF alias_heads(4,5,6)])
        then show ?thesis using Cons by simp
      next
        case 2
        then have "has_match VINICIUS (Some c) cs"
          by (rule IH [rotated]) (simp add: Cons)
        then show ?thesis using Cons by simp
      qed
    qed
  qed
qed

text \<open>Upper-casing and trimming leave the output of the normaliser as it is.\<close>

lemmas upper_blocks =
  upper_block_01_def upper_block_02_def upper_block_03_def upper_block_04_def upper_block_05_def
  upper_block_06_def upper_block_07_def upper_block_08_def upper_block_09_def upper_block_10_def
  upper_block_11_def upper_block_12_def upper_block_13_def upper_block_14_def upper_block_15_def
  upper_block_16_def upper_block_17_def upper_block_18_def upper_block_19_def upper_block_20_def
  upper_block_21_def upper_block_22_def upper_block_23_def upper_block_24_def upper_block_25_def
  upper_block_26_def upper_block_27_def upper_block_28_def upper_block_29_def upper_block_30_def
  upper_block_31_def upper_block_32_def upper_block_33_def upper_block_34_def upper_block_35_def
  upper_block_36_def upper_block_37_def upper_block_38_def upper_block_39_def upper_block_40_def
  upper_block_41_def upper_block_42_def upper_block_43_def upper_block_44_def upper_block_45_def
  upper_block_46_def upper_block_47_def upper_block_48_def upper_block_49_def upper_block_50_def
  upper_block_51_def upper_block_52_def upper_block_53_def upper_block_54_def upper_block_55_def
  upper_block_56_def upper_block_57_def upper_block_58_def upper_block_59_def upper_block_60_def
  upper_block_61_def upper_block_62_def upper_block_63_def upper_block_64_def upper_block_65_def
  upper_block_66_def upper_block_67_def upper_block_68_def upper_block_69_def upper_block_70_def
  upper_block_71_def upper_block_72_def upper_block_73_def upper_block_74_def upper_block_75_def
  upper_block_76_def upper_block_77_def upper_block_78_def upper_block_79_def upper_block_80_def
  upper_block_81_def upper_block_82_def upper_block_83_def upper_block_84_def upper_block_85_def
  upper_block_86_def upper_block_87_def upper_block_88_def upper_block_89_def upper_block_90_def
  upper_block_91_def upper_block_92_def

lemma upper_block_01_fixed:
  "upper_block_01 c = Some u \<Longrightarrow> d \<in> set u \<Longrightarrow> upper_char d = [d]"
  by (auto simp: upper_block_01_def split: if_splits)
    (simp_all add: upper_char_def upper_latin1_def upper_high_def upper_blocks)

lemma upper_block_02_fixed:
  "upper_block_02 c = Some u \<Longrightarrow> d \<in> set u \<Longrightarrow> upper_char d = [d]"
  by (auto simp: upper_block_02_def split: if_splits)
    (simp_all add: upper_char_def upper_latin1_def upper_high_def upper_blocks)

lemma upper_block_03_fixed:
  "upper_block_03 c = Some u \<Longrightarrow> d \<in> set u \<Longrightarrow> upper_char d = [d]"
  by (auto simp: upper_block_03_def split: if_splits)
    (simp_all add: upper_char_def upper_latin1_def upper_high_def upper_blocks)

lemma upper_block_04_fixed:
  "upper_block_04 c = Some u \<Longrightarrow> d \<in> set u \<Longrightarrow> upper_char d = [d]"
  by (auto simp: upper_block_04_def split: if_splits)
    (simp_all add: upper_char_def upper_latin1_def upper_high_def upper_blocks)

lemma upper_block_05_fixed:
  "upper_block_05 c = Some u \<Longrightarrow> d \<in> set u \<Longrightarrow> upper_char d = [d]"
  by (auto simp: upper_block_05_def split: if_splits)
    (simp_all add: upper_char_def upper_latin1_def upper_high_def upper_blocks)

lemma upper_block_06_fixed:
  "upper_block_06 c = Some u \<Longrightarrow> d \<in> set u \<Longrightarrow> upper_char d = [d]"
  by (auto simp: upper_block_06_def split: if_splits)
    (simp_all add: upper_char_def upper_latin1_def upper_high_def upper_blocks)

lemma upper_block_07_fixed:
  "upper_block_07 c = Some u \<Longrightarrow> d \<in> set u \<Longrightarrow> upper_char d = [d]"
  by (auto simp: upper_block_07_def split: if_splits)
    (simp_all add: upper_char_def upper_latin1_def upper_high_def upper_blocks)

lemma upper_block_08_fixed:
  "upper_block_08 c = Some u \<Longrightarrow> d \<in> set u \<Longrightarrow> upper_char d = [d]"
  by (auto simp: upper_block_08_def split: if_splits)
    (simp_all add: upper_char_def upper_latin1_def upper_high_def upper_blocks)

lemma upper_block_09_fixed:
  "upper_block_09 c = Some u \<Longrightarrow> d \<in> set u \<Longrightarrow> upper_char d = [d]"
  by (auto simp: upper_block_09_def split: if_splits)
    (simp_all add: upper_char_def upper_latin1_def upper_high_def upper_blocks)

lemma upper_block_10_fixed:
  "upper_block_10 c = Some u \<Longrightarrow> d \<in> set u \<Longrightarrow> upper_char d = [d]"
  by (auto simp: upper_block_10_def split: if_splits)
    (simp_all add: upper_char_def upper_latin1_def upper_high_def upper_blocks)

lemma upper_block_11_fixed:
  "upper_block_11 c = Some u \<Longrightarrow> d \<in> set u \<Longrightarrow> upper_char d = [d]"
  by (auto simp: upper_block_11_def split: if_splits)
    (simp_all add: upper_char_def upper_latin1_def upper_high_def upper_blocks)

lemma upper_block_12_fixed:
  "upper_block_12 c = Some u \<Longrightarrow> d \<in> set u \<Longrightarrow> upper_char d = [d]"
  by (auto simp: upper_block_12_def split: if_splits)
    (simp_all add: upper_char_def upper_latin1_def upper_high_def upper_blocks)

lemma upper_block_13_fixed:
  "upper_block_13 c = Some u \<Longrightarrow> d \<in> set u \<Longrightarrow> upper_char d = [d]"
  by (auto simp: upper_block_13_def split: if_splits)
    (simp_all add: upper_char_def upper_latin1_def upper_high_def upper_blocks)

lemma upper_block_14_fixed:
  "upper_block_14 c = Some u \<Longrightarrow> d \<in> set u \<Longrightarrow> upper_char d = [d]"
  by (auto simp: upper_block_14_def split: if_splits)
    (simp_all add: upper_char_def upper_latin1_def upper_high_def upper_blocks)

lemma upper_block_15_fixed:
  "upper_block_15 c = Some u \<Longrightarrow> d \<in> set u \<Longrightarrow> upper_char d = [d]"
  by (auto simp: upper_block_15_def split: if_splits)
    (simp_all add: upper_char_def upper_latin1_def upper_high_def upper_blocks)

lemma upper_block_16_fixed:
  "upper_block_16 c = Some u \<Longrightarrow> d \<in> set u \<Longrightarrow> upper_char d = [d]"
  by (auto simp: upper_block_16_def split: if_splits)
    (simp_all add: upper_char_def upper_latin1_def upper_high_def upper_blocks)

lemma upper_block_17_fixed:
  "upper_block_17 c = Some u \<Longrightarrow> d \<in> set u \<Longrightarrow> upper_char d = [d]"
  by (auto simp: upper_block_17_def split: if_splits)
    (simp_all add: upper_char_def upper_latin1_def upper_high_def upper_blocks)

lemma upper_block_18_fixed:
  "upper_block_18 c = Some u \<Longrightarrow> d \<in> set u \<Longrightarrow> upper_char d = [d]"
  by (auto simp: upper_block_18_def split: if_splits)
    (simp_all add: upper_char_def upper_latin1_def upper_high_def upper_blocks)

lemma upper_block_19_fixed:
  "upper_block_19 c = Some u \<Longrightarrow> d \<in> set u \<Longrightarrow> upper_char d = [d]"
  by (auto simp: upper_block_19_def split: if_splits)
    (simp_all add: upper_char_def upper_latin1_def upper_high_def upper_blocks)

lemma upper_block_20_fixed:
  "upper_block_20 c = Some u \<Longrightarrow> d \<in> set u \<Longrightarrow> upper_char d = [d]"
  by (auto simp: upper_block_20_def split: if_splits)
    (simp_all add: upper_char_def upper_latin1_def upper_high_def upper_blocks)

lemma upper_block_21_fixed:
  "upper_block_21 c = Some u \<Longrightarrow> d \<in> set u \<Longrightarrow> upper_char d = [d]"
  by (auto simp: upper_block_21_def split: if_splits)
    (simp_all add: upper_char_def upper_latin1_def upper_high_def upper_blocks)

lemma upper_block_22_fixed:
  "upper_block_22 c = Some u \<Longrightarrow> d \<in> set u \<Longrightarrow> upper_char d = [d]"
  by (auto simp: upper_block_22_def split: if_splits)
    (simp_all add: upper_char_def upper_latin1_def upper_high_def upper_blocks)

lemma upper_block_23_fixed:
  "upper_block_23 c = Some u \<Longrightarrow> d \<in> set u \<Longrightarrow> upper_char d = [d]"
  by (auto simp: upper_block_23_def split: if_splits)
    (simp_all add: upper_char_def upper_latin1_def upper_high_def upper_blocks)

lemma upper_block_24_fixed:
  "upper_block_24 c = Some u \<Longrightarrow> d \<in> set u \<Longrightarrow> upper_char d = [d]"
  by (auto simp: upper_block_24_def split: if_splits)
    (simp_all add: upper_char_def upper_latin1_def upper_high_def upper_blocks)

lemma upper_block_25_fixed:
  "upper_block_25 c = Some u \<Longrightarrow> d \<in> set u \<Longrightarrow> upper_char d = [d]"
  by (auto simp: upper_block_25_def split: if_splits)
    (simp_all add: upper_char_def upper_latin1_def upper_high_def upper_blocks)

lemma upper_block_26_fixed:
  "upper_block_26 c = Some u \<Longrightarrow> d \<in> set u \<Longrightarrow> upper_char d = [d]"
  by (auto simp: upper_block_26_def split: if_splits)
    (simp_all add: upper_char_def upper_latin1_def upper_high_def upper_blocks)

lemma upper_block_27_fixed:
  "upper_block_27 c = Some u \<Longrightarrow> d \<in> set u \<Longrightarrow> upper_char d = [d]"
  by (auto simp: upper_block_27_def split: if_splits)
    (simp_all add: upper_char_def upper_latin1_def upper_high_def upper_blocks)

lemma upper_block_28_fixed:
  "upper_block_28 c = Some u \<Longrightarrow> d \<in> set u \<Longrightarrow> upper_char d = [d]"
  by (auto simp: upper_block_28_def split: if_splits)
    (simp_all add: upper_char_def upper_latin1_def upper_high_def upper_blocks)

lemma upper_block_29_fixed:
  "upper_block_29 c = Some u \<Longrightarrow> d \<in> set u \<Longrightarrow> upper_char d = [d]"
  by (auto simp: upper_block_29_def split: if_splits)
    (simp_all add: upper_char_def upper_latin1_def upper_high_def upper_blocks)

lemma upper_block_30_fixed:
  "upper_block_30 c = Some u \<Longrightarrow> d \<in> set u \<Longrightarrow> upper_char d = [d]"
  by (auto simp: upper_block_30_def split: if_splits)
    (simp_all add: upper_char_def upper_latin1_def upper_high_def upper_blocks)

lemma upper_block_31_fixed:
  "upper_block_31 c = Some u \<Longrightarrow> d \<in> set u \<Longrightarrow> upper_char d = [d]"
  by (auto simp: upper_block_31_def split: if_splits)
    (simp_all add: upper_char_def upper_latin1_def upper_high_def upper_blocks)

lemma upper_block_32_fixed:
  "upper_block_32 c = Some u \<Longrightarrow> d \<in> set u \<Longrightarrow> upper_char d = [d]"
  by (auto simp: upper_block_32_def split: if_splits)
    (simp_all add: upper_char_def upper_latin1_def upper_high_def upper_blocks)

lemma upper_block_33_fixed:
  "upper_block_33 c = Some u \<Longrightarrow> d \<in> set u \<Longrightarrow> upper_char d = [d]"
  by (auto simp: upper_block_33_def split: if_splits)
    (simp_all add: upper_char_def upper_latin1_def upper_high_def upper_blocks)

lemma upper_block_34_fixed:
  "upper_block_34 c = Some u \<Longrightarrow> d \<in> set u \<Longrightarrow> upper_char d = [d]"
  by (auto simp: upper_block_34_def split: if_splits)
    (simp_all add: upper_char_def upper_latin1_def upper_high_def upper_blocks)

lemma upper_block_35_fixed:
  "upper_block_35 c = Some u \<Longrightarrow> d \<in> set u \<Longrightarrow> upper_char d = [d]"
  by (auto simp: upper_block_35_def split: if_splits)
    (simp_all add: upper_char_def upper_latin1_def upper_high_def upper_blocks)

lemma upper_block_36_fixed:
  "upper_block_36 c = Some u \<Longrightarrow> d \<in> set u \<Longrightarrow> upper_char d = [d]"
  by (auto simp: upper_block_36_def split: if_splits)
    (simp_all add: upper_char_def upper_latin1_def upper_high_def upper_blocks)

lemma upper_block_37_fixed:
  "upper_block_37 c = Some u \<Longrightarrow> d \<in> set u \<Longrightarrow> upper_char d = [d]"
  by (auto simp: upper_block_37_def split: if_splits)
    (simp_all add: upper_char_def upper_latin1_def upper_high_def upper_blocks)

lemma upper_block_38_fixed:
  "upper_block_38 c = Some u \<Longrightarrow> d \<in> set u \<Longrightarrow> upper_char d = [d]"
  by (auto simp: upper_block_38_def split: if_splits)
    (simp_all add: upper_char_def upper_latin1_def upper_high_def upper_blocks)

lemma upper_block_39_fixed:
  "upper_block_39 c = Some u \<Longrightarrow> d \<in> set u \<Longrightarrow> upper_char d = [d]"
  by (auto simp: upper_block_39_def split: if_splits)
    (simp_all add: upper_char_def upper_latin1_def upper_high_def upper_blocks)

lemma upper_block_40_fixed:
  "upper_block_40 c = Some u \<Longrightarrow> d \<in> set u \<Longrightarrow> upper_char d = [d]"
  by (auto simp: upper_block_40_def split: if_splits)
    (simp_all add: upper_char_def upper_latin1_def upper_high_def upper_blocks)

lemma upper_block_41_fixed:
  "upper_block_41 c = Some u \<Longrightarrow> d \<in> set u \<Longrightarrow> upper_char d = [d]"
  by (auto simp: upper_block_41_def split: if_splits)
    (simp_all add: upper_char_def upper_latin1_def upper_high_def upper_blocks)

lemma upper_block_42_fixed:
  "upper_block_42 c = Some u \<Longrightarrow> d \<in> set u \<Longrightarrow> upper_char d = [d]"
  by (auto simp: upper_block_42_def split: if_splits)
    (simp_all add: upper_char_def upper_latin1_def upper_high_def upper_blocks)

lemma upper_block_43_fixed:
  "upper_block_43 c = Some u \<Longrightarrow> d \<in> set u \<Longrightarrow> upper_char d = [d]"
  by (auto simp: upper_block_43_def split: if_splits)
    (simp_all add: upper_char_def upper_latin1_def upper_high_def upper_blocks)

lemma upper_block_44_fixed:
  "upper_block_44 c = Some u \<Longrightarrow> d \<in> set u \<Longrightarrow> upper_char d = [d]"
  by (auto simp: upper_block_44_def split: if_splits)
    (simp_all add: upper_char_def upper_latin1_def upper_high_def upper_blocks)

lemma upper_block_45_fixed:
  "upper_block_45 c = Some u \<Longrightarrow> d \<in> set u \<Longrightarrow> upper_char d = [d]"
  by (auto simp: upper_block_45_def split: if_splits)
    (simp_all add: upper_char_def upper_latin1_def upper_high_def upper_blocks)

lemma upper_block_46_fixed:
  "upper_block_46 c = Some u \<Longrightarrow> d \<in> set u \<Longrightarrow> upper_char d = [d]"
  by (auto simp: upper_block_46_def split: if_splits)
    (simp_all add: upper_char_def upper_latin1_def upper_high_def upper_blocks)

lemma upper_block_47_fixed:
  "upper_block_47 c = Some u \<Longrightarrow> d \<in> set u \<Longrightarrow> upper_char d = [d]"
  by (auto simp: upper_block_47_def split: if_splits)
    (simp_all add: upper_char_def upper_latin1_def upper_high_def upper_blocks)

lemma upper_block_48_fixed:
  "upper_block_48 c = Some u \<Longrightarrow> d \<in> set u \<Longrightarrow> upper_char d = [d]"
  by (auto simp: upper_block_48_def split: if_splits)
    (simp_all add: upper_char_def upper_latin1_def upper_high_def upper_blocks)

lemma upper_block_49_fixed:
  "upper_block_49 c = Some u \<Longrightarrow> d \<in> set u \<Longrightarrow> upper_char d = [d]"
  by (auto simp: upper_block_49_def split: if_splits)
    (simp_all add: upper_char_def upper_latin1_def upper_high_def upper_blocks)

lemma upper_block_50_fixed:
  "upper_block_50 c = Some u \<Longrightarrow> d \<in> set u \<Longrightarrow> upper_char d = [d]"
  by (auto simp: upper_block_50_def split: if_splits)
    (simp_all add: upper_char_def upper_latin1_def upper_high_def upper_blocks)

lemma upper_block_51_fixed:
  "upper_block_51 c = Some u \<Longrightarrow> d \<in> set u \<Longrightarrow> upper_char d = [d]"
  by (auto simp: upper_block_51_def split: if_splits)
    (simp_all add: upper_char_def upper_latin1_def upper_high_def upper_blocks)

lemma upper_block_52_fixed:
  "upper_block_52 c = Some u \<Longrightarrow> d \<in> set u \<Longrightarrow> upper_char d = [d]"
  by (auto simp: upper_block_52_def split: if_splits)
    (simp_all add: upper_char_def upper_latin1_def upper_high_def upper_blocks)

lemma upper_block_53_fixed:
  "upper_block_53 c = Some u \<Longrightarrow> d \<in> set u \<Longrightarrow> upper_char d = [d]"
  by (auto simp: upper_block_53_def split: if_splits)
    (simp_all add: upper_char_def upper_latin1_def upper_high_def upper_blocks)

lemma upper_block_54_fixed:
  "upper_block_54 c = Some u \<Longrightarrow> d \<in> set u \<Longrightarrow> upper_char d = [d]"
  by (auto simp: upper_block_54_def split: if_splits)
    (simp_all add: upper_char_def upper_latin1_def upper_high_def upper_blocks)

lemma upper_block_55_fixed:
  "upper_block_55 c = Some u \<Longrightarrow> d \<in> set u \<Longrightarrow> upper_char d = [d]"
  by (auto simp: upper_block_55_def split: if_splits)
    (simp_all add: upper_char_def upper_latin1_def upper_high_def upper_blocks)

lemma upper_block_56_fixed:
  "upper_block_56 c = Some u \<Longrightarrow> d \<in> set u \<Longrightarrow> upper_char d = [d]"
  by (auto simp: upper_block_56_def split: if_splits)
    (simp_all add: upper_char_def upper_latin1_def upper_high_def upper_blocks)

lemma upper_block_57_fixed:
  "upper_block_57 c = Some u \<Longrightarrow> d \<in> set u \<Longrightarrow> upper_char d = [d]"
  by (auto simp: upper_block_57_def split: if_splits)
    (simp_all add: upper_char_def upper_latin1_def upper_high_def upper_blocks)

lemma upper_block_58_fixed:
  "upper_block_58 c = Some u \<Longrightarrow> d \<in> set u \<Longrightarrow> upper_char d = [d]"
  by (auto simp: upper_block_58_def split: if_splits)
    (simp_all add: upper_char_def upper_latin1_def upper_high_def upper_blocks)

lemma upper_block_59_fixed:
  "upper_block_59 c = Some u \<Longrightarrow> d \<in> set u \<Longrightarrow> upper_char d = [d]"
  by (auto simp: upper_block_59_def split: if_splits)
    (simp_all add: upper_char_def upper_latin1_def upper_high_def upper_blocks)

lemma upper_block_60_fixed:
  "upper_block_60 c = Some u \<Longrightarrow> d \<in> set u \<Longrightarrow> upper_char d = [d]"
  by (auto simp: upper_block_60_def split: if_splits)
    (simp_all add: upper_char_def upper_latin1_def upper_high_def upper_blocks)

lemma upper_block_61_fixed:
  "upper_block_61 c = Some u \<Longrightarrow> d \<in> set u \<Longrightarrow> upper_char d = [d]"
  by (auto simp: upper_block_61_def split: if_splits)
    (simp_all add: upper_char_def upper_latin1_def upper_high_def upper_blocks)

lemma upper_block_62_fixed:
  "upper_block_62 c = Some u \<Longrightarrow> d \<in> set u \<Longrightarrow> upper_char d = [d]"
  by (auto simp: upper_block_62_def split: if_splits)
    (simp_all add: upper_char_def upper_latin1_def upper_high_def upper_blocks)

lemma upper_block_63_fixed:
  "upper_block_63 c = Some u \<Longrightarrow> d \<in> set u \<Longrightarrow> upper_char d = [d]"
  by (auto simp: upper_block_63_def split: if_splits)
    (simp_all add: upper_char_def upper_latin1_def upper_high_def upper_blocks)

lemma upper_block_64_fixed:
  "upper_block_64 c = Some u \<Longrightarrow> d \<in> set u \<Longrightarrow> upper_char d = [d]"
  by (auto simp: upper_block_64_def split: if_splits)
    (simp_all add: upper_char_def upper_latin1_def upper_high_def upper_blocks)

lemma upper_block_65_fixed:
  "upper_block_65 c = Some u \<Longrightarrow> d \<in> set u \<Longrightarrow> upper_char d = [d]"
  by (auto simp: upper_block_65_def split: if_splits)
    (simp_all add: upper_char_def upper_latin1_def upper_high_def upper_blocks)

lemma upper_block_66_fixed:
  "upper_block_66 c = Some u \<Longrightarrow> d \<in> set u \<Longrightarrow> upper_char d = [d]"
  by (auto simp: upper_block_66_def split: if_splits)
    (simp_all add: upper_char_def upper_latin1_def upper_high_def upper_blocks)

lemma upper_block_67_fixed:
  "upper_block_67 c = Some u \<Longrightarrow> d \<in> set u \<Longrightarrow> upper_char d = [d]"
  by (auto simp: upper_block_67_def split: if_splits)
    (simp_all add: upper_char_def upper_latin1_def upper_high_def upper_blocks)

lemma upper_block_68_fixed:
  "upper_block_68 c = Some u \<Longrightarrow> d \<in> set u \<Longrightarrow> upper_char d = [d]"
  by (auto simp: upper_block_68_def split: if_splits)
    (simp_all add: upper_char_def upper_latin1_def upper_high_def upper_blocks)

lemma upper_block_69_fixed:
  "upper_block_69 c = Some u \<Longrightarrow> d \<in> set u \<Longrightarrow> upper_char d = [d]"
  by (auto simp: upper_block_69_def split: if_splits)
    (simp_all add: upper_char_def upper_latin1_def upper_high_def upper_blocks)

lemma upper_block_70_fixed:
  "upper_block_70 c = Some u \<Longrightarrow> d \<in> set u \<Longrightarrow> upper_char d = [d]"
  by (auto simp: upper_block_70_def split: if_splits)
    (simp_all add: upper_char_def upper_latin1_def upper_high_def upper_blocks)

lemma upper_block_71_fixed:
  "upper_block_71 c = Some u \<Longrightarrow> d \<in> set u \<Longrightarrow> upper_char d = [d]"
  by (auto simp: upper_block_71_def split: if_splits)
    (simp_all add: upper_char_def upper_latin1_def upper_high_def upper_blocks)

lemma upper_block_72_fixed:
  "upper_block_72 c = Some u \<Longrightarrow> d \<in> set u \<Longrightarrow> upper_char d = [d]"
  by (auto simp: upper_block_72_def split: if_splits)
    (simp_all add: upper_char_def upper_latin1_def upper_high_def upper_blocks)

lemma upper_block_73_fixed:
  "upper_block_73 c = Some u \<Longrightarrow> d \<in> set u \<Longrightarrow> upper_char d = [d]"
  by (auto simp: upper_block_73_def split: if_splits)
    (simp_all add: upper_char_def upper_latin1_def upper_high_def upper_blocks)

lemma upper_block_74_fixed:
  "upper_block_74 c = Some u \<Longrightarrow> d \<in> set u \<Longrightarrow> upper_char d = [d]"
  by (auto simp: upper_block_74_def split: if_splits)
    (simp_all add: upper_char_def upper_latin1_def upper_high_def upper_blocks)

lemma upper_block_75_fixed:
  "upper_block_75 c = Some u \<Longrightarrow> d \<in> set u \<Longrightarrow> upper_char d = [d]"
  by (auto simp: upper_block_75_def split: if_splits)
    (simp_all add: upper_char_def upper_latin1_def upper_high_def upper_blocks)

lemma upper_block_76_fixed:
  "upper_block_76 c = Some u \<Longrightarrow> d \<in> set u \<Longrightarrow> upper_char d = [d]"
  by (auto simp: upper_block_76_def split: if_splits)
    (simp_all add: upper_char_def upper_latin1_def upper_high_def upper_blocks)

lemma upper_block_77_fixed:
  "upper_block_77 c = Some u \<Longrightarrow> d \<in> set u \<Longrightarrow> upper_char d = [d]"
  by (auto simp: upper_block_77_def split: if_splits)
    (simp_all add: upper_char_def upper_latin1_def upper_high_def upper_blocks)

lemma upper_block_78_fixed:
  "upper_block_78 c = Some u \<Longrightarrow> d \<in> set u \<Longrightarrow> upper_char d = [d]"
  by (auto simp: upper_block_78_def split: if_splits)
    (simp_all add: upper_char_def upper_latin1_def upper_high_def upper_blocks)

lemma upper_block_79_fixed:
  "upper_block_79 c = Some u \<Longrightarrow> d \<in> set u \<Longrightarrow> upper_char d = [d]"
  by (auto simp: upper_block_79_def split: if_splits)
    (simp_all add: upper_char_def upper_latin1_def upper_high_def upper_blocks)

lemma upper_block_80_fixed:
  "upper_block_80 c = Some u \<Longrightarrow> d \<in> set u \<Longrightarrow> upper_char d = [d]"
  by (auto simp: upper_block_80_def split: if_splits)
    (simp_all add: upper_char_def upper_latin1_def upper_high_def upper_blocks)

lemma upper_block_81_fixed:
  "upper_block_81 c = Some u \<Longrightarrow> d \<in> set u \<Longrightarrow> upper_char d = [d]"
  by (auto simp: upper_block_81_def split: if_splits)
    (simp_all add: upper_char_def upper_latin1_def upper_high_def upper_blocks)

lemma upper_block_82_fixed:
  "upper_block_82 c = Some u \<Longrightarrow> d \<in> set u \<Longrightarrow> upper_char d = [d]"
  by (auto simp: upper_block_82_def split: if_splits)
    (simp_all add: upper_char_def upper_latin1_def upper_high_def upper_blocks)

lemma upper_block_83_fixed:
  "upper_block_83 c = Some u \<Longrightarrow> d \<in> set u \<Longrightarrow> upper_char d = [d]"
  by (auto simp: upper_block_83_def split: if_splits)
    (simp_all add: upper_char_def upper_latin1_def upper_high_def upper_blocks)

lemma upper_block_84_fixed:
  "upper_block_84 c = Some u \<Longrightarrow> d \<in> set u \<Longrightarrow> upper_char d = [d]"
  by (auto simp: upper_block_84_def split: if_splits)
    (simp_all add: upper_char_def upper_latin1_def upper_high_def upper_blocks)

lemma upper_block_85_fixed:
  "upper_block_85 c = Some u \<Longrightarrow> d \<in> set u \<Longrightarrow> upper_char d = [d]"
  by (auto simp: upper_block_85_def split: if_splits)
    (simp_all add: upper_char_def upper_latin1_def upper_high_def upper_blocks)

lemma upper_block_86_fixed:
  "upper_block_86 c = Some u \<Longrightarrow> d \<in> set u \<Longrightarrow> upper_char d = [d]"
  by (auto simp: upper_block_86_def split: if_splits)
    (simp_all add: upper_char_def upper_latin1_def upper_high_def upper_blocks)

lemma upper_block_87_fixed:
  "upper_block_87 c = Some u \<Longrightarrow> d \<in> set u \<Longrightarrow> upper_char d = [d]"
  by (auto simp: upper_block_87_def split: if_splits)
    (simp_all add: upper_char_def upper_latin1_def upper_high_def upper_blocks)

lemma upper_block_88_fixed:
  "upper_block_88 c = Some u \<Longrightarrow> d \<in> set u \<Longrightarrow> upper_char d = [d]"
  by (auto simp: upper_block_88_def split: if_splits)
    (simp_all add: upper_char_def upper_latin1_def upper_high_def upper_blocks)

lemma upper_block_89_fixed:
  "upper_block_89 c = Some u \<Longrightarrow> d \<in> set u \<Longrightarrow> upper_char d = [d]"
  by (auto simp: upper_block_89_def split: if_splits)
    (simp_all add: upper_char_def upper_latin1_def upper_high_def upper_blocks)

lemma upper_block_90_fixed:
  "upper_block_90 c = Some u \<Longrightarrow> d \<in> set u \<Longrightarrow> upper_char d = [d]"
  by (auto simp: upper_block_90_def split: if_splits)
    (simp_all add: upper_char_def upper_latin1_def upper_high_def upper_blocks)

lemma upper_block_91_fixed:
  "upper_block_91 c = Some u \<Longrightarrow> d \<in> set u \<Longrightarrow> upper_char d = [d]"
  by (auto simp: upper_block_91_def split: if_splits)
    (simp_all add: upper_char_def upper_latin1_def upper_high_def upper_blocks)

lemma upper_block_92_fixed:
  "upper_block_92 c = Some u \<Longrightarrow> d \<in> set u \<Longrightarrow> upper_char d = [d]"
  by (auto simp: upper_block_92_def split: if_splits)
    (simp_all add: upper_char_def upper_latin1_def upper_high_def upper_blocks)

lemmas upper_blocks_fixed =
  upper_block_01_fixed upper_block_02_fixed upper_block_03_fixed upper_block_04_fixed
  upper_block_05_fixed upper_block_06_fixed upper_block_07_fixed upper_block_08_fixed
  upper_block_09_fixed upper_block_10_fixed upper_block_11_fixed upper_block_12_fixed
  upper_block_13_fixed upper_block_14_fixed upper_block_15_fixed upper_block_16_fixed
  upper_block_17_fixed upper_block_18_fixed upper_block_19_fixed upper_block_20_fixed
  upper_block_21_fixed upper_block_22_fixed upper_block_23_fixed upper_block_24_fixed
  upper_block_25_fixed upper_block_26_fixed upper_block_27_fixed upper_block_28_fixed
  upper_block_29_fixed upper_block_30_fixed upper_block_31_fixed upper_block_32_fixed
  upper_block_33_fixed upper_block_34_fixed upper_block_35_fixed upper_block_36_fixed
  upper_block_37_fixed upper_block_38_fixed upper_block_39_fixed upper_block_40_fixed
  upper_block_41_fixed upper_block_42_fixed upper_block_43_fixed upper_block_44_fixed
  upper_block_45_fixed upper_block_46_fixed upper_block_47_fixed upper_block_48_fixed
  upper_block_49_fixed upper_block_50_fixed upper_block_51_fixed upper_block_52_fixed
  upper_block_53_fixed upper_block_54_fixed upper_block_55_fixed upper_block_56_fixed
  upper_block_57_fixed upper_block_58_fixed upper_block_59_fixed upper_block_60_fixed
  upper_block_61_fixed upper_block_62_fixed upper_block_63_fixed upper_block_64_fixed
  upper_block_65_fixed upper_block_66_fixed upper_block_67_fixed upper_block_68_fixed
  upper_block_69_fixed upper_block_70_fixed upper_block_71_fixed upper_block_72_fixed
  upper_block_73_fixed upper_block_74_fixed upper_block_75_fixed upper_block_76_fixed
  upper_block_77_fixed upper_block_78_fixed upper_block_79_fixed upper_block_80_fixed
  upper_block_81_fixed upper_block_82_fixed upper_block_83_fixed upper_block_84_fixed
  upper_block_85_fixed upper_block_86_fixed upper_block_87_fixed upper_block_88_fixed
  upper_block_89_fixed upper_block_90_fixed upper_block_91_fixed upper_block_92_fixed

lemma upper_high_fixed: "upper_high c = Some u \<Longrightarrow> d \<in> set u \<Longrightarrow> upper_char d = [d]"
  unfolding upper_high_def by (simp split: if_splits) (erule (1) upper_blocks_fixed)+

lemma upper_latin1_fixed:
  assumes "d \<in> set (upper_latin1 c)" and "c < 256"
  shows "upper_char d = [d]"
proof -
  from assms have "d = 924 \<or> d = 376 \<or> (d < 256 \<and> upper_latin1 d = [d])"
    by (auto simp: upper_latin1_def split: if_splits)
  moreover have "upper_char 924 = [924]" "upper_char 376 = [376]"
    by (simp_all add: upper_char_def upper_high_def upper_blocks)
  ultimately show ?thesis
    by (auto simp: upper_char_def)
qed

lemma upper_char_fixed: "d \<in> set (upper_char c) \<Longrightarrow> upper_char d = [d]"
proof (cases "c < 256")
  case True
  then show "d \<in> set (upper_char c) \<Longrightarrow> upper_char d = [d]"
    using upper_latin1_fixed by (simp add: upper_char_def)
next
  case False
  assume d: "d \<in> set (upper_char c)"
  show "upper_char d = [d]"
  proof (cases "upper_high c")
    case None
    then have "d = c" using d False by (simp add: upper_char_def)
    then show ?thesis using None False by (simp add: upper_char_def)
  next
    case (Some u)
    then have "d \<in> set u" using d False by (simp add: upper_char_def)
    then show ?thesis using Some upper_high_fixed by blast
  qed
qed

lemma str_upper_id: "\<forall>c\<in>set s. upper_char c = [c] \<Longrightarrow> str_upper s = s"
  by (induction s) (simp_all add: str_upper_def)

lemma str_upper_chars: "d \<in> set (str_upper s) \<Longrightarrow> upper_char d = [d]"
  by (auto simp: str_upper_def dest: upper_char_fixed)

lemma set_str_strip: "set (str_strip s) \<subseteq> set s"
proof -
  have "set (dropWhile isspace (rev (dropWhile isspace s))) \<subseteq> set (rev (dropWhile isspace s))"
    by (auto dest: set_dropWhileD)
  also have "\<dots> \<subseteq> set s"
    by (auto dest: set_dropWhileD)
  finally show ?thesis
    by (simp add: str_strip_def)
qed

lemma set_re_sub_word: "set (re_sub_word lit repl prev s) \<subseteq> set s \<union> set repl"
proof (induction s arbitrary: prev rule: length_induct)
  case (1 s)
  note IH = "1.IH" [rule_format]
  show ?case
  proof (cases s)
    case Nil
    then show ?thesis by simp
  next
    case (Cons c cs)
    show ?thesis
    proof (cases "match_here lit prev s")
      case True
      have "set (re_sub_word lit repl (Some (last lit)) (drop (length lit) s)) \<subseteq>
          set (drop (length lit) s) \<union> set repl"
        by (rule IH [OF drop_match_shorter [OF True]])
      moreover have "set (drop (length lit) s) \<subseteq> set s"
        by (rule set_drop_subset)
      ultimately show ?thesis
        unfolding re_sub_word_match [OF True] by auto
    next
      case False
      have "set (re_sub_word lit repl (Some c) cs) \<subseteq> set cs \<union> set repl"
        by (rule IH) (simp add: Cons)
      then show ?thesis
        using False Cons by auto
    qed
  qed
qed

lemma stripped_iff: "stripped s \<longleftrightarrow> s = [] \<or> (\<not> isspace (hd s) \<and> \<not> isspace (last s))"
  by (cases s) (simp_all add: stripped_def)

lemma dropWhile_id: "xs = [] \<or> \<not> P (hd xs) \<Longrightarrow> dropWhile P xs = xs"
  by (cases xs) auto

lemma str_strip_id:
  assumes "stripped s"
  shows "str_strip s = s"
proof (cases "s = []")
  case True
  then show ?thesis by (simp add: str_strip_def)
next
  case False
  then have h: "\<not> isspace (hd s)" "\<not> isspace (last s)"
    using assms by (simp_all add: stripped_iff)
  have d1: "dropWhile isspace s = s"
    using h by (intro dropWhile_id) simp
  have "hd (rev s) = last s"
    using False by (simp add: hd_rev)
  then have d2: "dropWhile isspace (rev s) = rev s"
    using h by (intro dropWhile_id) simp
  show ?thesis
    by (simp add: str_strip_def d1 d2)
qed

lemma stripped_str_strip: "stripped (str_strip s)"
proof -
  define t where "t = dropWhile isspace s"
  define u where "u = dropWhile isspace (rev t)"
  have res: "str_strip s = rev u"
    by (simp add: str_strip_def t_def u_def)
  show ?thesis
  proof (cases "u = []")
    case True
    then show ?thesis by (simp add: res stripped_iff)
  next
    case False
    have hu: "\<not> isspace (hd u)"
      using False unfolding u_def by (rule hd_dropWhile)
    have "rev t = takeWhile isspace (rev t) @ u"
      by (simp add: u_def)
    then have lu: "last (rev t) = last u"
      using False by (metis last_appendR)
    have "rev t \<noteq> []"
      using False by (auto simp: u_def)
    then have tne: "t \<noteq> []" by simp
    then have "\<not> isspace (hd t)"
      unfolding t_def by (rule hd_dropWhile)
    moreover have "last (rev t) = hd t"
      using tne by (simp add: last_rev)
    ultimately have "\<not> isspace (last u)"
      using lu by simp
    then show ?thesis
      using False hu by (simp add: res stripped_iff hd_rev last_rev)
  qed
qed

lemma re_sub_word_eq_Nil:
  assumes "repl \<noteq> []"
  shows "re_sub_word lit repl prev s = [] \<longleftrightarrow> s = []"
  using assms by (cases s) simp_all

lemma hd_re_sub_word:
  assumes "repl \<noteq> []" "s \<noteq> []"
  shows "hd (re_sub_word lit repl prev s) = hd s \<or> hd (re_sub_word lit repl prev s) = hd repl"
  using assms by (cases s) simp_all

lemma last_re_sub_word:
  assumes "repl \<noteq> []"
  shows "s \<noteq> [] \<Longrightarrow>
    last (re_sub_word lit repl prev s) = last s \<or> last (re_sub_word lit repl prev s) = last repl"
proof (induction s arbitrary: prev rule: length_induct)
  case (1 s)
  note IH = "1.IH" [rule_format]
  obtain c cs where s: "s = c # cs"
    using "1.prems" by (cases s) auto
  show ?case
  proof (cases "match_here lit prev s")
    case True
    let ?rest = "drop (length lit) s"
    have out: "re_sub_word lit repl prev s = repl @ re_sub_word lit repl (Some (last lit)) ?rest"
      by (rule re_sub_word_match [OF True])
    show ?thesis
    proof (cases "?rest = []")
      case True
      then show ?thesis using out assms by simp
    next
      case False
      then have ne: "re_sub_word lit repl (Some (last lit)) ?rest \<noteq> []"
        using assms by (simp add: re_sub_word_eq_Nil)
      have "last ?rest = last s"
        using False by simp
      moreover have "last (re_sub_word lit repl (Some (last lit)) ?rest) = last ?rest \<or>
          last (re_sub_word lit repl (Some (last lit)) ?rest) = last repl"
        using IH [OF drop_match_shorter [OF True] False] .
      ultimately show ?thesis
        using out ne by simp
    qed
  next
    case False
    then have out: "re_sub_word lit repl prev s = c # re_sub_word lit repl (Some c) cs"
      using s by simp
    show ?thesis
    proof (cases "cs = []")
      case True
      then show ?thesis using out s by simp
    next
      case cs: False
      then have ne: "re_sub_word lit repl (Some c) cs \<noteq> []"
        using assms by (simp add: re_sub_word_eq_Nil)
      have "length cs < length s" using s by simp
      then have "last (re_sub_word lit repl (Some c) cs) = last cs \<or>
          last (re_sub_word lit repl (Some c) cs) = last repl"
        using IH cs by blast
      then show ?thesis
        using out ne s cs by simp
    qed
  qed
qed

lemma stripped_re_sub_word:
  assumes "stripped s" "repl \<noteq> []" "\<not> isspace (hd repl)" "\<not> isspace (last repl)"
  shows "stripped (re_sub_word lit repl prev s)"
proof (cases "s = []")
  case True
  then show ?thesis by (simp add: stripped_iff)
next
  case False
  then have "\<not> isspace (hd s)" "\<not> isspace (last s)"
    using assms(1) by (simp_all add: stripped_iff)
  then show ?thesis
    using hd_re_sub_word [OF assms(2) False, of lit prev]
      last_re_sub_word [OF assms(2) False, of lit prev] assms(3,4)
    by (auto simp: stripped_iff)
qed

lemma alias_repl_shape:
  "\<forall>c\<in>set VINICIUS_acento. upper_char c = [c]" "\<forall>c\<in>set MARCOS. upper_char c = [c]"
  "\<not> isspace (hd VINICIUS_acento)" "\<not> isspace (last VINICIUS_acento)"
  "\<not> isspace (hd MARCOS)" "\<not> isspace (last MARCOS)"
  by (simp_all add: alias_lits upper_char_def upper_latin1_def isspace_def)

lemma padronizar_motorista_upper:
  "d \<in> set (padronizar_motorista c) \<Longrightarrow> upper_char d = [d]"
proof -
  assume d: "d \<in> set (padronizar_motorista c)"
  let ?x = "str_strip (str_upper (astype_str c))"
  let ?y = "re_sub_word VINICIUS VINICIUS_acento None ?x"
  have "d \<in> set ?y \<union> set MARCOS"
    using d set_re_sub_word [of MARCOS_NASCIMENTO MARCOS None ?y]
    by (auto simp: padronizar_motorista_def str_replace_word_def)
  then have "d \<in> set ?x \<union> set VINICIUS_acento \<union> set MARCOS"
    using set_re_sub_word [of VINICIUS VINICIUS_acento None ?x] by auto
  then have "d \<in> set (str_upper (astype_str c)) \<union> set VINICIUS_acento \<union> set MARCOS"
    using set_str_strip [of "str_upper (astype_str c)"] by auto
  then show ?thesis
    using str_upper_chars alias_repl_shape(1,2) by auto
qed

lemma padronizar_motorista_stripped: "stripped (padronizar_motorista c)"
  unfolding padronizar_motorista_def str_replace_word_def
  by (intro stripped_re_sub_word stripped_str_strip alias_heads(1,4) alias_repl_shape(3-6))

lemma padronizar_motorista_no_vinicius: "\<not> contains_word VINICIUS (padronizar_motorista c)"
  unfolding padronizar_motorista_def str_replace_word_def contains_word_def
  using vinicius_not_created no_vinicius_after_sub by blast

lemma padronizar_motorista_fixed:
  assumes "\<not> contains_word MARCOS_NASCIMENTO (padronizar_motorista c)"
  shows "padronizar_motorista (Some (padronizar_motorista c)) = padronizar_motorista c"
proof -
  let ?n = "padronizar_motorista c"
  have 1: "str_upper ?n = ?n"
    by (rule str_upper_id) (simp add: padronizar_motorista_upper)
  have 2: "str_strip ?n = ?n"
    by (rule str_strip_id) (rule padronizar_motorista_stripped)
  have 3: "str_replace_word VINICIUS VINICIUS_acento ?n = ?n"
    using padronizar_motorista_no_vinicius [of c]
    by (simp add: str_replace_word_def contains_word_def no_match_unchanged)
  have 4: "str_replace_word MARCOS_NASCIMENTO MARCOS ?n = ?n"
    using assms by (simp add: str_replace_word_def contains_word_def no_match_unchanged)
  have "padronizar_motorista (Some ?n) =
      str_replace_word MARCOS_NASCIMENTO MARCOS
        (str_replace_word VINICIUS VINICIUS_acento (str_strip (str_upper ?n)))"
    by (simp add: padronizar_motorista_def [of "Some ?n"] astype_str_def)
  then show ?thesis
    by (simp only: 1 2 3 4)
qed

lemma limpar_e_filtrar_dados_eq:
  "limpar_e_filtrar_dados parse data_ini data_fim dados =
     (map (padronizar_linha parse) dados,
      if registros_mantidos parse data_ini data_fim dados = [] then Inl ValueError
      else Inr (registros_mantidos parse data_ini data_fim dados))"
  by (simp add: registros_mantidos_def limpar_e_filtrar_dados_def Let_def)

text \<open>
  Claim C8 says that normalising the output of the normaliser again gives the same record
  set. It fails on the second alias: the name MARCOS NASCIMENTO NASCIMENTO is normalised
  to MARCOS NASCIMENTO (one replacement, from the left), and a second run rewrites that
  output to MARCOS.
\<close>

theorem idempotence_counterexample:
  "snd (limpar_e_filtrar_dados parse_none 10 12
     [\<lparr>MOTORISTA = Some (U ''MARCOS NASCIMENTO NASCIMENTO''),
        CENTRO_DE_CUSTO = Some (U ''AREIA''),
        DATA = Timestamp (to_datetime_date 11), QUANT = Some 5, TOTAL = Some 100\<rparr>]) =
     Inr [\<lparr>MOTORISTA = Some (U ''MARCOS NASCIMENTO''),
        CENTRO_DE_CUSTO = Some (U ''AREIA''),
        DATA = Timestamp (to_datetime_date 11), QUANT = Some 5, TOTAL = Some 100\<rparr>] \<and>
   snd (limpar_e_filtrar_dados parse_none 10 12
     [\<lparr>MOTORISTA = Some (U ''MARCOS NASCIMENTO''),
        CENTRO_DE_CUSTO = Some (U ''AREIA''),
        DATA = Timestamp (to_datetime_date 11), QUANT = Some 5, TOTAL = Some 100\<rparr>]) =
     Inr [\<lparr>MOTORISTA = Some (U ''MARCOS''),
        CENTRO_DE_CUSTO = Some (U ''AREIA''),
        DATA = Timestamp (to_datetime_date 11), QUANT = Some 5, TOTAL = Some 100\<rparr>] \<and>
   U ''MARCOS'' \<noteq> U ''MARCOS NASCIMENTO''"
  by (simp add: limpar_eval str_eval Let_def)

text \<open>
  Claim C8, amended. For every record set that is the output of the normaliser and in which
  no driver name still contains MARCOS NASCIMENTO as a whole word, and any date range that
  contains all its dates, running the normaliser again returns the same record set and
  leaves the frame it is given as it is: dates are timestamps already, and upper-casing,
  trimming and the substitution of VINICIUS change nothing on normalised driver names.
\<close>

theorem normalizer_idempotent_amended:
  assumes res: "snd (limpar_e_filtrar_dados parse data_ini data_fim dados) = Inr out"
    and noal: "\<forall>r\<in>set out. \<forall>n. MOTORISTA r = Some n \<longrightarrow> \<not> contains_word MARCOS_NASCIMENTO n"
    and rng: "\<forall>r\<in>set out. \<forall>t. DATA r = Timestamp t \<longrightarrow>
        to_datetime_date data_ini' \<le> t \<and> t \<le> to_datetime_date data_fim'"
  shows "limpar_e_filtrar_dados parse' data_ini' data_fim' out = (out, Inr out)"
proof -
  have out_eq: "out = registros_mantidos parse data_ini data_fim dados" and ne: "out \<noteq> []"
    using res by (auto simp: limpar_e_filtrar_dados_eq split: if_splits)
  have row: "padronizar_linha parse' r = r \<and> (\<exists>t. DATA r = Timestamp t)" if "r \<in> set out" for r
  proof -
    have mem: "r \<in> set (map (padronizar_linha parse) dados)"
      and "\<exists>t. DATA r = Timestamp t"
      using that unfolding out_eq registros_mantidos_eq by auto
    then obtain t where t: "DATA r = Timestamp t"
      by blast
    obtain r0 where r: "r = padronizar_linha parse r0"
      using mem by auto
    have m: "MOTORISTA r = Some (padronizar_motorista (MOTORISTA r0))"
      using r by simp
    then have "\<not> contains_word MARCOS_NASCIMENTO (padronizar_motorista (MOTORISTA r0))"
      using noal that by blast
    then have "padronizar_motorista (MOTORISTA r) = padronizar_motorista (MOTORISTA r0)"
      unfolding m by (rule padronizar_motorista_fixed)
    then have "padronizar_linha parse' r = r"
      using m t by (simp add: padronizar_linha_def to_datetime_coerce_def)
    then show ?thesis using t by blast
  qed
  have map_id: "map (padronizar_linha parse') out = out"
    using row by (simp add: map_idI)
  have "registros_mantidos parse' data_ini' data_fim' out = out"
    unfolding registros_mantidos_eq map_id
    using row rng by (intro filter_True) blast
  then show ?thesis
    using ne map_id by (simp add: limpar_e_filtrar_dados_eq)
qed

theorem normalizer_idempotent_amended_witness:
  "limpar_e_filtrar_dados parse_none 0 20
     [\<lparr>MOTORISTA = Some (U ''JOSE VIN'' @ [205] @ U ''CIUS''),
        CENTRO_DE_CUSTO = Some (U ''AREIA''),
        DATA = Timestamp (to_datetime_date 11), QUANT = Some 5, TOTAL = Some 100\<rparr>] =
   ([\<lparr>MOTORISTA = Some (U ''JOSE VIN'' @ [205] @ U ''CIUS''),
        CENTRO_DE_CUSTO = Some (U ''AREIA''),
        DATA = Timestamp (to_datetime_date 11), QUANT = Some 5, TOTAL = Some 100\<rparr>],
    Inr [\<lparr>MOTORISTA = Some (U ''JOSE VIN'' @ [205] @ U ''CIUS''),
        CENTRO_DE_CUSTO = Some (U ''AREIA''),
        DATA = Timestamp (to_datetime_date 11), QUANT = Some 5, TOTAL = Some 100\<rparr>])"
proof -
  have first: "snd (limpar_e_filtrar_dados parse_none 10 12
     [\<lparr>MOTORISTA = Some (U '' jose vinicius ''),
        CENTRO_DE_CUSTO = Some (U ''AREIA''),
        DATA = Timestamp (to_datetime_date 11), QUANT = Some 5, TOTAL = Some 100\<rparr>]) =
     Inr [\<lparr>MOTORISTA = Some (U ''JOSE VIN'' @ [205] @ U ''CIUS''),
        CENTRO_DE_CUSTO = Some (U ''AREIA''),
        DATA = Timestamp (to_datetime_date 11), QUANT = Some 5, TOTAL = Some 100\<rparr>]"
    by (simp add: limpar_eval str_eval Let_def)
  have no_alias: "\<not> contains_word MARCOS_NASCIMENTO (U ''JOSE VIN'' @ [205] @ U ''CIUS'')"
    by (simp add: contains_word_def match_here_wrong_head alias_lits(3) U_def)
  have in_range: "to_datetime_date 0 \<le> to_datetime_date 11 \<and>
      to_datetime_date 11 \<le> to_datetime_date 20"
    by (simp add: to_datetime_date_def ns_per_day_def)
  show ?thesis
    using normalizer_idempotent_amended [OF first, of 0 20 parse_none] no_alias in_range
    by simp
qed

section \<open>Grouping: the summary tables\<close>

lemma group_keys_set: "set (group_keys key df) = {k. \<exists>x\<in>set df. key x = Some k}"
proof -
  have "set (List.map_filter key df) = {k. \<exists>x\<in>set df. key x = Some k}"
    by (induction df) (auto simp: List.map_filter_simps split: option.splits)
  then show ?thesis by (simp add: group_keys_def)
qed

lemma group_keys_distinct: "distinct (group_keys key df)"
  by (simp add: group_keys_def)

lemma group_keys_sorted: "sorted (group_keys key df)"
  by (simp add: group_keys_def)

lemma sum_list_single:
  "distinct ks \<Longrightarrow>
   sum_list (map (\<lambda>k. if a = Some k then v else (0::rat)) ks) =
     (if \<exists>k\<in>set ks. a = Some k then v else 0)"
  by (induction ks) auto

lemma sum_groups:
  assumes "distinct ks"
  shows "sum_list (map (\<lambda>k. sum_list (map g (filter (\<lambda>x. f x = Some k) xs))) ks) =
         (sum_list (map g (filter (\<lambda>x. \<exists>k\<in>set ks. f x = Some k) xs)) :: rat)"
proof (induction xs)
  case Nil
  then show ?case by simp
next
  case (Cons x xs)
  have "sum_list (map (\<lambda>k. sum_list (map g (filter (\<lambda>x. f x = Some k) (x # xs)))) ks) =
        sum_list (map (\<lambda>k. (if f x = Some k then g x else 0) +
                           sum_list (map g (filter (\<lambda>x. f x = Some k) xs))) ks)"
    by (intro arg_cong [of _ _ sum_list] map_cong) auto
  also have "\<dots> = sum_list (map (\<lambda>k. if f x = Some k then g x else 0) ks) +
        sum_list (map (\<lambda>k. sum_list (map g (filter (\<lambda>x. f x = Some k) xs))) ks)"
    by (rule sum_list_addf)
  also have "\<dots> = (if \<exists>k\<in>set ks. f x = Some k then g x else 0) +
        sum_list (map g (filter (\<lambda>x. \<exists>k\<in>set ks. f x = Some k) xs))"
    using Cons.IH sum_list_single [OF assms] by simp
  finally show ?case by simp
qed

lemma nansum_filter:
  "nansum (map h (filter P xs)) =
   sum_list (map (\<lambda>x. case h x of None \<Rightarrow> 0 | Some v \<Rightarrow> v) (filter P xs))"
  by (simp add: nansum_def comp_def)

lemma nansum_groups:
  assumes "distinct ks"
  shows "sum_list (map (\<lambda>k. nansum (map h (group_rows f k xs))) ks) =
         nansum (map h (filter (\<lambda>x. \<exists>k\<in>set ks. f x = Some k) xs))"
  unfolding group_rows_def nansum_filter by (rule sum_groups [OF assms])

lemma count_notna_filter:
  "count_notna (map h (filter P xs)) = length (filter (\<lambda>x. P x \<and> h x \<noteq> None) xs)"
  by (simp add: count_notna_def filter_map comp_def)

lemma set_sort_values_desc: "set (sort_values_desc f xs) = set xs"
  by (simp add: sort_values_desc_def)

lemma sum_list_sort_values_desc:
  "sum_list (map g (sort_values_desc f xs)) = (sum_list (map g xs) :: rat)"
proof -
  have ins: "sum_list (map g (insort_key h x ys)) = g x + sum_list (map g ys)"
    for h :: "'a \<Rightarrow> rat" and x ys
    by (induction ys) simp_all
  have "sum_list (map g (sort_key h xs)) = sum_list (map g xs)" for h :: "'a \<Rightarrow> rat"
    by (induction xs) (simp_all add: ins)
  then show ?thesis by (simp add: sort_values_desc_def)
qed

lemma map_fst_transform: "map fst (transform_primeira_linha tab) = map fst tab"
  by (simp add: transform_primeira_linha_def case_prod_unfold comp_def)


lemma agg_motorista_row:
  assumes "d \<in> set (agg_motorista df)"
  shows "bm_MOTORISTA d \<in> set (group_keys chave_motorista df)"
    and "bm_VIAGENS d = length (filter (\<lambda>x. MOTORISTA (fst x) = Some (bm_MOTORISTA d) \<and> QUANT (fst x) \<noteq> None) df)"
    and "bm_BONUS d = round2 (nansum (map snd (filter (\<lambda>x. MOTORISTA (fst x) = Some (bm_MOTORISTA d)) df)))"
proof -
  from assms obtain m where m: "m \<in> set (group_keys chave_motorista df)"
    and d: "d = \<lparr>bm_MOTORISTA = m,
                  bm_VIAGENS = count_notna (map (\<lambda>x. QUANT (fst x)) (group_rows chave_motorista m df)),
                  bm_BONUS = round2 (nansum (map snd (group_rows chave_motorista m df)))\<rparr>"
    unfolding agg_motorista_def Let_def set_sort_values_desc by auto
  have idx: "bm_MOTORISTA d = m" by (simp add: d)
  show "bm_MOTORISTA d \<in> set (group_keys chave_motorista df)" using m idx by simp
  show "bm_VIAGENS d = length (filter (\<lambda>x. MOTORISTA (fst x) = Some (bm_MOTORISTA d) \<and> QUANT (fst x) \<noteq> None) df)"
    unfolding idx by (simp add: d group_rows_def count_notna_filter chave_motorista_def)
  show "bm_BONUS d = round2 (nansum (map snd (filter (\<lambda>x. MOTORISTA (fst x) = Some (bm_MOTORISTA d)) df)))"
    unfolding idx by (simp add: d group_rows_def chave_motorista_def)
qed

lemma calcular_bonus_parts:
  assumes "calcular_bonus dados = (df, tabela, bonus_motorista, resumo)"
  shows "df = zip dados (coluna_bonus dados)"
    and "map fst tabela = agg_tabela df"
    and "bonus_motorista = agg_motorista df"
    and "resumo = agg_centro_custo df"
    and "tabela = transform_primeira_linha
                    (map (\<lambda>t. (t, series_map bonus_motorista (tb_MOTORISTA t))) (agg_tabela df))"
  using assms by (auto simp: calcular_bonus_def Let_def map_fst_transform comp_def)

section \<open>The trip count\<close>



section \<open>Conservation of the bonus totals\<close>

lemma round2_round2: "round2 (round2 x) = round2 x"
proof -
  obtain n :: int where "round2 x = of_int n / 100"
    using round2_is_cents by blast
  then show ?thesis by (simp only: round2_cents)
qed

lemma nansum_Cons:
  "nansum (None # bs) = nansum bs" "nansum (Some v # bs) = v + nansum bs" "nansum [] = 0"
  by (simp_all add: nansum_def)

lemma nansum_cents:
  assumes "\<forall>b\<in>set bs. \<forall>v. b = Some v \<longrightarrow> round2 v = v"
  shows "round2 (nansum bs) = nansum bs"
proof -
  have "\<exists>n::int. nansum bs = of_int n / 100"
    using assms
  proof (induction bs)
    case Nil
    have "nansum [] = of_int 0 / 100" by (simp add: nansum_Cons)
    then show ?case by blast
  next
    case (Cons b bs)
    then obtain n :: int where n: "nansum bs = of_int n / 100" by auto
    show ?case
    proof (cases b)
      case None
      then show ?thesis using n by (auto simp: nansum_Cons)
    next
      case (Some v)
      then have "round2 v = v" using Cons.prems by simp
      moreover obtain k :: int where "round2 v = of_int k / 100"
        using round2_is_cents by blast
      ultimately have "v = of_int k / 100" by simp
      then have "nansum (b # bs) = of_int (k + n) / 100"
        using n Some by (simp add: nansum_Cons add_divide_distrib)
      then show ?thesis by blast
    qed
  qed
  then obtain n :: int where "nansum bs = of_int n / 100" by blast
  then show ?thesis by (simp only: round2_cents)
qed

lemma bonus_column_entry:
  assumes "x \<in> set (zip dados (coluna_bonus dados))"
  shows "snd x =
     (if isin (CENTRO_DE_CUSTO (fst x)) [U ''FRETE BRITA'', U ''AREIA'']
      then nan_round2 (nan_mul (QUANT (fst x)) 1)
      else if isin (CENTRO_DE_CUSTO (fst x)) [U ''FRETE CIMENTO'', U ''FRETE ADITIVO'']
      then nan_round2 (nan_mul (TOTAL (fst x)) (2 / 100))
      else Some 0)"
proof -
  from assms obtain i where i: "i < length dados" and x: "x = (dados ! i, coluna_bonus dados ! i)"
    by (auto simp: in_set_zip coluna_bonus_length prod_eq_iff)
  show ?thesis unfolding x fst_conv snd_conv by (rule coluna_bonus_nth [OF i])
qed

lemma bonus_column_cents:
  assumes "x \<in> set (zip dados (coluna_bonus dados))" and "snd x = Some v"
  shows "round2 v = v"
  using assms(2) unfolding bonus_column_entry [OF assms(1)]
  by (auto simp: nan_round2_def round2_round2 round2_zero split: if_splits)

lemma bonus_no_centre:
  assumes "x \<in> set (zip dados (coluna_bonus dados))" and "CENTRO_DE_CUSTO (fst x) = None"
  shows "snd x = Some 0"
  unfolding bonus_column_entry [OF assms(1)] by (simp add: assms(2) isin_def)

lemma nansum_filter_zero:
  assumes "\<forall>x\<in>set xs. \<not> P x \<longrightarrow> h x = Some 0"
  shows "nansum (map h (filter P xs)) = nansum (map h xs)"
  using assms by (induction xs) (auto simp: nansum_def)

lemma sum_round2_groups:
  assumes cents: "\<forall>x\<in>set df. \<forall>v. snd x = Some v \<longrightarrow> round2 v = v"
    and "distinct ks"
  shows "sum_list (map (\<lambda>k. round2 (nansum (map snd (group_rows f k df)))) ks) =
         nansum (map snd (filter (\<lambda>x. \<exists>k\<in>set ks. f x = Some k) df))"
proof -
  have "round2 (nansum (map snd (group_rows f k df))) = nansum (map snd (group_rows f k df))" for k
    by (rule nansum_cents) (use cents in \<open>auto simp: group_rows_def\<close>)
  then show ?thesis
    by (simp only: nansum_groups [OF assms(2)])
qed

lemma normalised_driver_present:
  assumes "snd (limpar_e_filtrar_dados parse data_ini data_fim dados) = Inr out"
    and "r \<in> set out"
  shows "MOTORISTA r \<noteq> None"
proof -
  have "out = registros_mantidos parse data_ini data_fim dados"
    using assms(1) by (simp add: limpar_e_filtrar_dados_eq split: if_splits)
  then have "r \<in> set (map (padronizar_linha parse) dados)"
    using assms(2) by (simp add: registros_mantidos_eq)
  then show ?thesis by auto
qed

lemma driver_summary_total:
  assumes present: "\<forall>r\<in>set dados. MOTORISTA r \<noteq> None"
    and df: "df = zip dados (coluna_bonus dados)"
  shows "sum_list (map bm_BONUS (agg_motorista df)) = nansum (map snd df)"
proof -
  let ?ks = "group_keys chave_motorista df"
  have cents: "\<forall>x\<in>set df. \<forall>v. snd x = Some v \<longrightarrow> round2 v = v"
    using bonus_column_cents unfolding df by blast
  have "sum_list (map bm_BONUS (agg_motorista df)) =
        sum_list (map (\<lambda>m. round2 (nansum (map snd (group_rows chave_motorista m df)))) ?ks)"
    by (simp add: agg_motorista_def sum_list_sort_values_desc Let_def comp_def)
  also have "\<dots> = nansum (map snd (filter (\<lambda>x. \<exists>k\<in>set ?ks. chave_motorista x = Some k) df))"
    by (rule sum_round2_groups [OF cents group_keys_distinct])
  also have "filter (\<lambda>x. \<exists>k\<in>set ?ks. chave_motorista x = Some k) df = df"
  proof (rule filter_True, rule ballI)
    fix x assume x: "x \<in> set df"
    then have "fst x \<in> set dados" unfolding df by (metis prod.collapse set_zip_leftD)
    then obtain m where "chave_motorista x = Some m"
      using present by (auto simp: chave_motorista_def)
    moreover from this x have "m \<in> set ?ks" unfolding group_keys_set by blast
    ultimately show "\<exists>k\<in>set ?ks. chave_motorista x = Some k" by blast
  qed
  finally show ?thesis .
qed

lemma centre_summary_total:
  assumes df: "df = zip dados (coluna_bonus dados)"
  shows "sum_list (map cc_BONUS_TOTAL (agg_centro_custo df)) = nansum (map snd df)"
proof -
  let ?ks = "group_keys chave_centro df"
  have cents: "\<forall>x\<in>set df. \<forall>v. snd x = Some v \<longrightarrow> round2 v = v"
    using bonus_column_cents unfolding df by blast
  have "sum_list (map cc_BONUS_TOTAL (agg_centro_custo df)) =
        sum_list (map (\<lambda>c. round2 (nansum (map snd (group_rows chave_centro c df)))) ?ks)"
    by (simp add: agg_centro_custo_def sum_list_sort_values_desc comp_def)
  also have "\<dots> = nansum (map snd (filter (\<lambda>x. \<exists>k\<in>set ?ks. chave_centro x = Some k) df))"
    by (rule sum_round2_groups [OF cents group_keys_distinct])
  also have "\<dots> = nansum (map snd df)"
  proof (rule nansum_filter_zero, rule ballI, rule impI)
    fix x assume x: "x \<in> set df" and no: "\<not> (\<exists>k\<in>set ?ks. chave_centro x = Some k)"
    have "CENTRO_DE_CUSTO (fst x) = None"
    proof (cases "CENTRO_DE_CUSTO (fst x)")
      case None
      then show ?thesis .
    next
      case (Some c)
      then have "chave_centro x = Some c" by (simp add: chave_centro_def)
      moreover from this x have "c \<in> set ?ks" unfolding group_keys_set by blast
      ultimately show ?thesis using no by blast
    qed
    then show "snd x = Some 0" using x bonus_no_centre unfolding df by blast
  qed
  finally show ?thesis .
qed

lemma detail_rows_total:
  assumes df: "df = zip dados (coluna_bonus dados)"
  shows "sum_list (map tb_BONUS (filter (\<lambda>t. tb_MOTORISTA t = m) (agg_tabela df))) =
         nansum (map snd (filter (\<lambda>x. MOTORISTA (fst x) = Some m) df))"
proof -
  let ?ks = "filter (\<lambda>k. fst k = m) (group_keys chave_motorista_centro df)"
  have cents: "\<forall>x\<in>set df. \<forall>v. snd x = Some v \<longrightarrow> round2 v = v"
    using bonus_column_cents unfolding df by blast
  have dist: "distinct ?ks" using group_keys_distinct by (rule distinct_filter)
  have "sum_list (map tb_BONUS (filter (\<lambda>t. tb_MOTORISTA t = m) (agg_tabela df))) =
        sum_list (map (\<lambda>k. round2 (nansum (map snd (group_rows chave_motorista_centro k df)))) ?ks)"
    by (simp add: agg_tabela_def filter_map Let_def comp_def)
  also have "\<dots> = nansum (map snd (filter (\<lambda>x. \<exists>k\<in>set ?ks. chave_motorista_centro x = Some k) df))"
    by (rule sum_round2_groups [OF cents dist])
  also have "filter (\<lambda>x. \<exists>k\<in>set ?ks. chave_motorista_centro x = Some k) df =
        filter (\<lambda>x. CENTRO_DE_CUSTO (fst x) \<noteq> None) (filter (\<lambda>x. MOTORISTA (fst x) = Some m) df)"
  proof -
    have "(\<exists>k\<in>set ?ks. chave_motorista_centro x = Some k) \<longleftrightarrow>
          (MOTORISTA (fst x) = Some m \<and> CENTRO_DE_CUSTO (fst x) \<noteq> None)" if "x \<in> set df" for x
    proof
      assume "\<exists>k\<in>set ?ks. chave_motorista_centro x = Some k"
      then obtain c where "chave_motorista_centro x = Some (m, c)" by auto
      then show "MOTORISTA (fst x) = Some m \<and> CENTRO_DE_CUSTO (fst x) \<noteq> None"
        by (auto simp: chave_motorista_centro_def split: option.splits)
    next
      assume "MOTORISTA (fst x) = Some m \<and> CENTRO_DE_CUSTO (fst x) \<noteq> None"
      then obtain c where key: "chave_motorista_centro x = Some (m, c)"
        by (auto simp: chave_motorista_centro_def)
      with that have "(m, c) \<in> set (group_keys chave_motorista_centro df)"
        unfolding group_keys_set by blast
      then have "(m, c) \<in> set ?ks" by simp
      with key show "\<exists>k\<in>set ?ks. chave_motorista_centro x = Some k" by blast
    qed
    then have "filter (\<lambda>x. \<exists>k\<in>set ?ks. chave_motorista_centro x = Some k) df =
        filter (\<lambda>x. MOTORISTA (fst x) = Some m \<and> CENTRO_DE_CUSTO (fst x) \<noteq> None) df"
      by (intro filter_cong refl) blast
    then show ?thesis by simp
  qed
  also have "nansum (map snd (filter (\<lambda>x. CENTRO_DE_CUSTO (fst x) \<noteq> None)
                 (filter (\<lambda>x. MOTORISTA (fst x) = Some m) df))) =
             nansum (map snd (filter (\<lambda>x. MOTORISTA (fst x) = Some m) df))"
  proof (rule nansum_filter_zero, rule ballI, rule impI)
    fix x assume "x \<in> set (filter (\<lambda>x. MOTORISTA (fst x) = Some m) df)"
      and "\<not> CENTRO_DE_CUSTO (fst x) \<noteq> None"
    then have "x \<in> set df" "CENTRO_DE_CUSTO (fst x) = None" by simp_all
    then show "snd x = Some 0" using bonus_no_centre unfolding df by blast
  qed
  finally show ?thesis .
qed

lemma detail_rows_of_driver:
  "map fst (filter (\<lambda>(t, v). P t) tab) = filter P (map fst tab)"
  by (induction tab) auto

text \<open>
  Claim C3. Whenever the report is computed (the normaliser leaves at least one record),
  the bonus totals of the summary by driver add up to the sum of the bonus of the records,
  and so do the totals of the summary by cost centre; for every driver of the summary,
  the bonus of the driver's rows of the detailed table adds up to the driver's total. The
  records are the ones the normaliser keeps, each with its bonus; a sum skips a missing
  bonus, as the sums of the tables do. The equalities are exact: every bonus is a whole
  number of hundredths, so rounding a sum of them to two places changes nothing.
\<close>

theorem bonus_totals_conserved:
  assumes "relatorio parse data_ini data_fim dados_raw = Inr (df, tabela, bonus_motorista, resumo)"
  shows "df = zip (registros_mantidos parse data_ini data_fim dados_raw)
                  (coluna_bonus (registros_mantidos parse data_ini data_fim dados_raw)) \<and>
         df \<noteq> [] \<and>
         sum_list (map bm_BONUS bonus_motorista) = nansum (map snd df) \<and>
         sum_list (map cc_BONUS_TOTAL resumo) = nansum (map snd df) \<and>
         (\<forall>d\<in>set bonus_motorista.
            sum_list (map (\<lambda>(t, v). tb_BONUS t)
              (filter (\<lambda>(t, v). tb_MOTORISTA t = bm_MOTORISTA d) tabela)) = bm_BONUS d)"
proof -
  let ?out = "registros_mantidos parse data_ini data_fim dados_raw"
  from assms have res: "snd (limpar_e_filtrar_dados parse data_ini data_fim dados_raw) = Inr ?out"
    and nonempty: "?out \<noteq> []"
    and run: "calcular_bonus ?out = (df, tabela, bonus_motorista, resumo)"
    by (auto simp: relatorio_def limpar_e_filtrar_dados_eq split: if_splits)
  note parts = calcular_bonus_parts [OF run]
  have cents: "\<forall>x\<in>set df. \<forall>v. snd x = Some v \<longrightarrow> round2 v = v"
    using bonus_column_cents unfolding parts(1) by blast
  have present: "\<forall>r\<in>set ?out. MOTORISTA r \<noteq> None"
    using normalised_driver_present [OF res] by blast
  have "df \<noteq> []"
    using nonempty unfolding parts(1) by (cases ?out) (simp_all add: coluna_bonus_def np_select_def Let_def upt_rec)
  moreover have "sum_list (map bm_BONUS bonus_motorista) = nansum (map snd df)"
    unfolding parts(3) by (rule driver_summary_total [OF present parts(1)])
  moreover have "sum_list (map cc_BONUS_TOTAL resumo) = nansum (map snd df)"
    unfolding parts(4) by (rule centre_summary_total [OF parts(1)])
  moreover have "sum_list (map (\<lambda>(t, v). tb_BONUS t)
              (filter (\<lambda>(t, v). tb_MOTORISTA t = bm_MOTORISTA d) tabela)) = bm_BONUS d"
    if d: "d \<in> set bonus_motorista" for d
  proof -
    let ?m = "bm_MOTORISTA d"
    have "map (\<lambda>(t, v). tb_BONUS t) (filter (\<lambda>(t, v). tb_MOTORISTA t = ?m) tabela) =
          map tb_BONUS (map fst (filter (\<lambda>(t, v). tb_MOTORISTA t = ?m) tabela))"
      by (simp add: case_prod_unfold comp_def)
    also have "\<dots> = map tb_BONUS (filter (\<lambda>t. tb_MOTORISTA t = ?m) (agg_tabela df))"
      by (simp only: detail_rows_of_driver parts(2))
    finally have "sum_list (map (\<lambda>(t, v). tb_BONUS t)
              (filter (\<lambda>(t, v). tb_MOTORISTA t = ?m) tabela)) =
          nansum (map snd (filter (\<lambda>x. MOTORISTA (fst x) = Some ?m) df))"
      by (simp only: detail_rows_total [OF parts(1)])
    also have "\<dots> = round2 (nansum (map snd (filter (\<lambda>x. MOTORISTA (fst x) = Some ?m) df)))"
      by (rule sym, rule nansum_cents) (use cents in auto)
    also have "\<dots> = bm_BONUS d"
      using agg_motorista_row(3) [of d df] d unfolding parts(3) by simp
    finally show ?thesis .
  qed
  ultimately show ?thesis using parts(1) by blast
qed

theorem bonus_totals_conserved_witness:
  "relatorio parse_none 1 31
     [\<lparr>MOTORISTA = Some (U ''jo'' @ [227] @ U ''o''), CENTRO_DE_CUSTO = Some (U ''AREIA''),
        DATA = Timestamp (to_datetime_date 5), QUANT = Some 10, TOTAL = Some 500\<rparr>,
      \<lparr>MOTORISTA = Some (U ''JO'' @ [195] @ U ''O''), CENTRO_DE_CUSTO = Some (U ''FRETE CIMENTO''),
        DATA = Timestamp (to_datetime_date 6), QUANT = Some 0, TOTAL = Some 1000\<rparr>,
      \<lparr>MOTORISTA = Some (U ''ANA''), CENTRO_DE_CUSTO = None,
        DATA = Timestamp (to_datetime_date 7), QUANT = Some 7, TOTAL = Some 70\<rparr>] =
   Inr ([(\<lparr>MOTORISTA = Some (U ''JO'' @ [195] @ U ''O''), CENTRO_DE_CUSTO = Some (U ''AREIA''),
            DATA = Timestamp (to_datetime_date 5), QUANT = Some 10, TOTAL = Some 500\<rparr>, Some 10),
         (\<lparr>MOTORISTA = Some (U ''JO'' @ [195] @ U ''O''), CENTRO_DE_CUSTO = Some (U ''FRETE CIMENTO''),
            DATA = Timestamp (to_datetime_date 6), QUANT = Some 0, TOTAL = Some 1000\<rparr>, Some 20),
         (\<lparr>MOTORISTA = Some (U ''ANA''), CENTRO_DE_CUSTO = None,
            DATA = Timestamp (to_datetime_date 7), QUANT = Some 7, TOTAL = Some 70\<rparr>, Some 0)],
        [(\<lparr>tb_MOTORISTA = U ''JO'' @ [195] @ U ''O'', tb_CENTRO_DE_CUSTO = U ''AREIA'',
            tb_VIAGENS = 1, tb_QUANT = 10, tb_FATURAMENTO = 500, tb_BONUS = 10\<rparr>, Some 30),
         (\<lparr>tb_MOTORISTA = U ''JO'' @ [195] @ U ''O'', tb_CENTRO_DE_CUSTO = U ''FRETE CIMENTO'',
            tb_VIAGENS = 1, tb_QUANT = 0, tb_FATURAMENTO = 1000, tb_BONUS = 20\<rparr>, None)],
        [\<lparr>bm_MOTORISTA = U ''JO'' @ [195] @ U ''O'', bm_VIAGENS = 2, bm_BONUS = 30\<rparr>,
         \<lparr>bm_MOTORISTA = U ''ANA'', bm_VIAGENS = 1, bm_BONUS = 0\<rparr>],
        [\<lparr>cc_CENTRO_DE_CUSTO = U ''FRETE CIMENTO'', cc_BONUS_TOTAL = 20\<rparr>,
         \<lparr>cc_CENTRO_DE_CUSTO = U ''AREIA'', cc_BONUS_TOTAL = 10\<rparr>]) \<and>
   sum_list (map bm_BONUS
        [\<lparr>bm_MOTORISTA = U ''JO'' @ [195] @ U ''O'', bm_VIAGENS = 2, bm_BONUS = 30\<rparr>,
         \<lparr>bm_MOTORISTA = U ''ANA'', bm_VIAGENS = 1, bm_BONUS = 0\<rparr>]) = 30 \<and>
   sum_list (map cc_BONUS_TOTAL
        [\<lparr>cc_CENTRO_DE_CUSTO = U ''FRETE CIMENTO'', cc_BONUS_TOTAL = 20\<rparr>,
         \<lparr>cc_CENTRO_DE_CUSTO = U ''AREIA'', cc_BONUS_TOTAL = 10\<rparr>]) = 30 \<and>
   nansum [Some 10, Some 20, Some 0] = 30"
proof -
  have run: "relatorio parse_none 1 31
     [\<lparr>MOTORISTA = Some (U ''jo'' @ [227] @ U ''o''), CENTRO_DE_CUSTO = Some (U ''AREIA''),
        DATA = Timestamp (to_datetime_date 5), QUANT = Some 10, TOTAL = Some 500\<rparr>,
      \<lparr>MOTORISTA = Some (U ''JO'' @ [195] @ U ''O''), CENTRO_DE_CUSTO = Some (U ''FRETE CIMENTO''),
        DATA = Timestamp (to_datetime_date 6), QUANT = Some 0, TOTAL = Some 1000\<rparr>,
      \<lparr>MOTORISTA = Some (U ''ANA''), CENTRO_DE_CUSTO = None,
        DATA = Timestamp (to_datetime_date 7), QUANT = Some 7, TOTAL = Some 70\<rparr>] =
   Inr ([(\<lparr>MOTORISTA = Some (U ''JO'' @ [195] @ U ''O''), CENTRO_DE_CUSTO = Some (U ''AREIA''),
            DATA = Timestamp (to_datetime_date 5), QUANT = Some 10, TOTAL = Some 500\<rparr>, Some 10),
         (\<lparr>MOTORISTA = Some (U ''JO'' @ [195] @ U ''O''), CENTRO_DE_CUSTO = Some (U ''FRETE CIMENTO''),
            DATA = Timestamp (to_datetime_date 6), QUANT = Some 0, TOTAL = Some 1000\<rparr>, Some 20),
         (\<lparr>MOTORISTA = Some (U ''ANA''), CENTRO_DE_CUSTO = None,
            DATA = Timestamp (to_datetime_date 7), QUANT = Some 7, TOTAL = Some 70\<rparr>, Some 0)],
        [(\<lparr>tb_MOTORISTA = U ''JO'' @ [195] @ U ''O'', tb_CENTRO_DE_CUSTO = U ''AREIA'',
            tb_VIAGENS = 1, tb_QUANT = 10, tb_FATURAMENTO = 500, tb_BONUS = 10\<rparr>, Some 30),
         (\<lparr>tb_MOTORISTA = U ''JO'' @ [195] @ U ''O'', tb_CENTRO_DE_CUSTO = U ''FRETE CIMENTO'',
            tb_VIAGENS = 1, tb_QUANT = 0, tb_FATURAMENTO = 1000, tb_BONUS = 20\<rparr>, None)],
        [\<lparr>bm_MOTORISTA = U ''JO'' @ [195] @ U ''O'', bm_VIAGENS = 2, bm_BONUS = 30\<rparr>,
         \<lparr>bm_MOTORISTA = U ''ANA'', bm_VIAGENS = 1, bm_BONUS = 0\<rparr>],
        [\<lparr>cc_CENTRO_DE_CUSTO = U ''FRETE CIMENTO'', cc_BONUS_TOTAL = 20\<rparr>,
         \<lparr>cc_CENTRO_DE_CUSTO = U ''AREIA'', cc_BONUS_TOTAL = 10\<rparr>])"
    by (simp add: relatorio_def limpar_eval str_eval calcular_eval round2_numeral round2_zero Let_def)
  show ?thesis
    using bonus_totals_conserved [OF run] run
    by (simp add: nansum_def)
qed

end
